theory Spec2Isabelle
  imports Main "HOL-Library.Word" "HOL-Library.Monad_Syntax"
begin

section \<open>Data model\<close>

text \<open>
  Pointers into the AST arena (\<^verbatim>\<open>Stmt *\<close>) and into the declaration arena
  (\<^verbatim>\<open>Decl *\<close>) are indices; a null pointer is \<open>None\<close>. A function of the
  program returns \<open>None\<close> where the C++ aborts: \<^verbatim>\<open>llvm_unreachable\<close>, a failed
  \<^verbatim>\<open>cast<>\<close>, a null or dangling dereference, \<^verbatim>\<open>back()\<close> of an empty vector.
\<close>

type_synonym SourceLocation = nat
type_synonym StmtRef = nat
type_synonym DeclRef = nat
type_synonym IdentifierInfo = string
type_synonym VarExpr = nat

text \<open>
  Expressions: a statement label is an \<^verbatim>\<open>IntegerConstantExpr\<close>, whose value is an
  unsigned \<^verbatim>\<open>APInt\<close>; every other expression is opaque here.
\<close>

datatype Expr =
    IntegerConstantExpr (getLocation: SourceLocation) (getValue: nat)
  | OtherExpr (getLocation: SourceLocation)

text \<open>\<^verbatim>\<open>ExprResult\<close> / \<^verbatim>\<open>StmtResult\<close>: invalid, valid and null, or valid and set.\<close>

datatype ExprResult = ExprError | ExprEmpty | ExprOk Expr

fun isUsable :: "ExprResult \<Rightarrow> bool" where
  "isUsable (ExprOk _) = True"
| "isUsable _ = False"

fun get :: "ExprResult \<Rightarrow> Expr option" where
  "get (ExprOk E) = Some E"
| "get _ = None"

datatype StmtResult = StmtError | StmtOk StmtRef

record ConstructName =
  NameLoc :: SourceLocation
  IDInfo :: "IdentifierInfo option"

text \<open>
  Statements: the closed set of statement classes, each with its own operands; a
  \<^verbatim>\<open>StmtLabelReference\<close> is a nullable statement pointer.
\<close>

datatype ConstructStmtClass = ElseStmtClass | EndIfStmtClass | EndDoStmtClass

datatype StmtKind =
    AssignStmt "StmtRef option" VarExpr
  | AssignedGotoStmt VarExpr "StmtRef option list"
  | GotoStmt "StmtRef option"
  | ComputedGotoStmt "Expr option" "StmtRef option list"
  | IfStmt "Expr option" "StmtRef option" "StmtRef option" ConstructName
  | DoStmt "StmtRef option" "VarExpr option" "Expr option" "Expr option" "Expr option"
      ConstructName
  | DoWhileStmt "Expr option" ConstructName
  | ConstructPartStmt ConstructStmtClass
  | CycleStmt "StmtRef option" ConstructName
  | ExitStmt "StmtRef option" ConstructName
  | ContinueStmt
  | StopStmt "Expr option"
  | ReturnStmt "Expr option"
  | CallStmt DeclRef "Expr list"
  | AssignmentStmt Expr Expr

record Stmt =
  StmtLoc :: SourceLocation
  StmtLabel :: "Expr option"
  StmtLabelUsedAsGotoTarget :: bool
  StmtLabelUsedAsAssignTarget :: bool
  Kind :: StmtKind

text \<open>Declarations, as far as \<^verbatim>\<open>ActOnCallStmt\<close> tells them apart.\<close>

datatype FunctionKind = NormalFunction | StatementFunction | External | Subroutine

datatype Decl =
    VarDecl IdentifierInfo
  | IntrinsicFunctionDecl IdentifierInfo
  | FunctionDecl FunctionKind IdentifierInfo SourceLocation
  | OtherDecl IdentifierInfo

text \<open>
  Diagnostics: \<^verbatim>\<open>Diags.Report(Loc, diag::id) << arg << ...\<close> appends the identifier,
  the location and the arguments (source ranges are left out).
\<close>

datatype DiagID =
    err_expected_kw | note_matching | err_expected_stmt_label_end_do
  | err_stmt_label_must_decl_after | note_previous_definition
  | err_invalid_do_terminating_stmt | err_stmt_not_in_if | err_end_do_without_do
  | err_call_requires_subroutine | warn_deprecated_computed_goto_stmt
  | err_use_of_invalid_construct_name | err_expected_construct_name | note_matching_ident
  | err_expected_executable_stmt | err_expected_ident | err_expected_func_after
  | DuplicateLabel | typecheck_diagnostic

datatype DiagArg = ArgStr string | ArgLabel Expr | ArgInt nat | ArgIdent IdentifierInfo
  | ArgLoc SourceLocation

type_synonym Diagnostic = "DiagID \<times> SourceLocation \<times> DiagArg list"

section \<open>Statement label scope (Scope.cpp)\<close>

text \<open>
  \<^verbatim>\<open>StmtLabelInteger\<close> is an unsigned integer type declared in a header; its width is
  the parameter \<open>'w\<close>. \<^verbatim>\<open>StmtLabelDeclsInScope\<close> is an associative container with
  unique keys, \<^verbatim>\<open>ForwardStmtLabelDeclsInScope\<close> a vector.
\<close>

record StmtLabelForwardDecl =
  FwdStmtLabel :: Expr
  FwdStatement :: StmtRef
  ResolveCallbackData :: nat

definition ForwardDecl :: "Expr \<Rightarrow> StmtRef \<Rightarrow> nat \<Rightarrow> StmtLabelForwardDecl" where
  "ForwardDecl SLabel S CallbackData =
     \<lparr>FwdStmtLabel = SLabel, FwdStatement = S, ResolveCallbackData = CallbackData\<rparr>"

record (overloaded) ('w::len) StmtLabelScope =
  StmtLabelDeclsInScope :: "'w word \<rightharpoonup> StmtRef"
  ForwardStmtLabelDeclsInScope :: "StmtLabelForwardDecl list"

text \<open>\<^verbatim>\<open>APInt::getLimitedValue(Limit)\<close>: the value if it is below the limit, else the limit.\<close>

definition getLimitedValue :: "nat \<Rightarrow> nat \<Rightarrow> nat" where
  "getLimitedValue v Limit = (if v > Limit then Limit else v)"

text \<open>\<^verbatim>\<open>std::numeric_limits<StmtLabelInteger>::max()\<close>.\<close>

definition StmtLabelInteger_max :: "'w::len itself \<Rightarrow> nat" where
  "StmtLabelInteger_max _ = 2 ^ LENGTH('w) - 1"

definition GetStmtLabelValue :: "Expr \<Rightarrow> ('w::len) word option" where
  "GetStmtLabelValue E =
     (case E of
        IntegerConstantExpr _ v \<Rightarrow>
          Some (of_nat (getLimitedValue v (StmtLabelInteger_max TYPE('w))))
      | OtherExpr _ \<Rightarrow> None)"

text \<open>\<^verbatim>\<open>insert\<close> on a container with unique keys keeps the element already there.\<close>

definition map_insert :: "'k \<Rightarrow> 'v \<Rightarrow> ('k \<rightharpoonup> 'v) \<Rightarrow> ('k \<rightharpoonup> 'v)" where
  "map_insert k v m = (case m k of None \<Rightarrow> m(k \<mapsto> v) | Some _ \<Rightarrow> m)"

definition Declare ::
  "Expr \<Rightarrow> StmtRef \<Rightarrow> ('w::len) StmtLabelScope \<Rightarrow> 'w StmtLabelScope option" where
  "Declare SLabel Statement Sc = do {
     Key \<leftarrow> GetStmtLabelValue SLabel;
     Some (Sc\<lparr>StmtLabelDeclsInScope := map_insert Key Statement (StmtLabelDeclsInScope Sc)\<rparr>)
   }"

definition Resolve :: "Expr \<Rightarrow> ('w::len) StmtLabelScope \<Rightarrow> StmtRef option option" where
  "Resolve SLabel Sc = do {
     Key \<leftarrow> GetStmtLabelValue SLabel;
     Some (StmtLabelDeclsInScope Sc Key)
   }"

definition DeclareForwardReference ::
  "StmtLabelForwardDecl \<Rightarrow> ('w::len) StmtLabelScope \<Rightarrow> 'w StmtLabelScope" where
  "DeclareForwardReference Reference Sc =
     Sc\<lparr>ForwardStmtLabelDeclsInScope := ForwardStmtLabelDeclsInScope Sc @ [Reference]\<rparr>"

definition reset :: "('w::len) StmtLabelScope \<Rightarrow> 'w StmtLabelScope" where
  "reset Sc = Sc\<lparr>StmtLabelDeclsInScope := Map.empty, ForwardStmtLabelDeclsInScope := []\<rparr>"

section \<open>Semantic state\<close>

text \<open>
  An entry of the open-construct stack, and the statement builder of the current body.
  The head of \<open>ControlFlowStack\<close> is the \<^verbatim>\<open>back()\<close> of the C++ vector, so a loop that
  runs from \<^verbatim>\<open>Stack.size()\<close> down to 0 walks the list from its head.
\<close>

record Entry =
  Statement :: StmtRef
  ExpectedEndDoLabel :: "Expr option"

definition hasExpectedDoLabel :: "Entry \<Rightarrow> bool" where
  "hasExpectedDoLabel E = (ExpectedEndDoLabel E \<noteq> None)"

record BlockStmtBuilder =
  StmtList :: "StmtRef list"
  ControlFlowStack :: "Entry list"

record (overloaded) ('w::len) Sema =
  Stmts :: "Stmt list"
  Decls :: "Decl list"
  CurContext :: "IdentifierInfo \<rightharpoonup> DeclRef"
  CurStmtLabelScope :: "'w StmtLabelScope"
  CurBody :: BlockStmtBuilder
  CurLoopVars :: "VarExpr list"
  Diags :: "Diagnostic list"
  Fortran77 :: bool

definition Report :: "Diagnostic \<Rightarrow> ('w::len) Sema \<Rightarrow> 'w Sema" where
  "Report d S = S\<lparr>Diags := Diags S @ [d]\<rparr>"

text \<open>
  The type system is an external collaborator (\<^verbatim>\<open>StmtRequiresIntegerVar\<close>,
  \<^verbatim>\<open>CheckVarIsAssignable\<close>, \<^verbatim>\<open>StmtRequiresLogicalExpression\<close>, \<^verbatim>\<open>TypecheckAssignment\<close>,
  \<^verbatim>\<open>CheckCallArgumentCount\<close>, ...). Its effect on the state modelled here is the list of
  diagnostics it reports for the statement at hand, which every action takes as \<open>TC\<close>.
\<close>

definition ReportAll :: "Diagnostic list \<Rightarrow> ('w::len) Sema \<Rightarrow> 'w Sema" where
  "ReportAll ds S = S\<lparr>Diags := Diags S @ ds\<rparr>"

subsection \<open>The AST arena\<close>

definition mkStmt :: "SourceLocation \<Rightarrow> Expr option \<Rightarrow> StmtKind \<Rightarrow> Stmt" where
  "mkStmt L SLabel K =
     \<lparr>StmtLoc = L, StmtLabel = SLabel, StmtLabelUsedAsGotoTarget = False,
      StmtLabelUsedAsAssignTarget = False, Kind = K\<rparr>"

text \<open>\<^verbatim>\<open>XStmt::Create(C, ...)\<close> allocates the statement in the arena.\<close>

definition Create :: "Stmt \<Rightarrow> ('w::len) Sema \<Rightarrow> StmtRef \<times> 'w Sema" where
  "Create st S = (length (Stmts S), S\<lparr>Stmts := Stmts S @ [st]\<rparr>)"

definition getStmt :: "('w::len) Sema \<Rightarrow> StmtRef \<Rightarrow> Stmt option" where
  "getStmt S r = (if r < length (Stmts S) then Some (Stmts S ! r) else None)"

definition updStmt :: "StmtRef \<Rightarrow> (Stmt \<Rightarrow> Stmt option) \<Rightarrow> ('w::len) Sema \<Rightarrow> 'w Sema option" where
  "updStmt r f S = do {
     st \<leftarrow> getStmt S r;
     st' \<leftarrow> f st;
     Some (S\<lparr>Stmts := (Stmts S)[r := st']\<rparr>)
   }"

definition setStmtLabelUsedAsGotoTarget :: "Stmt \<Rightarrow> Stmt option" where
  "setStmtLabelUsedAsGotoTarget st = Some (st\<lparr>StmtLabelUsedAsGotoTarget := True\<rparr>)"

definition setStmtLabelUsedAsAssignTarget :: "Stmt \<Rightarrow> Stmt option" where
  "setStmtLabelUsedAsAssignTarget st = Some (st\<lparr>StmtLabelUsedAsAssignTarget := True\<rparr>)"

text \<open>
  The setters of the patchable fields; each is a member of one statement class, so on a
  statement of another class the \<^verbatim>\<open>cast<>\<close> fails. A slot index outside the list fails.
\<close>

definition setAddress :: "StmtRef option \<Rightarrow> Stmt \<Rightarrow> Stmt option" where
  "setAddress r st =
     (case Kind st of AssignStmt _ v \<Rightarrow> Some (st\<lparr>Kind := AssignStmt r v\<rparr>) | _ \<Rightarrow> None)"

definition setAllowedValue :: "nat \<Rightarrow> StmtRef option \<Rightarrow> Stmt \<Rightarrow> Stmt option" where
  "setAllowedValue I r st =
     (case Kind st of
        AssignedGotoStmt v xs \<Rightarrow>
          if I < length xs then Some (st\<lparr>Kind := AssignedGotoStmt v (xs[I := r])\<rparr>) else None
      | _ \<Rightarrow> None)"

definition setDestination :: "StmtRef option \<Rightarrow> Stmt \<Rightarrow> Stmt option" where
  "setDestination r st =
     (case Kind st of GotoStmt _ \<Rightarrow> Some (st\<lparr>Kind := GotoStmt r\<rparr>) | _ \<Rightarrow> None)"

definition setTarget :: "nat \<Rightarrow> StmtRef option \<Rightarrow> Stmt \<Rightarrow> Stmt option" where
  "setTarget I r st =
     (case Kind st of
        ComputedGotoStmt e xs \<Rightarrow>
          if I < length xs then Some (st\<lparr>Kind := ComputedGotoStmt e (xs[I := r])\<rparr>) else None
      | _ \<Rightarrow> None)"

definition setTerminatingStmt :: "StmtRef option \<Rightarrow> Stmt \<Rightarrow> Stmt option" where
  "setTerminatingStmt r st =
     (case Kind st of
        DoStmt _ v e1 e2 e3 n \<Rightarrow> Some (st\<lparr>Kind := DoStmt r v e1 e2 e3 n\<rparr>)
      | _ \<Rightarrow> None)"

definition setElseStmt :: "StmtRef option \<Rightarrow> Stmt \<Rightarrow> Stmt option" where
  "setElseStmt r st =
     (case Kind st of IfStmt c t _ n \<Rightarrow> Some (st\<lparr>Kind := IfStmt c t r n\<rparr>) | _ \<Rightarrow> None)"

text \<open>Getters used by the actions and by the statements of the properties.\<close>

fun getThenStmt :: "StmtKind \<Rightarrow> StmtRef option" where
  "getThenStmt (IfStmt _ t _ _) = t"
| "getThenStmt _ = None"

fun getDestination :: "StmtKind \<Rightarrow> StmtRef option" where
  "getDestination (GotoStmt d) = d"
| "getDestination _ = None"

fun getAllowedValues :: "StmtKind \<Rightarrow> StmtRef option list" where
  "getAllowedValues (AssignedGotoStmt _ xs) = xs"
| "getAllowedValues _ = []"

fun getTargets :: "StmtKind \<Rightarrow> StmtRef option list" where
  "getTargets (ComputedGotoStmt _ xs) = xs"
| "getTargets _ = []"

fun getTerminatingStmt :: "StmtKind \<Rightarrow> StmtRef option" where
  "getTerminatingStmt (DoStmt t _ _ _ _ _) = t"
| "getTerminatingStmt _ = None"

fun getDoVar :: "StmtKind \<Rightarrow> VarExpr option" where
  "getDoVar (DoStmt _ v _ _ _ _) = v"
| "getDoVar _ = None"

fun getName :: "StmtKind \<Rightarrow> ConstructName option" where
  "getName (IfStmt _ _ _ n) = Some n"
| "getName (DoStmt _ _ _ _ _ n) = Some n"
| "getName (DoWhileStmt _ n) = Some n"
| "getName _ = None"

fun isa_IfStmt :: "StmtKind \<Rightarrow> bool" where
  "isa_IfStmt (IfStmt _ _ _ _) = True"
| "isa_IfStmt _ = False"

fun isa_DoStmt :: "StmtKind \<Rightarrow> bool" where
  "isa_DoStmt (DoStmt _ _ _ _ _ _) = True"
| "isa_DoStmt _ = False"

fun isa_DoWhileStmt :: "StmtKind \<Rightarrow> bool" where
  "isa_DoWhileStmt (DoWhileStmt _ _) = True"
| "isa_DoWhileStmt _ = False"

subsection \<open>Statement builder, label scope helpers, loop variables\<close>

text \<open>
  Modelled from the spec: the members of \<^verbatim>\<open>BlockStmtBuilder\<close> are not in the sources at
  hand. \<open>append\<close> adds a statement to the linear sequence of the current body, \<open>enter\<close>
  pushes an open-construct entry, \<open>leave\<close> pops the top entry (and fails on an empty
  stack), \<open>LeaveIfThen\<close> closes the then-branch without popping.
\<close>

definition Append :: "StmtRef \<Rightarrow> ('w::len) Sema \<Rightarrow> 'w Sema" where
  "Append R S = S\<lparr>CurBody := (CurBody S)\<lparr>StmtList := StmtList (CurBody S) @ [R]\<rparr>\<rparr>"

definition Enter :: "Entry \<Rightarrow> ('w::len) Sema \<Rightarrow> 'w Sema" where
  "Enter E S =
     S\<lparr>CurBody := (CurBody S)\<lparr>ControlFlowStack := E # ControlFlowStack (CurBody S)\<rparr>\<rparr>"

definition Leave :: "('w::len) Sema \<Rightarrow> 'w Sema option" where
  "Leave S =
     (case ControlFlowStack (CurBody S) of
        [] \<Rightarrow> None
      | _ # rest \<Rightarrow> Some (S\<lparr>CurBody := (CurBody S)\<lparr>ControlFlowStack := rest\<rparr>\<rparr>))"

definition LeaveIfThen :: "('w::len) Sema \<Rightarrow> 'w Sema option" where
  "LeaveIfThen S = (case ControlFlowStack (CurBody S) of [] \<Rightarrow> None | _ # _ \<Rightarrow> Some S)"

definition HasEntered :: "('w::len) Sema \<Rightarrow> bool" where
  "HasEntered S = (ControlFlowStack (CurBody S) \<noteq> [])"

definition LastEntered :: "('w::len) Sema \<Rightarrow> Entry option" where
  "LastEntered S = (case ControlFlowStack (CurBody S) of [] \<Rightarrow> None | E # _ \<Rightarrow> Some E)"

text \<open>
  Modelled from the spec: \<^verbatim>\<open>StmtLabelScope::IsSame\<close> and
  \<^verbatim>\<open>StmtLabelScope::RemoveForwardReference\<close> are not in the sources at hand. Two labels
  are the same when their label values are equal; \<open>removeForwardReference(owner)\<close> takes
  the pending requests of the owner off the list.
\<close>

definition IsSame :: "('w::len) StmtLabelScope \<Rightarrow> Expr \<Rightarrow> Expr \<Rightarrow> bool option" where
  "IsSame Sc A B = do {
     KeyA \<leftarrow> (GetStmtLabelValue A :: 'w word option);
     KeyB \<leftarrow> (GetStmtLabelValue B :: 'w word option);
     Some (KeyA = KeyB)
   }"

definition RemoveForwardReference ::
  "StmtRef \<Rightarrow> ('w::len) StmtLabelScope \<Rightarrow> 'w StmtLabelScope" where
  "RemoveForwardReference User Sc =
     Sc\<lparr>ForwardStmtLabelDeclsInScope :=
          filter (\<lambda>fd. FwdStatement fd \<noteq> User) (ForwardStmtLabelDeclsInScope Sc)\<rparr>"

text \<open>
  Modelled from the spec: \<^verbatim>\<open>AddLoopVar\<close>, \<^verbatim>\<open>RemoveLoopVar\<close> and
  \<^verbatim>\<open>DeclareConstructName\<close> are not in the sources at hand. A DO registers its loop
  variable as active and leaving the DO releases it; a construct name is bound by the
  opening statement that stores it.
\<close>

definition AddLoopVar :: "VarExpr \<Rightarrow> ('w::len) Sema \<Rightarrow> 'w Sema" where
  "AddLoopVar V S = S\<lparr>CurLoopVars := CurLoopVars S @ [V]\<rparr>"

definition RemoveLoopVar :: "VarExpr option \<Rightarrow> ('w::len) Sema \<Rightarrow> 'w Sema" where
  "RemoveLoopVar V S =
     (case V of None \<Rightarrow> S | Some v \<Rightarrow> S\<lparr>CurLoopVars := remove1 v (CurLoopVars S)\<rparr>)"

definition DeclareConstructName :: "ConstructName \<Rightarrow> StmtRef \<Rightarrow> ('w::len) Sema \<Rightarrow> 'w Sema" where
  "DeclareConstructName Name R S = S"

section \<open>Label resolution and block termination (SemaExecStmt.cpp)\<close>

subsection \<open>StmtLabelResolver\<close>

text \<open>
  The resolver holds the declaring statement \<open>StmtLabelDecl\<close> and the forward declaration
  \<open>Info\<close> it is resolving; each \<^verbatim>\<open>Visit\<close> member patches the statement \<open>S\<close> it is given.
\<close>

definition VisitAssignStmt :: "StmtRef \<Rightarrow> StmtRef \<Rightarrow> ('w::len) Sema \<Rightarrow> 'w Sema option" where
  "VisitAssignStmt S StmtLabelDecl St = do {
     St1 \<leftarrow> updStmt S (setAddress (Some StmtLabelDecl)) St;
     updStmt StmtLabelDecl setStmtLabelUsedAsAssignTarget St1
   }"

definition VisitAssignedGotoStmt ::
  "StmtRef \<Rightarrow> StmtLabelForwardDecl \<Rightarrow> StmtRef \<Rightarrow> ('w::len) Sema \<Rightarrow> 'w Sema option" where
  "VisitAssignedGotoStmt S Info StmtLabelDecl St =
     updStmt S (setAllowedValue (ResolveCallbackData Info) (Some StmtLabelDecl)) St"

definition VisitGotoStmt :: "StmtRef \<Rightarrow> StmtRef \<Rightarrow> ('w::len) Sema \<Rightarrow> 'w Sema option" where
  "VisitGotoStmt S StmtLabelDecl St = do {
     St1 \<leftarrow> updStmt S (setDestination (Some StmtLabelDecl)) St;
     updStmt StmtLabelDecl setStmtLabelUsedAsGotoTarget St1
   }"

definition VisitComputedGotoStmt ::
  "StmtRef \<Rightarrow> StmtLabelForwardDecl \<Rightarrow> StmtRef \<Rightarrow> ('w::len) Sema \<Rightarrow> 'w Sema option" where
  "VisitComputedGotoStmt S Info StmtLabelDecl St = do {
     St1 \<leftarrow> updStmt S (setTarget (ResolveCallbackData Info) (Some StmtLabelDecl)) St;
     updStmt StmtLabelDecl setStmtLabelUsedAsGotoTarget St1
   }"

definition VisitDoStmt :: "StmtRef \<Rightarrow> StmtRef \<Rightarrow> ('w::len) Sema \<Rightarrow> 'w Sema option" where
  "VisitDoStmt S StmtLabelDecl St = updStmt S (setTerminatingStmt (Some StmtLabelDecl)) St"

text \<open>
  Modelled from the spec: the visitor's dispatch and the scan of the pending list are not
  in the sources at hand. The patch dispatch is a closed operation over the statement
  kinds: it calls the \<^verbatim>\<open>Visit\<close> member of the owner's class, and a class without one is
  left alone. Declaring a new label scans the pending list for requests with the same
  label value, patches each owner and takes the request off the list.
\<close>

definition ResolveForwardUsage ::
  "StmtLabelForwardDecl \<Rightarrow> StmtRef \<Rightarrow> ('w::len) Sema \<Rightarrow> 'w Sema option" where
  "ResolveForwardUsage Info StmtLabelDecl St = do {
     st \<leftarrow> getStmt St (FwdStatement Info);
     case Kind st of
       AssignStmt _ _ \<Rightarrow> VisitAssignStmt (FwdStatement Info) StmtLabelDecl St
     | AssignedGotoStmt _ _ \<Rightarrow> VisitAssignedGotoStmt (FwdStatement Info) Info StmtLabelDecl St
     | GotoStmt _ \<Rightarrow> VisitGotoStmt (FwdStatement Info) StmtLabelDecl St
     | ComputedGotoStmt _ _ \<Rightarrow> VisitComputedGotoStmt (FwdStatement Info) Info StmtLabelDecl St
     | DoStmt _ _ _ _ _ _ \<Rightarrow> VisitDoStmt (FwdStatement Info) StmtLabelDecl St
     | _ \<Rightarrow> Some St
   }"

fun ResolveForwardUsages ::
  "StmtLabelForwardDecl list \<Rightarrow> Expr \<Rightarrow> StmtRef \<Rightarrow> ('w::len) Sema \<Rightarrow>
     (StmtLabelForwardDecl list \<times> 'w Sema) option" where
  "ResolveForwardUsages [] SLabel StmtLabelDecl St = Some ([], St)"
| "ResolveForwardUsages (Info # Pending) SLabel StmtLabelDecl St = do {
     same \<leftarrow> IsSame (CurStmtLabelScope St) (FwdStmtLabel Info) SLabel;
     if same then do {
       St1 \<leftarrow> ResolveForwardUsage Info StmtLabelDecl St;
       ResolveForwardUsages Pending SLabel StmtLabelDecl St1
     } else do {
       (Rest, St1) \<leftarrow> ResolveForwardUsages Pending SLabel StmtLabelDecl St;
       Some (Info # Rest, St1)
     }
   }"

definition PatchForwardReferences :: "Expr \<Rightarrow> StmtRef \<Rightarrow> ('w::len) Sema \<Rightarrow> 'w Sema option" where
  "PatchForwardReferences SLabel StmtLabelDecl St = do {
     (Rest, St1) \<leftarrow>
       ResolveForwardUsages (ForwardStmtLabelDeclsInScope (CurStmtLabelScope St))
         SLabel StmtLabelDecl St;
     Some (St1\<lparr>CurStmtLabelScope :=
                 (CurStmtLabelScope St1)\<lparr>ForwardStmtLabelDeclsInScope := Rest\<rparr>\<rparr>)
   }"

subsection \<open>Block statements termination\<close>

definition ReportUnterminatedStmt ::
  "Entry \<Rightarrow> SourceLocation \<Rightarrow> bool \<Rightarrow> ('w::len) Sema \<Rightarrow> 'w Sema option" where
  "ReportUnterminatedStmt E L ReportUnterminatedLabeledDo S = do {
     st \<leftarrow> getStmt S (Statement E);
     if isa_IfStmt (Kind st) then
       Some (Report (note_matching, StmtLoc st, [ArgStr ''if''])
              (Report (err_expected_kw, L, [ArgStr ''end if'']) S))
     else if isa_DoWhileStmt (Kind st) \<or> isa_DoStmt (Kind st) then
       (case ExpectedEndDoLabel E of
          Some EndLabel \<Rightarrow>
            if ReportUnterminatedLabeledDo then
              Some (Report (note_matching, StmtLoc st, [ArgStr ''do''])
                     (Report (err_expected_stmt_label_end_do, L, [ArgLabel EndLabel]) S))
            else Some S
        | None \<Rightarrow>
            Some (Report (note_matching, StmtLoc st, [ArgStr ''do''])
                   (Report (err_expected_kw, L, [ArgStr ''end do'']) S)))
     else None
   }"

text \<open>
  Modelled from the spec: the default of the parameter \<^verbatim>\<open>ReportUnterminatedLabeledDo\<close> is
  given in a header that is not in the sources at hand. The unwinding reports every entry
  it pops.
\<close>

definition ReportUnterminatedLabeledDo_default :: bool where
  "ReportUnterminatedLabeledDo_default = True"

definition LeaveLastBlock :: "('w::len) Sema \<Rightarrow> 'w Sema option" where
  "LeaveLastBlock S = do {
     Last \<leftarrow> LastEntered S;
     st \<leftarrow> getStmt S (Statement Last);
     Leave (if isa_DoStmt (Kind st) then RemoveLoopVar (getDoVar (Kind st)) S else S)
   }"

fun LeaveBlocksUntilIf_loop ::
  "Entry list \<Rightarrow> SourceLocation \<Rightarrow> ('w::len) Sema \<Rightarrow> (StmtRef option \<times> 'w Sema) option" where
  "LeaveBlocksUntilIf_loop [] L S = Some (None, S)"
| "LeaveBlocksUntilIf_loop (E # Stack) L S = do {
     st \<leftarrow> getStmt S (Statement E);
     if isa_IfStmt (Kind st) then Some (Some (Statement E), S)
     else do {
       S1 \<leftarrow> ReportUnterminatedStmt E L ReportUnterminatedLabeledDo_default S;
       S2 \<leftarrow> LeaveLastBlock S1;
       LeaveBlocksUntilIf_loop Stack L S2
     }
   }"

definition LeaveBlocksUntilIf ::
  "SourceLocation \<Rightarrow> ('w::len) Sema \<Rightarrow> (StmtRef option \<times> 'w Sema) option" where
  "LeaveBlocksUntilIf L S = LeaveBlocksUntilIf_loop (ControlFlowStack (CurBody S)) L S"

fun LeaveBlocksUntilDo_loop ::
  "Entry list \<Rightarrow> SourceLocation \<Rightarrow> ('w::len) Sema \<Rightarrow> (StmtRef option \<times> 'w Sema) option" where
  "LeaveBlocksUntilDo_loop [] L S = Some (None, S)"
| "LeaveBlocksUntilDo_loop (E # Stack) L S = do {
     st \<leftarrow> getStmt S (Statement E);
     if isa_DoWhileStmt (Kind st) \<or> isa_DoStmt (Kind st) \<and> \<not> hasExpectedDoLabel E
     then Some (Some (Statement E), S)
     else do {
       S1 \<leftarrow> ReportUnterminatedStmt E L ReportUnterminatedLabeledDo_default S;
       S2 \<leftarrow> LeaveLastBlock S1;
       LeaveBlocksUntilDo_loop Stack L S2
     }
   }"

definition LeaveBlocksUntilDo ::
  "SourceLocation \<Rightarrow> ('w::len) Sema \<Rightarrow> (StmtRef option \<times> 'w Sema) option" where
  "LeaveBlocksUntilDo L S = LeaveBlocksUntilDo_loop (ControlFlowStack (CurBody S)) L S"

fun IsValidDoLogicalIfThenStatement :: "StmtKind \<Rightarrow> bool" where
  "IsValidDoLogicalIfThenStatement (DoStmt _ _ _ _ _ _) = False"
| "IsValidDoLogicalIfThenStatement (IfStmt _ _ _ _) = False"
| "IsValidDoLogicalIfThenStatement (DoWhileStmt _ _) = False"
| "IsValidDoLogicalIfThenStatement (ConstructPartStmt _) = False"
| "IsValidDoLogicalIfThenStatement _ = True"

definition IsValidDoTerminatingStatement :: "('w::len) Sema \<Rightarrow> StmtRef \<Rightarrow> bool option" where
  "IsValidDoTerminatingStatement St S = do {
     st \<leftarrow> getStmt St S;
     case Kind st of
       GotoStmt _ \<Rightarrow> Some False
     | AssignedGotoStmt _ _ \<Rightarrow> Some False
     | StopStmt _ \<Rightarrow> Some False
     | DoStmt _ _ _ _ _ _ \<Rightarrow> Some False
     | DoWhileStmt _ _ \<Rightarrow> Some False
     | ConstructPartStmt _ \<Rightarrow> Some False
     | IfStmt _ ThenStmt _ _ \<Rightarrow>
         (case ThenStmt of
            None \<Rightarrow> Some False
          | Some NextStmt \<Rightarrow> do {
              nx \<leftarrow> getStmt St NextStmt;
              Some (IsValidDoLogicalIfThenStatement (Kind nx))
            })
     | _ \<Rightarrow> Some True
   }"

fun IsInLabeledDo_loop :: "Entry list \<Rightarrow> Expr \<Rightarrow> ('w::len) Sema \<Rightarrow> bool option" where
  "IsInLabeledDo_loop [] SLabel S = Some False"
| "IsInLabeledDo_loop (E # Stack) SLabel S = do {
     st \<leftarrow> getStmt S (Statement E);
     if isa_DoStmt (Kind st) then
       (case ExpectedEndDoLabel E of
          Some EndLabel \<Rightarrow> do {
            same \<leftarrow> IsSame (CurStmtLabelScope S) EndLabel SLabel;
            if same then Some True else IsInLabeledDo_loop Stack SLabel S
          }
        | None \<Rightarrow> IsInLabeledDo_loop Stack SLabel S)
     else IsInLabeledDo_loop Stack SLabel S
   }"

definition IsInLabeledDo :: "Expr \<Rightarrow> ('w::len) Sema \<Rightarrow> bool option" where
  "IsInLabeledDo SLabel S = IsInLabeledDo_loop (ControlFlowStack (CurBody S)) SLabel S"

fun LeaveBlocksUntilLabeledDo_loop ::
  "Entry list \<Rightarrow> SourceLocation \<Rightarrow> Expr \<Rightarrow> ('w::len) Sema \<Rightarrow>
     (StmtRef option \<times> 'w Sema) option" where
  "LeaveBlocksUntilLabeledDo_loop [] L SLabel S = Some (None, S)"
| "LeaveBlocksUntilLabeledDo_loop (E # Stack) L SLabel S = do {
     st \<leftarrow> getStmt S (Statement E);
     found \<leftarrow>
       (if isa_DoStmt (Kind st) then
          (case ExpectedEndDoLabel E of
             Some EndLabel \<Rightarrow> IsSame (CurStmtLabelScope S) EndLabel SLabel
           | None \<Rightarrow> Some False)
        else Some False);
     if found then Some (Some (Statement E), S)
     else do {
       S1 \<leftarrow> ReportUnterminatedStmt E L ReportUnterminatedLabeledDo_default S;
       S2 \<leftarrow> LeaveLastBlock S1;
       LeaveBlocksUntilLabeledDo_loop Stack L SLabel S2
     }
   }"

definition LeaveBlocksUntilLabeledDo ::
  "SourceLocation \<Rightarrow> Expr \<Rightarrow> ('w::len) Sema \<Rightarrow> (StmtRef option \<times> 'w Sema) option" where
  "LeaveBlocksUntilLabeledDo L SLabel S =
     LeaveBlocksUntilLabeledDo_loop (ControlFlowStack (CurBody S)) L SLabel S"

definition CheckStatementLabelEndDo :: "Expr \<Rightarrow> StmtRef \<Rightarrow> ('w::len) Sema \<Rightarrow> 'w Sema option" where
  "CheckStatementLabelEndDo SLabel S St =
     (if \<not> HasEntered St then Some St
      else do {
        inDo \<leftarrow> IsInLabeledDo SLabel St;
        if \<not> inDo then Some St
        else do {
          st \<leftarrow> getStmt St S;
          (DoBegin, St1) \<leftarrow> LeaveBlocksUntilLabeledDo (StmtLoc st) SLabel St;
          Do \<leftarrow> DoBegin;
          let St2 = St1\<lparr>CurStmtLabelScope :=
                          RemoveForwardReference Do (CurStmtLabelScope St1)\<rparr>;
          valid \<leftarrow> IsValidDoTerminatingStatement St2 S;
          let St3 = (if \<not> valid
                     then Report (err_invalid_do_terminating_stmt, StmtLoc st, []) St2
                     else St2);
          St4 \<leftarrow> updStmt Do (setTerminatingStmt (Some S)) St3;
          LeaveLastBlock St4
        }
      })"

text \<open>
  Modelled from the spec: \<^verbatim>\<open>Sema::DeclareStatementLabel\<close> is not in the sources at hand.
  A label that is already declared is reported as \<open>DuplicateLabel\<close>, the diagnostic
  carrying both locations, and the table keeps the first declaration. A new label is
  declared; a labeled DO that waits for it is closed by \<open>CheckStatementLabelEndDo\<close>, which
  takes the DO's own request off the pending list; the remaining pending requests for the
  label are patched.
\<close>

definition DeclareStatementLabel :: "Expr \<Rightarrow> StmtRef \<Rightarrow> ('w::len) Sema \<Rightarrow> 'w Sema option" where
  "DeclareStatementLabel SLabel S St = do {
     Decl \<leftarrow> Resolve SLabel (CurStmtLabelScope St);
     case Decl of
       Some Prev \<Rightarrow> do {
         prev \<leftarrow> getStmt St Prev;
         Some (Report (DuplicateLabel, getLocation SLabel,
                       [ArgLabel SLabel, ArgLoc (StmtLoc prev)]) St)
       }
     | None \<Rightarrow> do {
         Sc \<leftarrow> Declare SLabel S (CurStmtLabelScope St);
         St1 \<leftarrow> CheckStatementLabelEndDo SLabel S (St\<lparr>CurStmtLabelScope := Sc\<rparr>);
         PatchForwardReferences SLabel S St1
       }
   }"

text \<open>The tail of every action: \<^verbatim>\<open>if(StmtLabel) DeclareStatementLabel(StmtLabel, Result)\<close>.\<close>

definition DeclareOwnLabel :: "Expr option \<Rightarrow> StmtRef \<Rightarrow> ('w::len) Sema \<Rightarrow> 'w Sema option" where
  "DeclareOwnLabel SLabel Result St =
     (case SLabel of None \<Rightarrow> Some St | Some L \<Rightarrow> DeclareStatementLabel L Result St)"

section \<open>Semantic actions (SemaExecStmt.cpp)\<close>

definition withScope ::
  "(('w::len) StmtLabelScope \<Rightarrow> 'w StmtLabelScope) \<Rightarrow> 'w Sema \<Rightarrow> 'w Sema" where
  "withScope f S = S\<lparr>CurStmtLabelScope := f (CurStmtLabelScope S)\<rparr>"

definition ActOnAssignStmt ::
  "Diagnostic list \<Rightarrow> SourceLocation \<Rightarrow> ExprResult \<Rightarrow> VarExpr \<Rightarrow> Expr option \<Rightarrow>
     ('w::len) Sema \<Rightarrow> (StmtResult \<times> 'w Sema) option" where
  "ActOnAssignStmt TC L Val VarRef SLabel S = do {
     let S0 = ReportAll TC S;
     V \<leftarrow> get Val;
     Decl \<leftarrow> Resolve V (CurStmtLabelScope S0);
     (Result, S1) \<leftarrow>
       (case Decl of
          None \<Rightarrow>
            (let (Result, S') = Create (mkStmt L SLabel (AssignStmt None VarRef)) S0
             in Some (Result, withScope (DeclareForwardReference (ForwardDecl V Result 0)) S'))
        | Some D \<Rightarrow>
            (let (Result, S') = Create (mkStmt L SLabel (AssignStmt (Some D) VarRef)) S0
             in do { S'' \<leftarrow> updStmt D setStmtLabelUsedAsAssignTarget S'; Some (Result, S'') }));
     S2 \<leftarrow> DeclareOwnLabel SLabel Result (Append Result S1);
     Some (StmtOk Result, S2)
   }"

text \<open>The first loop of \<^verbatim>\<open>ActOnAssignedGotoStmt\<close>: one reference per allowed value.\<close>

fun ResolveAllowedValues ::
  "Expr list \<Rightarrow> ('w::len) StmtLabelScope \<Rightarrow> StmtRef option list option" where
  "ResolveAllowedValues [] Sc = Some []"
| "ResolveAllowedValues (E # Es) Sc = do {
     Decl \<leftarrow> Resolve E Sc;
     Rest \<leftarrow> ResolveAllowedValues Es Sc;
     Some (Decl # Rest)
   }"

text \<open>
  The second loop of \<^verbatim>\<open>ActOnAssignedGotoStmt\<close> and of \<^verbatim>\<open>ActOnComputedGotoStmt\<close>: a forward
  declaration with its slot index for every reference that is still null.
\<close>

definition DeclareForwardReferences ::
  "Expr list \<Rightarrow> StmtRef option list \<Rightarrow> StmtRef \<Rightarrow> ('w::len) StmtLabelScope \<Rightarrow>
     'w StmtLabelScope" where
  "DeclareForwardReferences Values Labels Result Sc =
     fold (\<lambda>I Sc'. if Labels ! I = None
                    then DeclareForwardReference (ForwardDecl (Values ! I) Result I) Sc'
                    else Sc')
          [0..<length Values] Sc"

definition ActOnAssignedGotoStmt ::
  "Diagnostic list \<Rightarrow> SourceLocation \<Rightarrow> VarExpr \<Rightarrow> Expr list \<Rightarrow> Expr option \<Rightarrow>
     ('w::len) Sema \<Rightarrow> (StmtResult \<times> 'w Sema) option" where
  "ActOnAssignedGotoStmt TC L VarRef AllowedValues SLabel S = do {
     let S0 = ReportAll TC S;
     AllowedLabels \<leftarrow> ResolveAllowedValues AllowedValues (CurStmtLabelScope S0);
     let (Result, S1) = Create (mkStmt L SLabel (AssignedGotoStmt VarRef AllowedLabels)) S0;
     let S2 = withScope (DeclareForwardReferences AllowedValues AllowedLabels Result) S1;
     S3 \<leftarrow> DeclareOwnLabel SLabel Result (Append Result S2);
     Some (StmtOk Result, S3)
   }"

definition ActOnGotoStmt ::
  "SourceLocation \<Rightarrow> ExprResult \<Rightarrow> Expr option \<Rightarrow> ('w::len) Sema \<Rightarrow>
     (StmtResult \<times> 'w Sema) option" where
  "ActOnGotoStmt L Destination SLabel S = do {
     Dest \<leftarrow> get Destination;
     Decl \<leftarrow> Resolve Dest (CurStmtLabelScope S);
     (Result, S1) \<leftarrow>
       (case Decl of
          None \<Rightarrow>
            (let (Result, S') = Create (mkStmt L SLabel (GotoStmt None)) S
             in Some (Result, withScope (DeclareForwardReference (ForwardDecl Dest Result 0)) S'))
        | Some D \<Rightarrow>
            (let (Result, S') = Create (mkStmt L SLabel (GotoStmt (Some D))) S
             in do { S'' \<leftarrow> updStmt D setStmtLabelUsedAsGotoTarget S'; Some (Result, S'') }));
     S2 \<leftarrow> DeclareOwnLabel SLabel Result (Append Result S1);
     Some (StmtOk Result, S2)
   }"

text \<open>The first loop of \<^verbatim>\<open>ActOnComputedGotoStmt\<close>, which also marks every resolved target.\<close>

fun ResolveTargets ::
  "Expr list \<Rightarrow> ('w::len) Sema \<Rightarrow> (StmtRef option list \<times> 'w Sema) option" where
  "ResolveTargets [] S = Some ([], S)"
| "ResolveTargets (E # Es) S = do {
     Decl \<leftarrow> Resolve E (CurStmtLabelScope S);
     S1 \<leftarrow> (case Decl of None \<Rightarrow> Some S | Some D \<Rightarrow> updStmt D setStmtLabelUsedAsGotoTarget S);
     (Rest, S2) \<leftarrow> ResolveTargets Es S1;
     Some (Decl # Rest, S2)
   }"

definition ActOnComputedGotoStmt ::
  "Diagnostic list \<Rightarrow> SourceLocation \<Rightarrow> Expr list \<Rightarrow> ExprResult \<Rightarrow> Expr option \<Rightarrow>
     ('w::len) Sema \<Rightarrow> (StmtResult \<times> 'w Sema) option" where
  "ActOnComputedGotoStmt TC L Targets Operand SLabel S = do {
     let S0 = (if \<not> Fortran77 S then Report (warn_deprecated_computed_goto_stmt, L, []) S else S);
     let S1 = (if isUsable Operand then ReportAll TC S0 else S0);
     (TargetLabels, S2) \<leftarrow> ResolveTargets Targets S1;
     let (Result, S3) = Create (mkStmt L SLabel (ComputedGotoStmt (get Operand) TargetLabels)) S2;
     let S4 = withScope (DeclareForwardReferences Targets TargetLabels Result) S3;
     S5 \<leftarrow> DeclareOwnLabel SLabel Result (Append Result S4);
     Some (StmtOk Result, S5)
   }"

subsection \<open>Block statements entry\<close>

definition isUsableName :: "ConstructName \<Rightarrow> bool" where
  "isUsableName Name = (IDInfo Name \<noteq> None)"

definition ActOnIfStmt ::
  "Diagnostic list \<Rightarrow> SourceLocation \<Rightarrow> ExprResult \<Rightarrow> ConstructName \<Rightarrow> Expr option \<Rightarrow>
     ('w::len) Sema \<Rightarrow> (StmtResult \<times> 'w Sema) option" where
  "ActOnIfStmt TC L Condition Name SLabel S = do {
     let S0 = (if isUsable Condition then ReportAll TC S else S);
     let (Result, S1) = Create (mkStmt L SLabel (IfStmt (get Condition) None None Name)) S0;
     let S2 = (if isUsable Condition then Append Result S1 else S1);
     S3 \<leftarrow> DeclareOwnLabel SLabel Result S2;
     let S4 = (if isUsableName Name then DeclareConstructName Name Result S3 else S3);
     Some (StmtOk Result, Enter \<lparr>Statement = Result, ExpectedEndDoLabel = None\<rparr> S4)
   }"

definition ActOnDoStmt ::
  "Diagnostic list \<Rightarrow> SourceLocation \<Rightarrow> SourceLocation \<Rightarrow> ExprResult \<Rightarrow> VarExpr option \<Rightarrow>
     ExprResult \<Rightarrow> ExprResult \<Rightarrow> ExprResult \<Rightarrow> ConstructName \<Rightarrow> Expr option \<Rightarrow>
     ('w::len) Sema \<Rightarrow> (StmtResult \<times> 'w Sema) option" where
  "ActOnDoStmt TC L EqualLoc TerminatingStmt DoVar E1 E2 E3 Name SLabel S = do {
     let AddToBody = (DoVar \<noteq> None \<and> isUsable E1 \<and> isUsable E2);
     let S0 = (if DoVar \<noteq> None then ReportAll TC S else S);
     Declared \<leftarrow>
       (case get TerminatingStmt of
          Some T \<Rightarrow> Resolve T (CurStmtLabelScope S0)
        | None \<Rightarrow> Some None);
     case Declared of
       Some Decl \<Rightarrow> do {
         T \<leftarrow> get TerminatingStmt;
         let S1 = Report (err_stmt_label_must_decl_after, getLocation T,
                          [ArgLabel T, ArgStr ''DO'']) S0;
         decl \<leftarrow> getStmt S1 Decl;
         DeclLabel \<leftarrow> StmtLabel decl;
         Some (StmtError, Report (note_previous_definition, getLocation DeclLabel, []) S1)
       }
     | None \<Rightarrow> do {
         let (Result, S1) =
           Create (mkStmt L SLabel (DoStmt None DoVar (get E1) (get E2) (get E3) Name)) S0;
         let S2 = (case DoVar of Some V \<Rightarrow> AddLoopVar V S1 | None \<Rightarrow> S1);
         let S3 = (if AddToBody then Append Result S2 else S2);
         let S4 = (case get TerminatingStmt of
                     Some T \<Rightarrow> withScope (DeclareForwardReference (ForwardDecl T Result 0)) S3
                   | None \<Rightarrow> S3);
         S5 \<leftarrow> DeclareOwnLabel SLabel Result S4;
         let S6 = (if isUsableName Name then DeclareConstructName Name Result S5 else S5);
         Some (StmtOk Result,
               Enter \<lparr>Statement = Result, ExpectedEndDoLabel = get TerminatingStmt\<rparr> S6)
       }
   }"

definition ActOnDoWhileStmt ::
  "Diagnostic list \<Rightarrow> SourceLocation \<Rightarrow> ExprResult \<Rightarrow> ConstructName \<Rightarrow> Expr option \<Rightarrow>
     ('w::len) Sema \<Rightarrow> (StmtResult \<times> 'w Sema) option" where
  "ActOnDoWhileStmt TC L Condition Name SLabel S = do {
     let S0 = (if isUsable Condition then ReportAll TC S else S);
     let (Result, S1) = Create (mkStmt L SLabel (DoWhileStmt (get Condition) Name)) S0;
     let S2 = (if isUsable Condition then Append Result S1 else S1);
     S3 \<leftarrow> DeclareOwnLabel SLabel Result S2;
     let S4 = (if isUsableName Name then DeclareConstructName Name Result S3 else S3);
     Some (StmtOk Result, Enter \<lparr>Statement = Result, ExpectedEndDoLabel = None\<rparr> S4)
   }"

definition CheckConstructNameMatch ::
  "ConstructName \<Rightarrow> StmtRef \<Rightarrow> ('w::len) Sema \<Rightarrow> 'w Sema option" where
  "CheckConstructNameMatch Name S St = do {
     st \<leftarrow> getStmt St S;
     ConstructsName \<leftarrow> getName (Kind st);
     let mismatch =
       Report (note_matching_ident, NameLoc ConstructsName,
               [ArgIdent (the (IDInfo ConstructsName))])
         (Report (err_expected_construct_name, NameLoc Name,
                  [ArgIdent (the (IDInfo ConstructsName))]) St);
     if isUsableName Name then
       (if IDInfo ConstructsName = None
        then Some (Report (err_use_of_invalid_construct_name, NameLoc Name, []) St)
        else if IDInfo ConstructsName \<noteq> IDInfo Name then Some mismatch
        else Some St)
     else if IDInfo ConstructsName \<noteq> None then Some mismatch
     else Some St
   }"

subsection \<open>Block statements termination and control flow\<close>

definition ActOnElseIfStmt ::
  "Diagnostic list \<Rightarrow> SourceLocation \<Rightarrow> ExprResult \<Rightarrow> ConstructName \<Rightarrow> Expr option \<Rightarrow>
     ('w::len) Sema \<Rightarrow> (StmtResult \<times> 'w Sema) option" where
  "ActOnElseIfStmt TC L Condition Name SLabel S = do {
     (IfBegin, S0) \<leftarrow> LeaveBlocksUntilIf L S;
     let S1 = (if IfBegin = None
               then Report (err_stmt_not_in_if, L, [ArgStr ''else if'']) S0 else S0);
     let S2 = (if isUsable Condition then ReportAll TC S1 else S1);
     BeginName \<leftarrow>
       (case IfBegin of
          Some I \<Rightarrow> do { st \<leftarrow> getStmt S2 I; getName (Kind st) }
        | None \<Rightarrow> Some \<lparr>NameLoc = L, IDInfo = None\<rparr>);
     let (Result, S3) = Create (mkStmt L SLabel (IfStmt (get Condition) None None BeginName)) S2;
     S4 \<leftarrow>
       (case IfBegin of
          Some I \<Rightarrow> do {
            S' \<leftarrow> LeaveLastBlock S3;
            S'' \<leftarrow> CheckConstructNameMatch Name I S';
            if isUsable Condition then updStmt I (setElseStmt (Some Result)) S'' else Some S''
          }
        | None \<Rightarrow> Some S3);
     S5 \<leftarrow> DeclareOwnLabel SLabel Result S4;
     Some (StmtOk Result, Enter \<lparr>Statement = Result, ExpectedEndDoLabel = None\<rparr> S5)
   }"

definition ActOnElseStmt ::
  "SourceLocation \<Rightarrow> ConstructName \<Rightarrow> Expr option \<Rightarrow> ('w::len) Sema \<Rightarrow>
     (StmtResult \<times> 'w Sema) option" where
  "ActOnElseStmt L Name SLabel S = do {
     (IfBegin, S0) \<leftarrow> LeaveBlocksUntilIf L S;
     let S1 = (if IfBegin = None
               then Report (err_stmt_not_in_if, L, [ArgStr ''else'']) S0 else S0);
     let (Result, S2) = Create (mkStmt L SLabel (ConstructPartStmt ElseStmtClass)) S1;
     S3 \<leftarrow>
       (case IfBegin of
          Some I \<Rightarrow> do {
            S' \<leftarrow> LeaveIfThen (Append Result S2);
            CheckConstructNameMatch Name I S'
          }
        | None \<Rightarrow> Some (Append Result S2));
     S4 \<leftarrow> DeclareOwnLabel SLabel Result S3;
     Some (StmtOk Result, S4)
   }"

definition ActOnEndIfStmt ::
  "SourceLocation \<Rightarrow> ConstructName \<Rightarrow> Expr option \<Rightarrow> ('w::len) Sema \<Rightarrow>
     (StmtResult \<times> 'w Sema) option" where
  "ActOnEndIfStmt L Name SLabel S = do {
     (IfBegin, S0) \<leftarrow> LeaveBlocksUntilIf L S;
     let S1 = (if IfBegin = None
               then Report (err_stmt_not_in_if, L, [ArgStr ''end if'']) S0 else S0);
     let (Result, S2) = Create (mkStmt L SLabel (ConstructPartStmt EndIfStmtClass)) S1;
     S3 \<leftarrow>
       (case IfBegin of
          Some I \<Rightarrow> do {
            S' \<leftarrow> LeaveLastBlock (Append Result S2);
            CheckConstructNameMatch Name I S'
          }
        | None \<Rightarrow> Some (Append Result S2));
     S4 \<leftarrow> DeclareOwnLabel SLabel Result S3;
     Some (StmtOk Result, S4)
   }"

definition ActOnEndDoStmt ::
  "SourceLocation \<Rightarrow> ConstructName \<Rightarrow> Expr option \<Rightarrow> ('w::len) Sema \<Rightarrow>
     (StmtResult \<times> 'w Sema) option" where
  "ActOnEndDoStmt L Name SLabel S = do {
     (DoBegin, S0) \<leftarrow> LeaveBlocksUntilDo L S;
     let S1 = (if DoBegin = None then Report (err_end_do_without_do, L, []) S0 else S0);
     let (Result, S2) = Create (mkStmt L SLabel (ConstructPartStmt EndDoStmtClass)) S1;
     S3 \<leftarrow>
       (case DoBegin of
          Some D \<Rightarrow> do {
            S' \<leftarrow> LeaveLastBlock (Append Result S2);
            CheckConstructNameMatch Name D S'
          }
        | None \<Rightarrow> Some (Append Result S2));
     S4 \<leftarrow> DeclareOwnLabel SLabel Result S3;
     Some (StmtOk Result, S4)
   }"

definition ActOnContinueStmt ::
  "SourceLocation \<Rightarrow> Expr option \<Rightarrow> ('w::len) Sema \<Rightarrow> (StmtResult \<times> 'w Sema) option" where
  "ActOnContinueStmt L SLabel S = do {
     let (Result, S1) = Create (mkStmt L SLabel ContinueStmt) S;
     S2 \<leftarrow> DeclareOwnLabel SLabel Result (Append Result S1);
     Some (StmtOk Result, S2)
   }"

definition ActOnStopStmt ::
  "SourceLocation \<Rightarrow> ExprResult \<Rightarrow> Expr option \<Rightarrow> ('w::len) Sema \<Rightarrow>
     (StmtResult \<times> 'w Sema) option" where
  "ActOnStopStmt L StopCode SLabel S = do {
     let (Result, S1) = Create (mkStmt L SLabel (StopStmt (get StopCode))) S;
     S2 \<leftarrow> DeclareOwnLabel SLabel Result (Append Result S1);
     Some (StmtOk Result, S2)
   }"

text \<open>
  Modelled from the spec: \<^verbatim>\<open>ResolveIdentifier\<close>, \<^verbatim>\<open>FunctionDecl::Create\<close> and
  \<^verbatim>\<open>DeclContext::addDecl\<close> are not in the sources at hand. \<open>resolveIdentifier(name)\<close> looks
  the name up in the current declaration context; an implicit external procedure is a new
  declaration that the context then holds under its name.
\<close>

fun isa_IntrinsicFunctionDecl :: "Decl \<Rightarrow> bool" where
  "isa_IntrinsicFunctionDecl (IntrinsicFunctionDecl _) = True"
| "isa_IntrinsicFunctionDecl _ = False"

definition ResolveIdentifier :: "IdentifierInfo \<Rightarrow> ('w::len) Sema \<Rightarrow> DeclRef option" where
  "ResolveIdentifier ID S = CurContext S ID"

definition getDecl :: "('w::len) Sema \<Rightarrow> DeclRef \<Rightarrow> Decl option" where
  "getDecl S r = (if r < length (Decls S) then Some (Decls S ! r) else None)"

definition CreateDecl :: "Decl \<Rightarrow> ('w::len) Sema \<Rightarrow> DeclRef \<times> 'w Sema" where
  "CreateDecl d S = (length (Decls S), S\<lparr>Decls := Decls S @ [d]\<rparr>)"

definition addDecl :: "IdentifierInfo \<Rightarrow> DeclRef \<Rightarrow> ('w::len) Sema \<Rightarrow> 'w Sema" where
  "addDecl ID D S = S\<lparr>CurContext := (CurContext S)(ID \<mapsto> D)\<rparr>"

definition ActOnCallStmt ::
  "Diagnostic list \<Rightarrow> SourceLocation \<Rightarrow> SourceLocation \<Rightarrow> SourceLocation \<Rightarrow> IdentifierInfo \<Rightarrow>
     Expr list \<Rightarrow> Expr option \<Rightarrow> ('w::len) Sema \<Rightarrow> (StmtResult \<times> 'w Sema) option" where
  "ActOnCallStmt TC L RParenLoc IdRangeStart ID Arguments SLabel S = do {
     Callee \<leftarrow>
       (case ResolveIdentifier ID S of
          Some Prev \<Rightarrow> do {
            prev \<leftarrow> getDecl S Prev;
            case prev of
              FunctionDecl k _ _ \<Rightarrow>
                if k = NormalFunction \<or> k = StatementFunction
                then Some (Inl (Report (err_call_requires_subroutine, L,
                                        [ArgInt 2, ArgIdent ID]) S))
                else Some (Inr (Prev, S))
            | _ \<Rightarrow>
                Some (Inl (Report (err_call_requires_subroutine, L,
                                   [ArgInt (if isa_IntrinsicFunctionDecl prev then 1 else 0),
                                    ArgIdent ID]) S))
          }
        | None \<Rightarrow>
            (let (Function, S') = CreateDecl (FunctionDecl External ID IdRangeStart) S
             in Some (Inr (Function, addDecl ID Function S'))));
     case Callee of
       Inl Failed \<Rightarrow> Some (StmtError, Failed)
     | Inr (Function, S1) \<Rightarrow> do {
         let S2 = ReportAll TC S1;
         let (Result, S3) = Create (mkStmt L SLabel (CallStmt Function Arguments)) S2;
         S4 \<leftarrow> DeclareOwnLabel SLabel Result (Append Result S3);
         Some (StmtOk Result, S4)
       }
   }"

section \<open>The IF statement in the parser (ParseExec.cpp)\<close>

text \<open>
  The parser owns the current \<^verbatim>\<open>StmtLabel\<close> and no semantic state. The token stream is
  out of scope: \<open>Condition\<close> is what \<^verbatim>\<open>ParseExpectedConditionExpression\<close> returned, \<open>Tail\<close>
  says what follows the condition, and \<open>ParseActionStmt\<close> is the parse of the action
  statement that follows, as a function of the parser's \<^verbatim>\<open>StmtLabel\<close> (no label token
  stands inside a statement, so \<^verbatim>\<open>ParseStatementLabel\<close> leaves it as it is). The calls of
  this file pass no construct name.
\<close>

datatype IfTail = KwThen | AtStartOfStatement SourceLocation | ActionStmt

definition NoName :: "SourceLocation \<Rightarrow> ConstructName" where
  "NoName L = \<lparr>NameLoc = L, IDInfo = None\<rparr>"

definition ParseIfStmt ::
  "(Expr option \<Rightarrow> ('w::len) Sema \<Rightarrow> (StmtResult \<times> 'w Sema) option) \<Rightarrow> Diagnostic list \<Rightarrow>
     SourceLocation \<Rightarrow> ExprResult \<Rightarrow> IfTail \<Rightarrow> Expr option \<Rightarrow> 'w Sema \<Rightarrow>
     (StmtResult \<times> Expr option \<times> 'w Sema) option" where
  "ParseIfStmt ParseActionStmt TC L Condition Tail SLabel S =
     (if Condition = ExprError then Some (StmtError, SLabel, S)
      else case Tail of
        KwThen \<Rightarrow> do {
          (Result, S1) \<leftarrow> ActOnIfStmt TC L Condition (NoName L) SLabel S;
          Some (Result, SLabel, S1)
        }
      | AtStartOfStatement ExpectedLoc \<Rightarrow>
          Some (StmtError, SLabel, Report (err_expected_executable_stmt, ExpectedLoc, []) S)
      | ActionStmt \<Rightarrow> do {
          (Result, S1) \<leftarrow> ActOnIfStmt TC L Condition (NoName L) SLabel S;
          if Result = StmtError then Some (Result, SLabel, S1)
          else do {
            (Action, S2) \<leftarrow> ParseActionStmt None S1;
            (EndIf, S3) \<leftarrow> ActOnEndIfStmt L (NoName L) None S2;
            Some (if Action = StmtError then StmtError else Result, None, S3)
          }
        })"

definition ParseContinueStmt ::
  "SourceLocation \<Rightarrow> Expr option \<Rightarrow> ('w::len) Sema \<Rightarrow> (StmtResult \<times> 'w Sema) option" where
  "ParseContinueStmt L SLabel S = ActOnContinueStmt L SLabel S"

definition ParseStopStmt ::
  "SourceLocation \<Rightarrow> Expr option \<Rightarrow> ('w::len) Sema \<Rightarrow> (StmtResult \<times> 'w Sema) option" where
  "ParseStopStmt L SLabel S = ActOnStopStmt L ExprEmpty SLabel S"

definition ParseEndIfStmt ::
  "SourceLocation \<Rightarrow> Expr option \<Rightarrow> ('w::len) Sema \<Rightarrow> (StmtResult \<times> 'w Sema) option" where
  "ParseEndIfStmt L SLabel S = ActOnEndIfStmt L (NoName L) SLabel S"

text \<open>
  \<^verbatim>\<open>ParseCallStmt\<close>: \<open>Callee\<close> is the identifier after CALL, if there is one in the
  statement; \<open>Arguments\<close> and \<open>RParenLoc\<close> are what the parse of the argument list gave and
  \<open>PD\<close> the diagnostics it reported. The call of this file hands the action the function
  declaration it resolved where the action of SemaExecStmt.cpp takes the identifier; the
  model hands over the identifier the declaration was resolved from.
\<close>

fun isa_FunctionDecl :: "Decl \<Rightarrow> bool" where
  "isa_FunctionDecl (FunctionDecl _ _ _) = True"
| "isa_FunctionDecl _ = False"

definition ParseCallStmt ::
  "Diagnostic list \<Rightarrow> Diagnostic list \<Rightarrow> SourceLocation \<Rightarrow> SourceLocation \<Rightarrow>
     IdentifierInfo option \<Rightarrow> SourceLocation \<Rightarrow> Expr list \<Rightarrow> SourceLocation \<Rightarrow> Expr option \<Rightarrow>
     ('w::len) Sema \<Rightarrow> (StmtResult \<times> 'w Sema) option" where
  "ParseCallStmt PD TC L ExpectedLoc Callee IdLoc Arguments RParenLoc SLabel S =
     (case Callee of
        None \<Rightarrow> Some (StmtError, Report (err_expected_ident, ExpectedLoc, []) S)
      | Some ID \<Rightarrow> do {
          FD \<leftarrow>
            (case ResolveIdentifier ID S of
               None \<Rightarrow> Some False
             | Some Decl \<Rightarrow> do { d \<leftarrow> getDecl S Decl; Some (isa_FunctionDecl d) });
          if \<not> FD
          then Some (StmtError, Report (err_expected_func_after, ExpectedLoc, [ArgStr ''CALL'']) S)
          else ActOnCallStmt TC L RParenLoc IdLoc ID Arguments SLabel (ReportAll PD S)
        })"

section \<open>The state at the start of a program unit\<close>

definition EmptySema :: "('w::len) Sema" where
  "EmptySema =
     \<lparr>Stmts = [], Decls = [], CurContext = Map.empty,
      CurStmtLabelScope = \<lparr>StmtLabelDeclsInScope = Map.empty, ForwardStmtLabelDeclsInScope = []\<rparr>,
      CurBody = \<lparr>StmtList = [], ControlFlowStack = []\<rparr>,
      CurLoopVars = [], Diags = [], Fortran77 = True\<rparr>"

section \<open>Vocabulary of the properties\<close>

fun isa_IntegerConstantExpr :: "Expr \<Rightarrow> bool" where
  "isa_IntegerConstantExpr (IntegerConstantExpr _ _) = True"
| "isa_IntegerConstantExpr _ = False"

text \<open>
  An entry of the open-construct stack is well formed when its statement is in the arena
  and is an IF, a DO or a DO WHILE (the statements the actions enter), and its expected
  end label, if any, is an integer constant.
\<close>

definition OpenConstruct :: "Stmt list \<Rightarrow> Entry \<Rightarrow> bool" where
  "OpenConstruct Ss E \<longleftrightarrow>
     Statement E < length Ss \<and>
     (isa_IfStmt (Kind (Ss ! Statement E)) \<or> isa_DoStmt (Kind (Ss ! Statement E)) \<or>
      isa_DoWhileStmt (Kind (Ss ! Statement E))) \<and>
     (case ExpectedEndDoLabel E of None \<Rightarrow> True | Some EndLabel \<Rightarrow> isa_IntegerConstantExpr EndLabel)"

text \<open>
  The unterminated-construct diagnostics of one entry, reported at \<open>L\<close>: the expected
  closing keyword (or, for a labeled DO, the expected label) and a note at the opener.
\<close>

definition UnterminatedDiagnostics :: "Stmt list \<Rightarrow> SourceLocation \<Rightarrow> Entry \<Rightarrow> Diagnostic list" where
  "UnterminatedDiagnostics Ss L E =
     (if isa_IfStmt (Kind (Ss ! Statement E))
      then [(err_expected_kw, L, [ArgStr ''end if'']),
            (note_matching, StmtLoc (Ss ! Statement E), [ArgStr ''if''])]
      else case ExpectedEndDoLabel E of
             Some EndLabel \<Rightarrow>
               [(err_expected_stmt_label_end_do, L, [ArgLabel EndLabel]),
                (note_matching, StmtLoc (Ss ! Statement E), [ArgStr ''do''])]
           | None \<Rightarrow>
               [(err_expected_kw, L, [ArgStr ''end do'']),
                (note_matching, StmtLoc (Ss ! Statement E), [ArgStr ''do''])])"

fun ReleaseLoopVars :: "Stmt list \<Rightarrow> Entry list \<Rightarrow> VarExpr list \<Rightarrow> VarExpr list" where
  "ReleaseLoopVars Ss [] Vs = Vs"
| "ReleaseLoopVars Ss (E # Es) Vs =
     ReleaseLoopVars Ss Es
       (case getDoVar (Kind (Ss ! Statement E)) of None \<Rightarrow> Vs | Some v \<Rightarrow> remove1 v Vs)"

text \<open>
  The state after the entries \<open>Popped\<close> (top first) were reported at \<open>L\<close> and popped: the
  stack lost them, their loop variables are released, their diagnostics are appended.
\<close>

definition Unwound :: "Entry list \<Rightarrow> SourceLocation \<Rightarrow> ('w::len) Sema \<Rightarrow> 'w Sema" where
  "Unwound Popped L S =
     S\<lparr>CurBody := (CurBody S)\<lparr>ControlFlowStack :=
                      drop (length Popped) (ControlFlowStack (CurBody S))\<rparr>,
       CurLoopVars := ReleaseLoopVars (Stmts S) Popped (CurLoopVars S),
       Diags := Diags S @ concat (map (UnterminatedDiagnostics (Stmts S) L) Popped)\<rparr>"

text \<open>An entry awaits a label: it is a DO whose expected end label has the same value.\<close>

definition AwaitsLabel :: "('w::len) Sema \<Rightarrow> Expr \<Rightarrow> Entry \<Rightarrow> bool" where
  "AwaitsLabel S SLabel E \<longleftrightarrow>
     isa_DoStmt (Kind (Stmts S ! Statement E)) \<and>
     (case ExpectedEndDoLabel E of
        None \<Rightarrow> False
      | Some EndLabel \<Rightarrow> IsSame (CurStmtLabelScope S) EndLabel SLabel = Some True)"



text \<open>A statement pointer is in the arena, and so is the then-statement it may point to.\<close>

definition InArena :: "Stmt list \<Rightarrow> StmtRef \<Rightarrow> bool" where
  "InArena Ss S \<longleftrightarrow>
     S < length Ss \<and>
     (case getThenStmt (Kind (Ss ! S)) of None \<Rightarrow> True | Some NextStmt \<Rightarrow> NextStmt < length Ss)"

definition withTerminatingStmt :: "StmtRef \<Rightarrow> Stmt \<Rightarrow> Stmt" where
  "withTerminatingStmt S st =
     st\<lparr>Kind := (case Kind st of DoStmt _ v e1 e2 e3 n \<Rightarrow> DoStmt (Some S) v e1 e2 e3 n | k \<Rightarrow> k)\<rparr>"

text \<open>
  The state after the labeled statement \<open>S\<close> closed the DO of entry \<open>E\<close>, the entries
  \<open>Popped\<close> above it being unwound: the DO's pending request is gone, its terminator is
  \<open>S\<close>, the stack lost \<open>Popped\<close> and \<open>E\<close>, and an invalid terminator is reported.
\<close>

definition LabeledDoClosed ::
  "Entry list \<Rightarrow> Entry \<Rightarrow> StmtRef \<Rightarrow> ('w::len) Sema \<Rightarrow> 'w Sema" where
  "LabeledDoClosed Popped E S St =
     St\<lparr>Stmts := (Stmts St)[Statement E := withTerminatingStmt S (Stmts St ! Statement E)],
        CurStmtLabelScope := RemoveForwardReference (Statement E) (CurStmtLabelScope St),
        CurBody := (CurBody St)\<lparr>ControlFlowStack :=
                      drop (Suc (length Popped)) (ControlFlowStack (CurBody St))\<rparr>,
        CurLoopVars := ReleaseLoopVars (Stmts St) (Popped @ [E]) (CurLoopVars St),
        Diags := Diags St
                 @ concat (map (UnterminatedDiagnostics (Stmts St) (StmtLoc (Stmts St ! S))) Popped)
                 @ (if IsValidDoTerminatingStatement St S = Some False
                    then [(err_invalid_do_terminating_stmt, StmtLoc (Stmts St ! S), [])]
                    else [])\<rparr>"



text \<open>The entries the two unwind-until-kind searches look for.\<close>

definition IsOpenIf :: "Stmt list \<Rightarrow> Entry \<Rightarrow> bool" where
  "IsOpenIf Ss E \<longleftrightarrow> isa_IfStmt (Kind (Ss ! Statement E))"

definition IsOpenDo :: "Stmt list \<Rightarrow> Entry \<Rightarrow> bool" where
  "IsOpenDo Ss E \<longleftrightarrow>
     isa_DoWhileStmt (Kind (Ss ! Statement E)) \<or>
     isa_DoStmt (Kind (Ss ! Statement E)) \<and> \<not> hasExpectedDoLabel E"



text \<open>
  Example states. \<open>NestedExample\<close>: a DO WHILE (statement 1) is open inside a block IF
  (statement 0). \<open>LabeledDoExample\<close>: a DO that waits for label 10 (statement 0) is open.
\<close>

definition NestedExample :: "32 Sema" where
  "NestedExample =
     EmptySema\<lparr>
       Stmts := [mkStmt 1 None (IfStmt (Some (OtherExpr 1)) None None (NoName 1)),
                 mkStmt 2 None (DoWhileStmt (Some (OtherExpr 2)) (NoName 2))],
       CurBody := \<lparr>StmtList = [0, 1],
                   ControlFlowStack = [\<lparr>Statement = 1, ExpectedEndDoLabel = None\<rparr>,
                                       \<lparr>Statement = 0, ExpectedEndDoLabel = None\<rparr>]\<rparr>\<rparr>"

definition LabeledDoExample :: "32 Sema" where
  "LabeledDoExample =
     EmptySema\<lparr>
       Stmts := [mkStmt 1 None (DoStmt None (Some 7) (Some (OtherExpr 1)) (Some (OtherExpr 1))
                                None (NoName 1))],
       CurStmtLabelScope :=
         \<lparr>StmtLabelDeclsInScope = Map.empty,
          ForwardStmtLabelDeclsInScope = [ForwardDecl (IntegerConstantExpr 1 10) 0 0]\<rparr>,
       CurBody := \<lparr>StmtList = [0],
                   ControlFlowStack =
                     [\<lparr>Statement = 0, ExpectedEndDoLabel = Some (IntegerConstantExpr 1 10)\<rparr>]\<rparr>,
       CurLoopVars := [7]\<rparr>"

section \<open>Evaluation on concrete states\<close>

lemmas Scope_defs =
  GetStmtLabelValue_def getLimitedValue_def StmtLabelInteger_max_def map_insert_def
  Declare_def Resolve_def DeclareForwardReference_def ForwardDecl_def IsSame_def
  RemoveForwardReference_def

lemmas State_defs =
  Report_def ReportAll_def mkStmt_def Create_def getStmt_def updStmt_def
  setStmtLabelUsedAsGotoTarget_def setStmtLabelUsedAsAssignTarget_def setAddress_def
  setAllowedValue_def setDestination_def setTarget_def setTerminatingStmt_def setElseStmt_def
  Append_def Enter_def Leave_def LeaveIfThen_def HasEntered_def LastEntered_def
  AddLoopVar_def RemoveLoopVar_def DeclareConstructName_def withScope_def
  hasExpectedDoLabel_def isUsableName_def NoName_def EmptySema_def

lemmas Resolver_defs =
  VisitAssignStmt_def VisitAssignedGotoStmt_def VisitGotoStmt_def VisitComputedGotoStmt_def
  VisitDoStmt_def ResolveForwardUsage_def PatchForwardReferences_def

lemmas Block_defs =
  ReportUnterminatedStmt_def ReportUnterminatedLabeledDo_default_def LeaveLastBlock_def
  LeaveBlocksUntilIf_def LeaveBlocksUntilDo_def IsValidDoTerminatingStatement_def
  IsInLabeledDo_def LeaveBlocksUntilLabeledDo_def CheckStatementLabelEndDo_def
  DeclareStatementLabel_def DeclareOwnLabel_def CheckConstructNameMatch_def

lemmas Action_defs =
  ActOnAssignStmt_def ActOnAssignedGotoStmt_def DeclareForwardReferences_def
  ActOnGotoStmt_def ActOnComputedGotoStmt_def ActOnIfStmt_def ActOnDoStmt_def
  ActOnDoWhileStmt_def ActOnElseIfStmt_def ActOnElseStmt_def ActOnEndIfStmt_def
  ActOnEndDoStmt_def ActOnContinueStmt_def ActOnStopStmt_def ResolveIdentifier_def
  getDecl_def CreateDecl_def addDecl_def ActOnCallStmt_def ParseIfStmt_def
  ParseContinueStmt_def ParseStopStmt_def ParseCallStmt_def



text \<open>The statement classes, as \<^verbatim>\<open>getStmtClass()\<close> tells them.\<close>

datatype StmtClass =
    AssignStmtClass | AssignedGotoStmtClass | GotoStmtClass | ComputedGotoStmtClass
  | IfStmtClass | DoStmtClass | DoWhileStmtClass | ConstructPartStmtClass | CycleStmtClass
  | ExitStmtClass | ContinueStmtClass | StopStmtClass | ReturnStmtClass | CallStmtClass
  | AssignmentStmtClass

fun getStmtClass :: "StmtKind \<Rightarrow> StmtClass" where
  "getStmtClass (AssignStmt _ _) = AssignStmtClass"
| "getStmtClass (AssignedGotoStmt _ _) = AssignedGotoStmtClass"
| "getStmtClass (GotoStmt _) = GotoStmtClass"
| "getStmtClass (ComputedGotoStmt _ _) = ComputedGotoStmtClass"
| "getStmtClass (IfStmt _ _ _ _) = IfStmtClass"
| "getStmtClass (DoStmt _ _ _ _ _ _) = DoStmtClass"
| "getStmtClass (DoWhileStmt _ _) = DoWhileStmtClass"
| "getStmtClass (ConstructPartStmt _) = ConstructPartStmtClass"
| "getStmtClass (CycleStmt _ _) = CycleStmtClass"
| "getStmtClass (ExitStmt _ _) = ExitStmtClass"
| "getStmtClass ContinueStmt = ContinueStmtClass"
| "getStmtClass (StopStmt _) = StopStmtClass"
| "getStmtClass (ReturnStmt _) = ReturnStmtClass"
| "getStmtClass (CallStmt _ _) = CallStmtClass"
| "getStmtClass (AssignmentStmt _ _) = AssignmentStmtClass"


text \<open>
  Example states. \<open>IfInLabeledDoExample\<close>: a block IF (statement 1) is open inside a DO that
  waits for label 10 (statement 0), and statement 2, a CONTINUE, has just declared label
  10. \<open>GotoTerminatorExample\<close>: the same with no IF, and the labeled statement a GOTO.
\<close>

definition IfInLabeledDoExample :: "32 Sema" where
  "IfInLabeledDoExample =
     EmptySema\<lparr>
       Stmts := [mkStmt 1 None (DoStmt None (Some 7) (Some (OtherExpr 1)) (Some (OtherExpr 1))
                                None (NoName 1)),
                 mkStmt 2 None (IfStmt (Some (OtherExpr 2)) None None (NoName 2)),
                 mkStmt 3 (Some (IntegerConstantExpr 3 10)) ContinueStmt],
       CurStmtLabelScope :=
         \<lparr>StmtLabelDeclsInScope = [10 \<mapsto> 2],
          ForwardStmtLabelDeclsInScope = [ForwardDecl (IntegerConstantExpr 1 10) 0 0]\<rparr>,
       CurBody := \<lparr>StmtList = [0, 1, 2],
                   ControlFlowStack =
                     [\<lparr>Statement = 1, ExpectedEndDoLabel = None\<rparr>,
                      \<lparr>Statement = 0, ExpectedEndDoLabel = Some (IntegerConstantExpr 1 10)\<rparr>]\<rparr>,
       CurLoopVars := [7]\<rparr>"







text \<open>
  Example state \<open>DeclaredLabelExample\<close>: statement 0, a CONTINUE, has declared label 10; the
  names \<open>x\<close>, \<open>sin\<close>, \<open>f\<close> and \<open>sub\<close> are a variable, an intrinsic function, a function
  and a subroutine.
\<close>

definition DeclaredLabelExample :: "32 Sema" where
  "DeclaredLabelExample =
     EmptySema\<lparr>
       Stmts := [mkStmt 1 (Some (IntegerConstantExpr 1 10)) ContinueStmt],
       Decls := [VarDecl ''x'', IntrinsicFunctionDecl ''sin'', FunctionDecl NormalFunction ''f'' 0,
                 FunctionDecl Subroutine ''sub'' 0],
       CurContext := [''x'' \<mapsto> 0, ''sin'' \<mapsto> 1, ''f'' \<mapsto> 2, ''sub'' \<mapsto> 3],
       CurStmtLabelScope :=
         \<lparr>StmtLabelDeclsInScope = [10 \<mapsto> 0], ForwardStmtLabelDeclsInScope = []\<rparr>,
       CurBody := \<lparr>StmtList = [0], ControlFlowStack = []\<rparr>\<rparr>"



text \<open>The statement a label resolves to in a scope, or none.\<close>

definition ResolvedRef :: "('w::len) StmtLabelScope \<Rightarrow> Expr \<Rightarrow> StmtRef option" where
  "ResolvedRef Sc E = (case Resolve E Sc of Some Decl \<Rightarrow> Decl | None \<Rightarrow> None)"

text \<open>The arena after every statement of a list of references was marked as a GOTO target.\<close>

fun MarkGotoTargets :: "StmtRef option list \<Rightarrow> Stmt list \<Rightarrow> Stmt list" where
  "MarkGotoTargets [] Ss = Ss"
| "MarkGotoTargets (None # Rs) Ss = MarkGotoTargets Rs Ss"
| "MarkGotoTargets (Some D # Rs) Ss =
     MarkGotoTargets Rs (Ss[D := (Ss ! D)\<lparr>StmtLabelUsedAsGotoTarget := True\<rparr>])"

text \<open>
  A pending request can be patched when its label is an integer constant, its owner is in
  the arena and is of a class with a \<^verbatim>\<open>Visit\<close> member, and its slot index is inside the
  owner's list.
\<close>

definition PatchableRequest :: "Stmt list \<Rightarrow> StmtLabelForwardDecl \<Rightarrow> bool" where
  "PatchableRequest Ss Info \<longleftrightarrow>
     isa_IntegerConstantExpr (FwdStmtLabel Info) \<and> FwdStatement Info < length Ss \<and>
     (case Kind (Ss ! FwdStatement Info) of
        AssignStmt _ _ \<Rightarrow> True
      | AssignedGotoStmt _ xs \<Rightarrow> ResolveCallbackData Info < length xs
      | GotoStmt _ \<Rightarrow> True
      | ComputedGotoStmt _ xs \<Rightarrow> ResolveCallbackData Info < length xs
      | DoStmt _ _ _ _ _ _ \<Rightarrow> True
      | _ \<Rightarrow> False)"

text \<open>
  A request is patched to the statement \<open>D\<close>: the slot of its owner that the request
  stands for refers to \<open>D\<close>.
\<close>

definition Patched :: "Stmt list \<Rightarrow> StmtLabelForwardDecl \<Rightarrow> StmtRef \<Rightarrow> bool" where
  "Patched Ss Info D \<longleftrightarrow>
     (case Kind (Ss ! FwdStatement Info) of
        AssignStmt a _ \<Rightarrow> a = Some D
      | AssignedGotoStmt _ xs \<Rightarrow>
          ResolveCallbackData Info < length xs \<and> xs ! ResolveCallbackData Info = Some D
      | GotoStmt d \<Rightarrow> d = Some D
      | ComputedGotoStmt _ xs \<Rightarrow>
          ResolveCallbackData Info < length xs \<and> xs ! ResolveCallbackData Info = Some D
      | DoStmt t _ _ _ _ _ \<Rightarrow> t = Some D
      | _ \<Rightarrow> False)"

text \<open>A request asks for a label with the same label value.\<close>

definition RequestsLabel :: "('w::len) Sema \<Rightarrow> Expr \<Rightarrow> StmtLabelForwardDecl \<Rightarrow> bool" where
  "RequestsLabel St SLabel Info \<longleftrightarrow>
     IsSame (CurStmtLabelScope St) (FwdStmtLabel Info) SLabel = Some True"

text \<open>
  A statement kind after some of its label references were set to \<open>D\<close>, and an arena
  after some of its statements were patched so (locations and labels are kept).
\<close>

fun PatchOf :: "StmtRef \<Rightarrow> StmtKind \<Rightarrow> StmtKind \<Rightarrow> bool" where
  "PatchOf D (AssignStmt a v) k = (k = AssignStmt a v \<or> k = AssignStmt (Some D) v)"
| "PatchOf D (AssignedGotoStmt v xs) k =
     (case k of
        AssignedGotoStmt v' xs' \<Rightarrow>
          v' = v \<and> length xs' = length xs \<and>
          (\<forall>i<length xs. xs' ! i = xs ! i \<or> xs' ! i = Some D)
      | _ \<Rightarrow> False)"
| "PatchOf D (GotoStmt d) k = (k = GotoStmt d \<or> k = GotoStmt (Some D))"
| "PatchOf D (ComputedGotoStmt e xs) k =
     (case k of
        ComputedGotoStmt e' xs' \<Rightarrow>
          e' = e \<and> length xs' = length xs \<and>
          (\<forall>i<length xs. xs' ! i = xs ! i \<or> xs' ! i = Some D)
      | _ \<Rightarrow> False)"
| "PatchOf D (DoStmt t v e1 e2 e3 n) k =
     (k = DoStmt t v e1 e2 e3 n \<or> k = DoStmt (Some D) v e1 e2 e3 n)"
| "PatchOf D k k' = (k' = k)"

definition Patches :: "StmtRef \<Rightarrow> Stmt list \<Rightarrow> Stmt list \<Rightarrow> bool" where
  "Patches D Ss Ss' \<longleftrightarrow>
     length Ss' = length Ss \<and>
     (\<forall>r<length Ss. StmtLoc (Ss' ! r) = StmtLoc (Ss ! r) \<and> StmtLabel (Ss' ! r) = StmtLabel (Ss ! r) \<and>
        PatchOf D (Kind (Ss ! r)) (Kind (Ss' ! r)))"

text \<open>The \<open>DuplicateLabel\<close> diagnostics of a list of diagnostics.\<close>

definition DuplicateLabelDiagnostics :: "Diagnostic list \<Rightarrow> Diagnostic list" where
  "DuplicateLabelDiagnostics ds = filter (\<lambda>d. fst d = DuplicateLabel) ds"

text \<open>
  Example state \<open>PendingExample\<close>: a GOTO (statement 0), an assigned GOTO (statement 1)
  and an open labeled DO (statement 2) wait for label 10, the assigned GOTO also for label
  20; statements 3 and 4 are CONTINUE statements that both carry label 10, not declared yet.
\<close>

definition PendingExample :: "32 Sema" where
  "PendingExample =
     EmptySema\<lparr>
       Stmts := [mkStmt 1 None (GotoStmt None),
                 mkStmt 2 None (AssignedGotoStmt 5 [None, None]),
                 mkStmt 3 None (DoStmt None (Some 7) (Some (OtherExpr 3)) (Some (OtherExpr 3))
                                None (NoName 3)),
                 mkStmt 4 (Some (IntegerConstantExpr 4 10)) ContinueStmt,
                 mkStmt 5 (Some (IntegerConstantExpr 5 10)) ContinueStmt],
       CurStmtLabelScope :=
         \<lparr>StmtLabelDeclsInScope = Map.empty,
          ForwardStmtLabelDeclsInScope =
            [ForwardDecl (IntegerConstantExpr 1 10) 0 0, ForwardDecl (IntegerConstantExpr 2 20) 1 0,
             ForwardDecl (IntegerConstantExpr 2 10) 1 1, ForwardDecl (IntegerConstantExpr 3 10) 2 0]\<rparr>,
       CurBody := \<lparr>StmtList = [0, 1, 2, 3, 4],
                   ControlFlowStack =
                     [\<lparr>Statement = 2, ExpectedEndDoLabel = Some (IntegerConstantExpr 3 10)\<rparr>]\<rparr>,
       CurLoopVars := [7]\<rparr>"

section \<open>Properties of the label scope\<close>

lemma unat_clamped:
  "unat (of_nat (getLimitedValue v (StmtLabelInteger_max TYPE('w::len))) :: 'w word)
     = min v (StmtLabelInteger_max TYPE('w))"
proof -
  have pos: "(0::nat) < 2 ^ LENGTH('w)" by simp
  have "getLimitedValue v (2 ^ LENGTH('w) - 1) = min v (2 ^ LENGTH('w) - 1)"
    by (simp add: getLimitedValue_def min_def)
  moreover have "min v (2 ^ LENGTH('w) - 1) < 2 ^ LENGTH('w)"
    using pos by (simp only: min_def split: if_splits) arith
  ultimately show ?thesis
    by (simp add: StmtLabelInteger_max_def of_nat_inverse)
qed

text \<open>
  C10. The key that \<open>Declare\<close> and \<open>Resolve\<close> use for a statement label is the value of
  its integer constant clamped to the maximum of \<^verbatim>\<open>StmtLabelInteger\<close>. Hence two labels
  whose values both exceed that maximum have the same key: they resolve alike, declare
  alike and are the same label for the table.
\<close>

theorem label_key_is_clamped_value:
  fixes Sc :: "('w::len) StmtLabelScope"
  shows
  "(\<exists>Key :: 'w word.
      GetStmtLabelValue (IntegerConstantExpr l v) = Some Key \<and>
      unat Key = min v (StmtLabelInteger_max TYPE('w)) \<and>
      Resolve (IntegerConstantExpr l v) Sc = Some (StmtLabelDeclsInScope Sc Key) \<and>
      Declare (IntegerConstantExpr l v) s Sc =
        Some (Sc\<lparr>StmtLabelDeclsInScope := map_insert Key s (StmtLabelDeclsInScope Sc)\<rparr>)) \<and>
   (StmtLabelInteger_max TYPE('w) < v1 \<and> StmtLabelInteger_max TYPE('w) < v2 \<longrightarrow>
      (GetStmtLabelValue (IntegerConstantExpr l1 v1) :: 'w word option) =
        GetStmtLabelValue (IntegerConstantExpr l2 v2) \<and>
      Resolve (IntegerConstantExpr l1 v1) Sc = Resolve (IntegerConstantExpr l2 v2) Sc \<and>
      Declare (IntegerConstantExpr l1 v1) s Sc = Declare (IntegerConstantExpr l2 v2) s Sc \<and>
      IsSame Sc (IntegerConstantExpr l1 v1) (IntegerConstantExpr l2 v2) = Some True)"
  using unat_clamped [where 'w='w and v=v]
  by (simp add: GetStmtLabelValue_def Resolve_def Declare_def IsSame_def getLimitedValue_def)

theorem label_key_is_clamped_value_witness:
  "StmtLabelInteger_max TYPE(32) < 4294967296 \<and> StmtLabelInteger_max TYPE(32) < 4294967303 \<and>
   Resolve (IntegerConstantExpr 1 4294967296) (CurStmtLabelScope (EmptySema :: 32 Sema))
   = Resolve (IntegerConstantExpr 2 4294967303) (CurStmtLabelScope (EmptySema :: 32 Sema)) \<and>
   IsSame (CurStmtLabelScope (EmptySema :: 32 Sema))
     (IntegerConstantExpr 1 4294967296) (IntegerConstantExpr 2 4294967303) = Some True"
proof -
  have h: "StmtLabelInteger_max TYPE(32) < 4294967296 \<and> StmtLabelInteger_max TYPE(32) < 4294967303"
    by (simp add: StmtLabelInteger_max_def)
  show ?thesis
    using h label_key_is_clamped_value [where 'w=32 and ?v1.0=4294967296 and ?v2.0=4294967303
      and ?l1.0=1 and ?l2.0=2 and l=0 and v=0 and s=0
      and Sc="CurStmtLabelScope (EmptySema :: 32 Sema)"]
    by simp
qed

section \<open>Unwinding the open-construct stack\<close>

lemma isa_DoStmt_getDoVar: "\<not> isa_DoStmt k \<Longrightarrow> getDoVar k = None"
  by (cases k) simp_all

lemma unwind_step:
  assumes "ControlFlowStack (CurBody S) = E # Rest" and "OpenConstruct (Stmts S) E"
  shows "ReportUnterminatedStmt E L ReportUnterminatedLabeledDo_default S \<bind> LeaveLastBlock
           = Some (Unwound [E] L S)"
  using assms
  by (auto simp: ReportUnterminatedStmt_def LeaveLastBlock_def LastEntered_def Leave_def
      getStmt_def Report_def Unwound_def OpenConstruct_def UnterminatedDiagnostics_def
      RemoveLoopVar_def ReportUnterminatedLabeledDo_default_def isa_DoStmt_getDoVar
      split: option.splits)

lemma Unwound_Nil: "Unwound [] L S = S"
  by (simp add: Unwound_def)

lemma Unwound_Cons: "Unwound (E # Popped) L S = Unwound Popped L (Unwound [E] L S)"
  by (simp add: Unwound_def drop_Suc drop_tl)

lemma Unwound_fields:
  "Stmts (Unwound Popped L S) = Stmts S"
  "ControlFlowStack (CurBody (Unwound Popped L S)) =
     drop (length Popped) (ControlFlowStack (CurBody S))"
  "StmtList (CurBody (Unwound Popped L S)) = StmtList (CurBody S)"
  "CurStmtLabelScope (Unwound Popped L S) = CurStmtLabelScope S"
  "Diags (Unwound Popped L S) = Diags S @ concat (map (UnterminatedDiagnostics (Stmts S) L) Popped)"
  "CurLoopVars (Unwound Popped L S) = ReleaseLoopVars (Stmts S) Popped (CurLoopVars S)"
  "Decls (Unwound Popped L S) = Decls S"
  "CurContext (Unwound Popped L S) = CurContext S"
  by (simp_all add: Unwound_def)

lemma LeaveBlocksUntilIf_loop_unwinds:
  assumes "ControlFlowStack (CurBody S) = Popped @ Rest"
    and "\<forall>E \<in> set Popped. OpenConstruct (Stmts S) E \<and> \<not> isa_IfStmt (Kind (Stmts S ! Statement E))"
  shows "LeaveBlocksUntilIf_loop (Popped @ Stack) L S
           = LeaveBlocksUntilIf_loop Stack L (Unwound Popped L S)"
  using assms
proof (induction Popped arbitrary: S)
  case Nil
  then show ?case by (simp add: Unwound_Nil)
next
  case (Cons E Popped)
  have E: "OpenConstruct (Stmts S) E" "\<not> isa_IfStmt (Kind (Stmts S ! Statement E))"
    using Cons.prems(2) by simp_all
  have st: "getStmt S (Statement E) = Some (Stmts S ! Statement E)"
    using E(1) by (simp add: getStmt_def OpenConstruct_def)
  have step: "ReportUnterminatedStmt E L ReportUnterminatedLabeledDo_default S \<bind> LeaveLastBlock
           = Some (Unwound [E] L S)"
    using Cons.prems(1) E(1) by (intro unwind_step [where Rest="Popped @ Rest"]) simp_all
  have rest: "LeaveBlocksUntilIf_loop (Popped @ Stack) L (Unwound [E] L S)
           = LeaveBlocksUntilIf_loop Stack L (Unwound Popped L (Unwound [E] L S))"
    using Cons.prems by (intro Cons.IH [where S="Unwound [E] L S"]) (simp_all add: Unwound_fields)
  have "LeaveBlocksUntilIf_loop ((E # Popped) @ Stack) L S
          = (ReportUnterminatedStmt E L ReportUnterminatedLabeledDo_default S \<bind> LeaveLastBlock)
              \<bind> LeaveBlocksUntilIf_loop (Popped @ Stack) L"
    using st E(2) by simp
  then show ?case
    by (simp add: step rest Unwound_Cons [of E Popped])
qed

lemma LeaveBlocksUntilDo_loop_unwinds:
  assumes "ControlFlowStack (CurBody S) = Popped @ Rest"
    and "\<forall>E \<in> set Popped. OpenConstruct (Stmts S) E \<and>
           \<not> (isa_DoWhileStmt (Kind (Stmts S ! Statement E)) \<or>
              isa_DoStmt (Kind (Stmts S ! Statement E)) \<and> \<not> hasExpectedDoLabel E)"
  shows "LeaveBlocksUntilDo_loop (Popped @ Stack) L S
           = LeaveBlocksUntilDo_loop Stack L (Unwound Popped L S)"
  using assms
proof (induction Popped arbitrary: S)
  case Nil
  then show ?case by (simp add: Unwound_Nil)
next
  case (Cons E Popped)
  have E: "OpenConstruct (Stmts S) E"
    "\<not> (isa_DoWhileStmt (Kind (Stmts S ! Statement E)) \<or>
        isa_DoStmt (Kind (Stmts S ! Statement E)) \<and> \<not> hasExpectedDoLabel E)"
    using Cons.prems(2) by simp_all
  have st: "getStmt S (Statement E) = Some (Stmts S ! Statement E)"
    using E(1) by (simp add: getStmt_def OpenConstruct_def)
  have step: "ReportUnterminatedStmt E L ReportUnterminatedLabeledDo_default S \<bind> LeaveLastBlock
           = Some (Unwound [E] L S)"
    using Cons.prems(1) E(1) by (intro unwind_step [where Rest="Popped @ Rest"]) simp_all
  have rest: "LeaveBlocksUntilDo_loop (Popped @ Stack) L (Unwound [E] L S)
           = LeaveBlocksUntilDo_loop Stack L (Unwound Popped L (Unwound [E] L S))"
    using Cons.prems by (intro Cons.IH [where S="Unwound [E] L S"]) (simp_all add: Unwound_fields)
  have cond: "(isa_DoWhileStmt (Kind (Stmts S ! Statement E)) \<or>
        isa_DoStmt (Kind (Stmts S ! Statement E)) \<and> \<not> hasExpectedDoLabel E) = False"
    using E(2) by blast
  have "LeaveBlocksUntilDo_loop ((E # Popped) @ Stack) L S
          = (ReportUnterminatedStmt E L ReportUnterminatedLabeledDo_default S \<bind> LeaveLastBlock)
              \<bind> LeaveBlocksUntilDo_loop (Popped @ Stack) L"
    by (simp add: st cond del: de_Morgan_disj de_Morgan_conj not_not)
  then show ?case
    by (simp add: step rest Unwound_Cons [of E Popped])
qed

lemma IsSame_scope: "IsSame Sc A B = IsSame Sc' A B"
  for Sc Sc' :: "('w::len) StmtLabelScope"
  by (simp add: IsSame_def)

lemma IsSame_const:
  "isa_IntegerConstantExpr A \<Longrightarrow> isa_IntegerConstantExpr B \<Longrightarrow> \<exists>b. IsSame Sc A B = Some b"
  by (cases A; cases B) (simp_all add: IsSame_def GetStmtLabelValue_def)

lemma AwaitsLabel_Unwound [simp]: "AwaitsLabel (Unwound Popped L S) SLabel E = AwaitsLabel S SLabel E"
  by (simp add: AwaitsLabel_def Unwound_fields cong: option.case_cong)

lemma found_AwaitsLabel:
  assumes "OpenConstruct (Stmts S) E" "isa_IntegerConstantExpr SLabel"
  shows "(if isa_DoStmt (Kind (Stmts S ! Statement E)) then
          (case ExpectedEndDoLabel E of
             Some EndLabel \<Rightarrow> IsSame (CurStmtLabelScope S) EndLabel SLabel
           | None \<Rightarrow> Some False)
        else Some False) = Some (AwaitsLabel S SLabel E)"
proof (cases "ExpectedEndDoLabel E")
  case None
  then show ?thesis by (simp add: AwaitsLabel_def)
next
  case (Some EndLabel)
  then have "isa_IntegerConstantExpr EndLabel"
    using assms(1) by (simp add: OpenConstruct_def)
  then obtain b where "IsSame (CurStmtLabelScope S) EndLabel SLabel = Some b"
    using IsSame_const assms(2) by blast
  then show ?thesis using Some by (simp add: AwaitsLabel_def)
qed

lemma IsInLabeledDo_loop_eq:
  assumes "\<forall>E \<in> set Popped. OpenConstruct (Stmts S) E \<and> \<not> AwaitsLabel S SLabel E"
    and "isa_IntegerConstantExpr SLabel"
  shows "IsInLabeledDo_loop (Popped @ Stack) SLabel S = IsInLabeledDo_loop Stack SLabel S"
  using assms(1)
proof (induction Popped)
  case Nil
  then show ?case by simp
next
  case (Cons E Popped)
  have E: "OpenConstruct (Stmts S) E" "\<not> AwaitsLabel S SLabel E"
    using Cons.prems by simp_all
  have st: "getStmt S (Statement E) = Some (Stmts S ! Statement E)"
    using E(1) by (simp add: getStmt_def OpenConstruct_def)
  have "IsInLabeledDo_loop ((E # Popped) @ Stack) SLabel S =
          IsInLabeledDo_loop (Popped @ Stack) SLabel S"
  proof (cases "ExpectedEndDoLabel E")
    case None
    then show ?thesis using st by simp
  next
    case (Some EndLabel)
    then have "isa_IntegerConstantExpr EndLabel"
      using E(1) by (simp add: OpenConstruct_def)
    then obtain b where b: "IsSame (CurStmtLabelScope S) EndLabel SLabel = Some b"
      using IsSame_const assms(2) by blast
    then show ?thesis using st Some E(2) by (auto simp: AwaitsLabel_def)
  qed
  then show ?case using Cons by simp
qed

lemma IsInLabeledDo_loop_found:
  assumes "OpenConstruct (Stmts S) E" "AwaitsLabel S SLabel E"
  shows "IsInLabeledDo_loop (E # Stack) SLabel S = Some True"
  using assms
  by (auto simp: getStmt_def OpenConstruct_def AwaitsLabel_def split: option.splits)

lemma LeaveBlocksUntilLabeledDo_loop_unwinds:
  assumes "ControlFlowStack (CurBody S) = Popped @ Rest"
    and "\<forall>E \<in> set Popped. OpenConstruct (Stmts S) E \<and> \<not> AwaitsLabel S SLabel E"
    and "isa_IntegerConstantExpr SLabel"
  shows "LeaveBlocksUntilLabeledDo_loop (Popped @ Stack) L SLabel S
           = LeaveBlocksUntilLabeledDo_loop Stack L SLabel (Unwound Popped L S)"
  using assms(1,2)
proof (induction Popped arbitrary: S)
  case Nil
  then show ?case by (simp add: Unwound_Nil)
next
  case (Cons E Popped)
  have E: "OpenConstruct (Stmts S) E" "\<not> AwaitsLabel S SLabel E"
    using Cons.prems(2) by simp_all
  have st: "getStmt S (Statement E) = Some (Stmts S ! Statement E)"
    using E(1) by (simp add: getStmt_def OpenConstruct_def)
  have step: "ReportUnterminatedStmt E L ReportUnterminatedLabeledDo_default S \<bind> LeaveLastBlock
           = Some (Unwound [E] L S)"
    using Cons.prems(1) E(1) by (intro unwind_step [where Rest="Popped @ Rest"]) simp_all
  have rest: "LeaveBlocksUntilLabeledDo_loop (Popped @ Stack) L SLabel (Unwound [E] L S)
           = LeaveBlocksUntilLabeledDo_loop Stack L SLabel (Unwound Popped L (Unwound [E] L S))"
    using Cons.prems by (intro Cons.IH [where S="Unwound [E] L S"]) (simp_all add: Unwound_fields)
  have "LeaveBlocksUntilLabeledDo_loop ((E # Popped) @ Stack) L SLabel S
          = (ReportUnterminatedStmt E L ReportUnterminatedLabeledDo_default S \<bind> LeaveLastBlock)
              \<bind> LeaveBlocksUntilLabeledDo_loop (Popped @ Stack) L SLabel"
    using st E(2) found_AwaitsLabel [OF E(1) assms(3)] by simp
  then show ?case
    by (simp add: step rest Unwound_Cons [of E Popped])
qed

lemma LeaveBlocksUntilLabeledDo_loop_found:
  assumes "OpenConstruct (Stmts S) E" "AwaitsLabel S SLabel E" "isa_IntegerConstantExpr SLabel"
  shows "LeaveBlocksUntilLabeledDo_loop (E # Stack) L SLabel S = Some (Some (Statement E), S)"
  using assms found_AwaitsLabel [OF assms(1,3)]
  by (simp add: getStmt_def OpenConstruct_def)

lemma ReleaseLoopVars_append:
  "ReleaseLoopVars Ss (A @ B) Vs = ReleaseLoopVars Ss B (ReleaseLoopVars Ss A Vs)"
  by (induction A arbitrary: Vs) simp_all

lemma IsValidDoTerminatingStatement_Stmts:
  "Stmts St' = Stmts St \<Longrightarrow>
     IsValidDoTerminatingStatement St' S = IsValidDoTerminatingStatement St S"
  by (simp add: IsValidDoTerminatingStatement_def getStmt_def
      split: StmtKind.split option.split)

lemma IsValidDoTerminatingStatement_total:
  "InArena (Stmts St) S \<Longrightarrow> \<exists>valid. IsValidDoTerminatingStatement St S = Some valid"
  by (cases "Kind (Stmts St ! S)")
     (auto simp: IsValidDoTerminatingStatement_def getStmt_def InArena_def split: option.splits)

lemma IsInLabeledDo_found:
  assumes "ControlFlowStack (CurBody St) = Popped @ E # Below"
    and "\<forall>P \<in> set Popped. OpenConstruct (Stmts St) P \<and> \<not> AwaitsLabel St SLabel P"
    and "OpenConstruct (Stmts St) E" and "AwaitsLabel St SLabel E"
    and "isa_IntegerConstantExpr SLabel"
  shows "IsInLabeledDo SLabel St = Some True"
proof -
  have "IsInLabeledDo SLabel St = IsInLabeledDo_loop (E # Below) SLabel St"
    using assms(1,2,5) by (simp only: IsInLabeledDo_def IsInLabeledDo_loop_eq)
  also have "\<dots> = Some True"
    using assms(3,4) by (rule IsInLabeledDo_loop_found)
  finally show ?thesis .
qed

lemma LeaveBlocksUntilLabeledDo_found:
  assumes "ControlFlowStack (CurBody St) = Popped @ E # Below"
    and "\<forall>P \<in> set Popped. OpenConstruct (Stmts St) P \<and> \<not> AwaitsLabel St SLabel P"
    and "OpenConstruct (Stmts St) E" and "AwaitsLabel St SLabel E"
    and "isa_IntegerConstantExpr SLabel"
  shows "LeaveBlocksUntilLabeledDo L SLabel St = Some (Some (Statement E), Unwound Popped L St)"
proof -
  have "LeaveBlocksUntilLabeledDo L SLabel St
          = LeaveBlocksUntilLabeledDo_loop (E # Below) L SLabel (Unwound Popped L St)"
    using assms(1,2,5)
    by (simp add: LeaveBlocksUntilLabeledDo_def
        LeaveBlocksUntilLabeledDo_loop_unwinds [where Rest="E # Below"])
  also have "\<dots> = Some (Some (Statement E), Unwound Popped L St)"
    using assms(3,4,5)
    by (intro LeaveBlocksUntilLabeledDo_loop_found) (simp_all add: Unwound_fields)
  finally show ?thesis .
qed

lemma CheckStatementLabelEndDo_closes:
  assumes stack: "ControlFlowStack (CurBody St) = Popped @ E # Below"
    and popped: "\<forall>P \<in> set Popped. OpenConstruct (Stmts St) P \<and> \<not> AwaitsLabel St SLabel P"
    and E: "OpenConstruct (Stmts St) E" "AwaitsLabel St SLabel E"
    and lab: "isa_IntegerConstantExpr SLabel"
    and S: "InArena (Stmts St) S"
  shows "CheckStatementLabelEndDo SLabel S St = Some (LabeledDoClosed Popped E S St)"
proof -
  define L where "L = StmtLoc (Stmts St ! S)"
  define U where "U = Unwound Popped L St"
  define U2 where "U2 = U\<lparr>CurStmtLabelScope := RemoveForwardReference (Statement E) (CurStmtLabelScope U)\<rparr>"
  obtain valid where valid: "IsValidDoTerminatingStatement St S = Some valid"
    using IsValidDoTerminatingStatement_total [OF S] by blast
  have valid2: "IsValidDoTerminatingStatement U2 S = Some valid"
    using valid IsValidDoTerminatingStatement_Stmts [of U2 St S]
    by (simp add: U2_def U_def Unwound_fields)
  have st: "getStmt St S = Some (Stmts St ! S)"
    using S by (simp add: getStmt_def InArena_def)
  have entered: "HasEntered St"
    using stack by (simp add: HasEntered_def)
  have inDo: "IsInLabeledDo SLabel St = Some True"
    using IsInLabeledDo_found [OF stack popped E lab] .
  have leave: "LeaveBlocksUntilLabeledDo L SLabel St = Some (Some (Statement E), U)"
    unfolding U_def using LeaveBlocksUntilLabeledDo_found [OF stack popped E lab] .
  have Edo: "isa_DoStmt (Kind (Stmts St ! Statement E))" "Statement E < length (Stmts St)"
    using E by (simp_all add: AwaitsLabel_def OpenConstruct_def)
  have Ustack: "ControlFlowStack (CurBody U) = E # Below"
    using stack by (simp add: U_def Unwound_fields)
  have "CheckStatementLabelEndDo SLabel S St =
          (let St3 = (if \<not> valid then Report (err_invalid_do_terminating_stmt, L, []) U2 else U2)
           in updStmt (Statement E) (setTerminatingStmt (Some S)) St3 \<bind> LeaveLastBlock)"
    by (simp add: CheckStatementLabelEndDo_def entered inDo st leave valid2
        L_def [symmetric] U2_def [symmetric])
  also have "\<dots> = Some (LabeledDoClosed Popped E S St)"
    using Edo Ustack stack valid
    by (cases "Kind (Stmts St ! Statement E)")
       (auto simp: Let_def updStmt_def getStmt_def setTerminatingStmt_def LeaveLastBlock_def
          LastEntered_def Leave_def Report_def U2_def U_def Unwound_def LabeledDoClosed_def
          withTerminatingStmt_def RemoveLoopVar_def ReleaseLoopVars_append L_def
          RemoveForwardReference_def
          split: option.splits)
  finally show ?thesis .
qed

lemma LeaveBlocksUntilIf_eq:
  assumes wf: "\<forall>E \<in> set (ControlFlowStack (CurBody S)). OpenConstruct (Stmts S) E"
  shows "LeaveBlocksUntilIf L S =
           Some (map_option Statement (find (IsOpenIf (Stmts S)) (ControlFlowStack (CurBody S))),
                 Unwound (takeWhile (Not \<circ> IsOpenIf (Stmts S)) (ControlFlowStack (CurBody S))) L S)"
proof -
  define Stack where "Stack = ControlFlowStack (CurBody S)"
  define Popped where "Popped = takeWhile (Not \<circ> IsOpenIf (Stmts S)) Stack"
  define Rest where "Rest = dropWhile (Not \<circ> IsOpenIf (Stmts S)) Stack"
  have split: "Stack = Popped @ Rest"
    by (simp add: Popped_def Rest_def)
  have popped: "\<forall>E \<in> set Popped. OpenConstruct (Stmts S) E \<and> \<not> isa_IfStmt (Kind (Stmts S ! Statement E))"
  proof
    fix E assume E: "E \<in> set Popped"
    then have "E \<in> set Stack" using split by simp
    moreover have "\<not> IsOpenIf (Stmts S) E"
      using E set_takeWhileD [of E "Not \<circ> IsOpenIf (Stmts S)" Stack] by (simp add: Popped_def)
    ultimately show "OpenConstruct (Stmts S) E \<and> \<not> isa_IfStmt (Kind (Stmts S ! Statement E))"
      using wf by (simp add: Stack_def IsOpenIf_def)
  qed
  have run: "LeaveBlocksUntilIf L S = LeaveBlocksUntilIf_loop Rest L (Unwound Popped L S)"
    using LeaveBlocksUntilIf_loop_unwinds [of S Popped Rest Rest L] split popped
    by (simp add: LeaveBlocksUntilIf_def Stack_def)
  have found: "find (IsOpenIf (Stmts S)) Stack = (case Rest of [] \<Rightarrow> None | E # _ \<Rightarrow> Some E)"
    by (simp add: Rest_def find_dropWhile)
  show ?thesis
  proof (cases Rest)
    case Nil
    then show ?thesis
      using run found by (simp add: Stack_def Popped_def)
  next
    case (Cons E Below)
    have "E \<in> set Stack" using split Cons by simp
    then have oc: "OpenConstruct (Stmts S) E" using wf by (simp add: Stack_def)
    have "IsOpenIf (Stmts S) E"
      using Cons by (simp add: Rest_def dropWhile_eq_Cons_conv)
    then have "LeaveBlocksUntilIf_loop (E # Below) L (Unwound Popped L S)
                 = Some (Some (Statement E), Unwound Popped L S)"
      using oc by (simp add: getStmt_def OpenConstruct_def IsOpenIf_def Unwound_fields)
    then show ?thesis
      using run found Cons by (simp add: Stack_def Popped_def)
  qed
qed

lemma LeaveBlocksUntilDo_eq:
  assumes wf: "\<forall>E \<in> set (ControlFlowStack (CurBody S)). OpenConstruct (Stmts S) E"
  shows "LeaveBlocksUntilDo L S =
           Some (map_option Statement (find (IsOpenDo (Stmts S)) (ControlFlowStack (CurBody S))),
                 Unwound (takeWhile (Not \<circ> IsOpenDo (Stmts S)) (ControlFlowStack (CurBody S))) L S)"
proof -
  define Stack where "Stack = ControlFlowStack (CurBody S)"
  define Popped where "Popped = takeWhile (Not \<circ> IsOpenDo (Stmts S)) Stack"
  define Rest where "Rest = dropWhile (Not \<circ> IsOpenDo (Stmts S)) Stack"
  have split: "Stack = Popped @ Rest"
    by (simp add: Popped_def Rest_def)
  have popped: "\<forall>E \<in> set Popped. OpenConstruct (Stmts S) E \<and>
           \<not> (isa_DoWhileStmt (Kind (Stmts S ! Statement E)) \<or>
              isa_DoStmt (Kind (Stmts S ! Statement E)) \<and> \<not> hasExpectedDoLabel E)"
  proof
    fix E assume E: "E \<in> set Popped"
    then have "E \<in> set Stack" using split by simp
    moreover have "\<not> IsOpenDo (Stmts S) E"
      using E set_takeWhileD [of E "Not \<circ> IsOpenDo (Stmts S)" Stack] by (simp add: Popped_def)
    ultimately show "OpenConstruct (Stmts S) E \<and>
           \<not> (isa_DoWhileStmt (Kind (Stmts S ! Statement E)) \<or>
              isa_DoStmt (Kind (Stmts S ! Statement E)) \<and> \<not> hasExpectedDoLabel E)"
      using wf by (simp add: Stack_def IsOpenDo_def)
  qed
  have run: "LeaveBlocksUntilDo L S = LeaveBlocksUntilDo_loop Rest L (Unwound Popped L S)"
    using LeaveBlocksUntilDo_loop_unwinds [of S Popped Rest Rest L] split popped
    by (simp add: LeaveBlocksUntilDo_def Stack_def)
  have found: "find (IsOpenDo (Stmts S)) Stack = (case Rest of [] \<Rightarrow> None | E # _ \<Rightarrow> Some E)"
    by (simp add: Rest_def find_dropWhile)
  show ?thesis
  proof (cases Rest)
    case Nil
    then show ?thesis
      using run found by (simp add: Stack_def Popped_def)
  next
    case (Cons E Below)
    have "E \<in> set Stack" using split Cons by simp
    then have oc: "OpenConstruct (Stmts S) E" using wf by (simp add: Stack_def)
    have "IsOpenDo (Stmts S) E"
      using Cons by (simp add: Rest_def dropWhile_eq_Cons_conv)
    then have "LeaveBlocksUntilDo_loop (E # Below) L (Unwound Popped L S)
                 = Some (Some (Statement E), Unwound Popped L S)"
      using oc by (simp add: getStmt_def OpenConstruct_def IsOpenDo_def Unwound_fields)
    then show ?thesis
      using run found Cons by (simp add: Stack_def Popped_def)
  qed
qed

section \<open>Unwind-until-kind\<close>

lemma find_None_takeWhile: "find P xs = None \<Longrightarrow> takeWhile (Not \<circ> P) xs = xs"
  by (induction xs) (auto split: if_splits)

text \<open>
  C6. The unwind-until-kind recovery of ELSE IF, ELSE, END IF (sought: an IF entry) and of
  END DO (sought: a DO WHILE entry, or a DO entry with no expected end label) scans the
  stack from the top. The entries before the first sought one are popped, each with the
  unterminated-construct diagnostics of its own kind; the search returns the first sought
  entry and leaves it on the stack, or returns none with the stack empty, and then the
  action reports the closer without an opener.
\<close>

theorem unwind_until_kind:
  fixes S :: "('w::len) Sema"
  assumes wf: "\<forall>E \<in> set (ControlFlowStack (CurBody S)). OpenConstruct (Stmts S) E"
  shows
  "(let Stack = ControlFlowStack (CurBody S);
        PoppedIf = takeWhile (Not \<circ> IsOpenIf (Stmts S)) Stack;
        PoppedDo = takeWhile (Not \<circ> IsOpenDo (Stmts S)) Stack;
        R = length (Stmts S)
    in
      LeaveBlocksUntilIf L S =
        Some (map_option Statement (find (IsOpenIf (Stmts S)) Stack), Unwound PoppedIf L S) \<and>
      ControlFlowStack (CurBody (Unwound PoppedIf L S)) = dropWhile (Not \<circ> IsOpenIf (Stmts S)) Stack \<and>
      Diags (Unwound PoppedIf L S) =
        Diags S @ concat (map (UnterminatedDiagnostics (Stmts S) L) PoppedIf) \<and>
      LeaveBlocksUntilDo L S =
        Some (map_option Statement (find (IsOpenDo (Stmts S)) Stack), Unwound PoppedDo L S) \<and>
      ControlFlowStack (CurBody (Unwound PoppedDo L S)) = dropWhile (Not \<circ> IsOpenDo (Stmts S)) Stack \<and>
      Diags (Unwound PoppedDo L S) =
        Diags S @ concat (map (UnterminatedDiagnostics (Stmts S) L) PoppedDo) \<and>
      (find (IsOpenIf (Stmts S)) Stack = None \<longrightarrow>
         ActOnEndIfStmt L Name SLabel S =
           (let (Result, S1) =
                  Create (mkStmt L SLabel (ConstructPartStmt EndIfStmtClass))
                    (Report (err_stmt_not_in_if, L, [ArgStr ''end if'']) (Unwound Stack L S))
            in DeclareOwnLabel SLabel Result (Append Result S1) \<bind> (\<lambda>S2. Some (StmtOk Result, S2))) \<and>
         ActOnElseStmt L Name SLabel S =
           (let (Result, S1) =
                  Create (mkStmt L SLabel (ConstructPartStmt ElseStmtClass))
                    (Report (err_stmt_not_in_if, L, [ArgStr ''else'']) (Unwound Stack L S))
            in DeclareOwnLabel SLabel Result (Append Result S1) \<bind> (\<lambda>S2. Some (StmtOk Result, S2))) \<and>
         ActOnElseIfStmt TC L Condition Name SLabel S =
           (let S0 = Report (err_stmt_not_in_if, L, [ArgStr ''else if'']) (Unwound Stack L S);
                (Result, S1) =
                  Create (mkStmt L SLabel (IfStmt (get Condition) None None
                                             \<lparr>NameLoc = L, IDInfo = None\<rparr>))
                    (if isUsable Condition then ReportAll TC S0 else S0)
            in DeclareOwnLabel SLabel Result S1 \<bind>
                 (\<lambda>S2. Some (StmtOk Result,
                              Enter \<lparr>Statement = Result, ExpectedEndDoLabel = None\<rparr> S2)))) \<and>
      (find (IsOpenDo (Stmts S)) Stack = None \<longrightarrow>
         ActOnEndDoStmt L Name SLabel S =
           (let (Result, S1) =
                  Create (mkStmt L SLabel (ConstructPartStmt EndDoStmtClass))
                    (Report (err_end_do_without_do, L, []) (Unwound Stack L S))
            in DeclareOwnLabel SLabel Result (Append Result S1) \<bind> (\<lambda>S2. Some (StmtOk Result, S2)))))"
proof -
  have a: "find (IsOpenIf (Stmts S)) (ControlFlowStack (CurBody S)) = None \<Longrightarrow>
           LeaveBlocksUntilIf L S = Some (None, Unwound (ControlFlowStack (CurBody S)) L S)"
    using LeaveBlocksUntilIf_eq [OF wf, of L] by (simp add: find_None_takeWhile)
  have b: "find (IsOpenDo (Stmts S)) (ControlFlowStack (CurBody S)) = None \<Longrightarrow>
           LeaveBlocksUntilDo L S = Some (None, Unwound (ControlFlowStack (CurBody S)) L S)"
    using LeaveBlocksUntilDo_eq [OF wf, of L] by (simp add: find_None_takeWhile)
  have closers_if:
    "ActOnEndIfStmt L Name SLabel S =
           (let (Result, S1) =
                  Create (mkStmt L SLabel (ConstructPartStmt EndIfStmtClass))
                    (Report (err_stmt_not_in_if, L, [ArgStr ''end if''])
                       (Unwound (ControlFlowStack (CurBody S)) L S))
            in DeclareOwnLabel SLabel Result (Append Result S1) \<bind> (\<lambda>S2. Some (StmtOk Result, S2)))"
    "ActOnElseStmt L Name SLabel S =
           (let (Result, S1) =
                  Create (mkStmt L SLabel (ConstructPartStmt ElseStmtClass))
                    (Report (err_stmt_not_in_if, L, [ArgStr ''else''])
                       (Unwound (ControlFlowStack (CurBody S)) L S))
            in DeclareOwnLabel SLabel Result (Append Result S1) \<bind> (\<lambda>S2. Some (StmtOk Result, S2)))"
    "ActOnElseIfStmt TC L Condition Name SLabel S =
           (let S0 = Report (err_stmt_not_in_if, L, [ArgStr ''else if''])
                       (Unwound (ControlFlowStack (CurBody S)) L S);
                (Result, S1) =
                  Create (mkStmt L SLabel (IfStmt (get Condition) None None
                                             \<lparr>NameLoc = L, IDInfo = None\<rparr>))
                    (if isUsable Condition then ReportAll TC S0 else S0)
            in DeclareOwnLabel SLabel Result S1 \<bind>
                 (\<lambda>S2. Some (StmtOk Result,
                              Enter \<lparr>Statement = Result, ExpectedEndDoLabel = None\<rparr> S2)))"
    if "find (IsOpenIf (Stmts S)) (ControlFlowStack (CurBody S)) = None"
    using a [OF that]
    by (simp_all add: ActOnEndIfStmt_def ActOnElseStmt_def ActOnElseIfStmt_def Create_def Let_def)
  have closers_do:
    "ActOnEndDoStmt L Name SLabel S =
           (let (Result, S1) =
                  Create (mkStmt L SLabel (ConstructPartStmt EndDoStmtClass))
                    (Report (err_end_do_without_do, L, [])
                       (Unwound (ControlFlowStack (CurBody S)) L S))
            in DeclareOwnLabel SLabel Result (Append Result S1) \<bind> (\<lambda>S2. Some (StmtOk Result, S2)))"
    if "find (IsOpenDo (Stmts S)) (ControlFlowStack (CurBody S)) = None"
    using b [OF that]
    by (simp add: ActOnEndDoStmt_def Create_def Let_def)
  show ?thesis
    unfolding Let_def
    using closers_if closers_do
    by (simp add: LeaveBlocksUntilIf_eq [OF wf] LeaveBlocksUntilDo_eq [OF wf] Unwound_fields
        dropWhile_eq_drop [symmetric] Let_def)
qed

theorem unwind_until_kind_witness:
  "LeaveBlocksUntilIf 9 NestedExample =
     Some (Some 0, Unwound [\<lparr>Statement = 1, ExpectedEndDoLabel = None\<rparr>] 9 NestedExample) \<and>
   ControlFlowStack (CurBody (Unwound [\<lparr>Statement = 1, ExpectedEndDoLabel = None\<rparr>] 9 NestedExample))
     = [\<lparr>Statement = 0, ExpectedEndDoLabel = None\<rparr>] \<and>
   Diags (Unwound [\<lparr>Statement = 1, ExpectedEndDoLabel = None\<rparr>] 9 NestedExample)
     = [(err_expected_kw, 9, [ArgStr ''end do'']), (note_matching, 2, [ArgStr ''do''])] \<and>
   LeaveBlocksUntilDo 9 NestedExample = Some (Some 1, Unwound [] 9 NestedExample) \<and>
   LeaveBlocksUntilIf 9 LabeledDoExample =
     Some (None, Unwound (ControlFlowStack (CurBody LabeledDoExample)) 9 LabeledDoExample) \<and>
   Diags (Unwound (ControlFlowStack (CurBody LabeledDoExample)) 9 LabeledDoExample)
     = [(err_expected_stmt_label_end_do, 9, [ArgLabel (IntegerConstantExpr 1 10)]),
        (note_matching, 1, [ArgStr ''do''])] \<and>
   map_option (Diags \<circ> snd) (ActOnEndIfStmt 9 (NoName 9) None LabeledDoExample) =
     Some [(err_expected_stmt_label_end_do, 9, [ArgLabel (IntegerConstantExpr 1 10)]),
           (note_matching, 1, [ArgStr ''do'']),
           (err_stmt_not_in_if, 9, [ArgStr ''end if''])] \<and>
   map_option (Diags \<circ> snd) (ActOnEndDoStmt 9 (NoName 9) None LabeledDoExample) =
     Some [(err_expected_stmt_label_end_do, 9, [ArgLabel (IntegerConstantExpr 1 10)]),
           (note_matching, 1, [ArgStr ''do'']),
           (err_end_do_without_do, 9, [])]"
proof -
  have wf1: "\<forall>E \<in> set (ControlFlowStack (CurBody NestedExample)). OpenConstruct (Stmts NestedExample) E"
    by (simp add: NestedExample_def EmptySema_def OpenConstruct_def mkStmt_def)
  have wf2: "\<forall>E \<in> set (ControlFlowStack (CurBody LabeledDoExample)).
               OpenConstruct (Stmts LabeledDoExample) E"
    by (simp add: LabeledDoExample_def EmptySema_def OpenConstruct_def mkStmt_def)
  note n = unwind_until_kind [OF wf1, of 9 "NoName 9" None "[]" ExprEmpty]
  note l = unwind_until_kind [OF wf2, of 9 "NoName 9" None "[]" ExprEmpty]
  have s1: "Stmts NestedExample =
              [mkStmt 1 None (IfStmt (Some (OtherExpr 1)) None None (NoName 1)),
               mkStmt 2 None (DoWhileStmt (Some (OtherExpr 2)) (NoName 2))]"
       "ControlFlowStack (CurBody NestedExample) =
              [\<lparr>Statement = 1, ExpectedEndDoLabel = None\<rparr>, \<lparr>Statement = 0, ExpectedEndDoLabel = None\<rparr>]"
       "Diags NestedExample = []"
    by (simp_all add: NestedExample_def EmptySema_def)
  have s2: "Stmts LabeledDoExample =
              [mkStmt 1 None (DoStmt None (Some 7) (Some (OtherExpr 1)) (Some (OtherExpr 1))
                                None (NoName 1))]"
       "ControlFlowStack (CurBody LabeledDoExample) =
              [\<lparr>Statement = 0, ExpectedEndDoLabel = Some (IntegerConstantExpr 1 10)\<rparr>]"
       "Diags LabeledDoExample = []"
    by (simp_all add: LabeledDoExample_def EmptySema_def)
  show ?thesis
    using n l
    by (simp add: Let_def s1 s2 IsOpenIf_def IsOpenDo_def mkStmt_def hasExpectedDoLabel_def
        UnterminatedDiagnostics_def Create_def Report_def Append_def DeclareOwnLabel_def
        Unwound_fields split: prod.splits)
qed

section \<open>Labeled DO loops and their terminators\<close>

lemma LabeledDoClosed_fields:
  "Stmts (LabeledDoClosed Popped E S St) =
     (Stmts St)[Statement E := withTerminatingStmt S (Stmts St ! Statement E)]"
  "ForwardStmtLabelDeclsInScope (CurStmtLabelScope (LabeledDoClosed Popped E S St)) =
     filter (\<lambda>fd. FwdStatement fd \<noteq> Statement E)
       (ForwardStmtLabelDeclsInScope (CurStmtLabelScope St))"
  "StmtLabelDeclsInScope (CurStmtLabelScope (LabeledDoClosed Popped E S St)) =
     StmtLabelDeclsInScope (CurStmtLabelScope St)"
  "ControlFlowStack (CurBody (LabeledDoClosed Popped E S St)) =
     drop (Suc (length Popped)) (ControlFlowStack (CurBody St))"
  "StmtList (CurBody (LabeledDoClosed Popped E S St)) = StmtList (CurBody St)"
  "CurLoopVars (LabeledDoClosed Popped E S St) =
     ReleaseLoopVars (Stmts St) (Popped @ [E]) (CurLoopVars St)"
  "Diags (LabeledDoClosed Popped E S St) =
     Diags St
     @ concat (map (UnterminatedDiagnostics (Stmts St) (StmtLoc (Stmts St ! S))) Popped)
     @ (if IsValidDoTerminatingStatement St S = Some False
        then [(err_invalid_do_terminating_stmt, StmtLoc (Stmts St ! S), [])]
        else [])"
  by (simp_all add: LabeledDoClosed_def RemoveForwardReference_def)

lemma getTerminatingStmt_withTerminatingStmt:
  "isa_DoStmt (Kind st) \<Longrightarrow> getTerminatingStmt (Kind (withTerminatingStmt S st)) = Some S"
  by (cases "Kind st") (simp_all add: withTerminatingStmt_def)

lemma ActOnDoStmt_opens:
  assumes "Resolve T (CurStmtLabelScope St) = Some None"
  shows "ActOnDoStmt TC L EqualLoc (ExprOk T) DoVar E1 E2 E3 Name DoLabel St =
     DeclareOwnLabel DoLabel (length (Stmts St))
       (St\<lparr>Diags := Diags St @ (if DoVar \<noteq> None then TC else []),
           Stmts := Stmts St @ [mkStmt L DoLabel (DoStmt None DoVar (get E1) (get E2) (get E3) Name)],
           CurLoopVars := CurLoopVars St @ (case DoVar of None \<Rightarrow> [] | Some V \<Rightarrow> [V]),
           CurBody := (CurBody St)
             \<lparr>StmtList := StmtList (CurBody St)
                @ (if DoVar \<noteq> None \<and> isUsable E1 \<and> isUsable E2 then [length (Stmts St)] else [])\<rparr>,
           CurStmtLabelScope := (CurStmtLabelScope St)
             \<lparr>ForwardStmtLabelDeclsInScope :=
                ForwardStmtLabelDeclsInScope (CurStmtLabelScope St)
                @ [ForwardDecl T (length (Stmts St)) 0]\<rparr>\<rparr>)
     \<bind> (\<lambda>S5. Some (StmtOk (length (Stmts St)),
                    Enter \<lparr>Statement = length (Stmts St), ExpectedEndDoLabel = Some T\<rparr> S5))"
  using assms
  by (cases DoVar)
     (simp_all add: ActOnDoStmt_def Let_def Create_def ReportAll_def AddLoopVar_def Append_def
        withScope_def DeclareForwardReference_def DeclareConstructName_def cong: if_cong)

text \<open>
  C2 (as amended). A DO with an explicit terminal label \<open>T\<close> that is not declared yet is
  created with no terminator, registers a forward reference for \<open>T\<close> and is entered with
  \<open>T\<close> as its expected end label. When a later statement \<open>S\<close> declares a label that the DO
  of entry \<open>E\<close> waits for, and \<open>E\<close> is the first entry from the top of the stack that waits
  for it, then the DO's forward reference is removed, its terminator is \<open>S\<close>, and \<open>E\<close> is
  popped, after the entries above it were reported as unterminated and popped.
\<close>

theorem labeled_do_closed_by_its_label:
  fixes St :: "('w::len) Sema"
  assumes stack: "ControlFlowStack (CurBody St) = Popped @ E # Below"
    and popped: "\<forall>P \<in> set Popped. OpenConstruct (Stmts St) P \<and> \<not> AwaitsLabel St SLabel P"
    and E: "OpenConstruct (Stmts St) E \<and> AwaitsLabel St SLabel E"
    and lab: "isa_IntegerConstantExpr SLabel"
    and S: "InArena (Stmts St) S"
  shows
  "(Resolve T (CurStmtLabelScope St0) = Some None \<longrightarrow>
      ActOnDoStmt TC L EqualLoc (ExprOk T) DoVar E1 E2 E3 Name DoLabel St0 =
        DeclareOwnLabel DoLabel (length (Stmts St0))
          (St0\<lparr>Diags := Diags St0 @ (if DoVar \<noteq> None then TC else []),
               Stmts := Stmts St0
                 @ [mkStmt L DoLabel (DoStmt None DoVar (get E1) (get E2) (get E3) Name)],
               CurLoopVars := CurLoopVars St0 @ (case DoVar of None \<Rightarrow> [] | Some V \<Rightarrow> [V]),
               CurBody := (CurBody St0)
                 \<lparr>StmtList := StmtList (CurBody St0)
                    @ (if DoVar \<noteq> None \<and> isUsable E1 \<and> isUsable E2
                       then [length (Stmts St0)] else [])\<rparr>,
               CurStmtLabelScope := (CurStmtLabelScope St0)
                 \<lparr>ForwardStmtLabelDeclsInScope :=
                    ForwardStmtLabelDeclsInScope (CurStmtLabelScope St0)
                    @ [ForwardDecl T (length (Stmts St0)) 0]\<rparr>\<rparr>)
        \<bind> (\<lambda>S5. Some (StmtOk (length (Stmts St0)),
                       Enter \<lparr>Statement = length (Stmts St0), ExpectedEndDoLabel = Some T\<rparr> S5))) \<and>
   (\<exists>St'. CheckStatementLabelEndDo SLabel S St = Some St' \<and>
      ForwardStmtLabelDeclsInScope (CurStmtLabelScope St') =
        filter (\<lambda>fd. FwdStatement fd \<noteq> Statement E)
          (ForwardStmtLabelDeclsInScope (CurStmtLabelScope St)) \<and>
      getTerminatingStmt (Kind (Stmts St' ! Statement E)) = Some S \<and>
      ControlFlowStack (CurBody St') = Below \<and>
      take (length (Diags St) + 2 * length Popped) (Diags St') =
        Diags St @ concat (map (UnterminatedDiagnostics (Stmts St) (StmtLoc (Stmts St ! S))) Popped) \<and>
      StmtList (CurBody St') = StmtList (CurBody St) \<and>
      StmtLabelDeclsInScope (CurStmtLabelScope St') = StmtLabelDeclsInScope (CurStmtLabelScope St))"
proof -
  have closes: "CheckStatementLabelEndDo SLabel S St = Some (LabeledDoClosed Popped E S St)"
    using CheckStatementLabelEndDo_closes [OF stack popped _ _ lab S] E by simp
  have Edo: "isa_DoStmt (Kind (Stmts St ! Statement E))" "Statement E < length (Stmts St)"
    using E by (simp_all add: AwaitsLabel_def OpenConstruct_def)
  have len: "length (concat (map (UnterminatedDiagnostics (Stmts St) (StmtLoc (Stmts St ! S))) Popped))
               = 2 * length Popped"
    by (induction Popped) (simp_all add: UnterminatedDiagnostics_def split: option.split)
  have terminator: "getTerminatingStmt (Kind (Stmts (LabeledDoClosed Popped E S St) ! Statement E)) = Some S"
    using Edo by (simp add: LabeledDoClosed_fields getTerminatingStmt_withTerminatingStmt)
  show ?thesis
    using closes terminator len
    by (simp add: ActOnDoStmt_opens LabeledDoClosed_fields stack)
qed

theorem labeled_do_closed_by_its_label_witness:
  "Resolve (IntegerConstantExpr 1 10) (CurStmtLabelScope (EmptySema :: 32 Sema)) = Some None \<and>
   map_option (ControlFlowStack \<circ> CurBody \<circ> snd)
     (ActOnDoStmt [] 1 1 (ExprOk (IntegerConstantExpr 1 10)) (Some 7) (ExprOk (OtherExpr 1))
        (ExprOk (OtherExpr 1)) ExprEmpty (NoName 1) None (EmptySema :: 32 Sema))
     = Some [\<lparr>Statement = 0, ExpectedEndDoLabel = Some (IntegerConstantExpr 1 10)\<rparr>] \<and>
   ControlFlowStack (CurBody IfInLabeledDoExample) =
     [\<lparr>Statement = 1, ExpectedEndDoLabel = None\<rparr>]
     @ \<lparr>Statement = 0, ExpectedEndDoLabel = Some (IntegerConstantExpr 1 10)\<rparr> # [] \<and>
   OpenConstruct (Stmts IfInLabeledDoExample) \<lparr>Statement = 1, ExpectedEndDoLabel = None\<rparr> \<and>
   \<not> AwaitsLabel IfInLabeledDoExample (IntegerConstantExpr 3 10)
       \<lparr>Statement = 1, ExpectedEndDoLabel = None\<rparr> \<and>
   OpenConstruct (Stmts IfInLabeledDoExample)
     \<lparr>Statement = 0, ExpectedEndDoLabel = Some (IntegerConstantExpr 1 10)\<rparr> \<and>
   AwaitsLabel IfInLabeledDoExample (IntegerConstantExpr 3 10)
     \<lparr>Statement = 0, ExpectedEndDoLabel = Some (IntegerConstantExpr 1 10)\<rparr> \<and>
   InArena (Stmts IfInLabeledDoExample) 2 \<and>
   (\<exists>St'. CheckStatementLabelEndDo (IntegerConstantExpr 3 10) 2 IfInLabeledDoExample = Some St' \<and>
      ForwardStmtLabelDeclsInScope (CurStmtLabelScope St') = [] \<and>
      getTerminatingStmt (Kind (Stmts St' ! 0)) = Some 2 \<and>
      ControlFlowStack (CurBody St') = [] \<and>
      take 2 (Diags St') =
        [(err_expected_kw, 3, [ArgStr ''end if'']), (note_matching, 2, [ArgStr ''if''])])"
proof -
  have stack: "ControlFlowStack (CurBody IfInLabeledDoExample) =
                 [\<lparr>Statement = 1, ExpectedEndDoLabel = None\<rparr>]
                 @ \<lparr>Statement = 0, ExpectedEndDoLabel = Some (IntegerConstantExpr 1 10)\<rparr> # []"
    by (simp add: IfInLabeledDoExample_def EmptySema_def)
  have P: "OpenConstruct (Stmts IfInLabeledDoExample) \<lparr>Statement = 1, ExpectedEndDoLabel = None\<rparr>"
          "\<not> AwaitsLabel IfInLabeledDoExample (IntegerConstantExpr 3 10)
              \<lparr>Statement = 1, ExpectedEndDoLabel = None\<rparr>"
    by (simp_all add: IfInLabeledDoExample_def EmptySema_def OpenConstruct_def AwaitsLabel_def mkStmt_def)
  have E: "OpenConstruct (Stmts IfInLabeledDoExample)
             \<lparr>Statement = 0, ExpectedEndDoLabel = Some (IntegerConstantExpr 1 10)\<rparr> \<and>
           AwaitsLabel IfInLabeledDoExample (IntegerConstantExpr 3 10)
             \<lparr>Statement = 0, ExpectedEndDoLabel = Some (IntegerConstantExpr 1 10)\<rparr>"
    by (simp add: IfInLabeledDoExample_def EmptySema_def OpenConstruct_def AwaitsLabel_def mkStmt_def
        Scope_defs)
  have S: "InArena (Stmts IfInLabeledDoExample) 2"
    by (simp add: IfInLabeledDoExample_def EmptySema_def InArena_def mkStmt_def)
  have res: "Resolve (IntegerConstantExpr 1 10) (CurStmtLabelScope (EmptySema :: 32 Sema)) = Some None"
    by (simp add: EmptySema_def Scope_defs)
  have popped: "\<forall>P \<in> set [\<lparr>Statement = 1, ExpectedEndDoLabel = None\<rparr>].
                  OpenConstruct (Stmts IfInLabeledDoExample) P \<and>
                  \<not> AwaitsLabel IfInLabeledDoExample (IntegerConstantExpr 3 10) P"
    using P by simp
  note t = labeled_do_closed_by_its_label [OF stack popped E _ S,
      where ?St0.0="EmptySema :: 32 Sema" and T="IntegerConstantExpr 1 10" and TC="[]" and L=1
        and EqualLoc=1 and DoVar="Some 7" and ?E1.0="ExprOk (OtherExpr 1)"
        and ?E2.0="ExprOk (OtherExpr 1)" and ?E3.0=ExprEmpty and Name="NoName 1" and DoLabel=None,
      simplified]
  have facts:
    "Stmts IfInLabeledDoExample =
       [mkStmt 1 None (DoStmt None (Some 7) (Some (OtherExpr 1)) (Some (OtherExpr 1))
                                None (NoName 1)),
        mkStmt 2 None (IfStmt (Some (OtherExpr 2)) None None (NoName 2)),
        mkStmt 3 (Some (IntegerConstantExpr 3 10)) ContinueStmt]"
    "Diags IfInLabeledDoExample = []"
    "ForwardStmtLabelDeclsInScope (CurStmtLabelScope IfInLabeledDoExample) =
       [ForwardDecl (IntegerConstantExpr 1 10) 0 0]"
    by (simp_all add: IfInLabeledDoExample_def EmptySema_def)
  have opened: "map_option (ControlFlowStack \<circ> CurBody \<circ> snd)
     (ActOnDoStmt [] 1 1 (ExprOk (IntegerConstantExpr 1 10)) (Some 7) (ExprOk (OtherExpr 1))
        (ExprOk (OtherExpr 1)) ExprEmpty (NoName 1) None (EmptySema :: 32 Sema))
     = Some [\<lparr>Statement = 0, ExpectedEndDoLabel = Some (IntegerConstantExpr 1 10)\<rparr>]"
    using t res by (simp add: DeclareOwnLabel_def Enter_def EmptySema_def)
  have closed: "\<exists>St'. CheckStatementLabelEndDo (IntegerConstantExpr 3 10) 2 IfInLabeledDoExample = Some St' \<and>
      ForwardStmtLabelDeclsInScope (CurStmtLabelScope St') = [] \<and>
      getTerminatingStmt (Kind (Stmts St' ! 0)) = Some 2 \<and>
      ControlFlowStack (CurBody St') = [] \<and>
      take 2 (Diags St') =
        [(err_expected_kw, 3, [ArgStr ''end if'']), (note_matching, 2, [ArgStr ''if''])]"
    using t
    by (simp add: facts ForwardDecl_def UnterminatedDiagnostics_def mkStmt_def numeral_2_eq_2)
       blast
  show ?thesis
    using res opened stack P E S closed by blast
qed


text \<open>
  Two DO loops that share the terminal label 10: the CONTINUE labeled 10 closes the inner
  DO only, and the outer DO (statement 0) is still on the stack.
\<close>

theorem outer_do_sharing_label_stays_open:
  "(do {
      (Outer, S1) \<leftarrow> ActOnDoStmt [] 1 1 (ExprOk (IntegerConstantExpr 1 10)) (Some 1)
                        (ExprOk (OtherExpr 1)) (ExprOk (OtherExpr 1)) ExprEmpty (NoName 1) None
                        (EmptySema :: 32 Sema);
      (Inner, S2) \<leftarrow> ActOnDoStmt [] 2 2 (ExprOk (IntegerConstantExpr 2 10)) (Some 2)
                        (ExprOk (OtherExpr 2)) (ExprOk (OtherExpr 2)) ExprEmpty (NoName 2) None S1;
      (Cont, S3) \<leftarrow> ActOnContinueStmt 3 (Some (IntegerConstantExpr 3 10)) S2;
      Some (Outer, Inner, Cont, ControlFlowStack (CurBody S2), ControlFlowStack (CurBody S3))
    }) =
   Some (StmtOk 0, StmtOk 1, StmtOk 2,
         [\<lparr>Statement = 1, ExpectedEndDoLabel = Some (IntegerConstantExpr 2 10)\<rparr>,
          \<lparr>Statement = 0, ExpectedEndDoLabel = Some (IntegerConstantExpr 1 10)\<rparr>],
         [\<lparr>Statement = 0, ExpectedEndDoLabel = Some (IntegerConstantExpr 1 10)\<rparr>])"
  by (simp add: Scope_defs State_defs Resolver_defs Block_defs Action_defs Let_def)






section \<open>DO with a declared terminal label, CALL\<close>

text \<open>
  C9. When the terminal label of a DO statement is already declared, \<open>ActOnDoStmt\<close> reports
  that the label must be declared after the DO, with a note at the label of the prior
  declaration, and returns an error. Nothing but the diagnostics changes: no statement is
  created or appended, nothing is entered, no forward reference is registered and the loop
  variable is not marked active.
\<close>

theorem do_terminal_label_already_declared:
  fixes S :: "('w::len) Sema"
  assumes "Resolve T (CurStmtLabelScope S) = Some (Some Decl)"
    and "Decl < length (Stmts S)"
    and "StmtLabel (Stmts S ! Decl) = Some DeclLabel"
  shows "ActOnDoStmt TC L EqualLoc (ExprOk T) DoVar E1 E2 E3 Name SLabel S =
           Some (StmtError,
                 S\<lparr>Diags := Diags S @ (if DoVar \<noteq> None then TC else [])
                            @ [(err_stmt_label_must_decl_after, getLocation T,
                                [ArgLabel T, ArgStr ''DO'']),
                               (note_previous_definition, getLocation DeclLabel, [])]\<rparr>)"
  using assms
  by (simp add: ActOnDoStmt_def Let_def ReportAll_def Report_def getStmt_def)

theorem do_terminal_label_already_declared_witness:
  "Resolve (IntegerConstantExpr 2 10) (CurStmtLabelScope DeclaredLabelExample) = Some (Some 0) \<and>
   0 < length (Stmts DeclaredLabelExample) \<and>
   StmtLabel (Stmts DeclaredLabelExample ! 0) = Some (IntegerConstantExpr 1 10) \<and>
   ActOnDoStmt [] 2 2 (ExprOk (IntegerConstantExpr 2 10)) (Some 7) (ExprOk (OtherExpr 2))
     (ExprOk (OtherExpr 2)) ExprEmpty (NoName 2) None DeclaredLabelExample =
   Some (StmtError,
         DeclaredLabelExample\<lparr>Diags :=
           [(err_stmt_label_must_decl_after, 2, [ArgLabel (IntegerConstantExpr 2 10), ArgStr ''DO'']),
            (note_previous_definition, 1, [])]\<rparr>)"
proof -
  have a: "Resolve (IntegerConstantExpr 2 10) (CurStmtLabelScope DeclaredLabelExample) = Some (Some 0)"
    by (simp add: DeclaredLabelExample_def EmptySema_def Scope_defs)
  have b: "0 < length (Stmts DeclaredLabelExample)"
    by (simp add: DeclaredLabelExample_def EmptySema_def)
  have c: "StmtLabel (Stmts DeclaredLabelExample ! 0) = Some (IntegerConstantExpr 1 10)"
    by (simp add: DeclaredLabelExample_def EmptySema_def mkStmt_def)
  have d: "Diags DeclaredLabelExample = []"
    by (simp add: DeclaredLabelExample_def EmptySema_def)
  show ?thesis
    using a b c do_terminal_label_already_declared [OF a b c, of "[]" 2 2 "Some 7"
        "ExprOk (OtherExpr 2)" "ExprOk (OtherExpr 2)" ExprEmpty "NoName 2" None]
    by (simp add: d)
qed

text \<open>
  C8 (as amended). The CALL action, given a name that resolves to no declaration, declares
  the name as an external procedure (the context then holds the new declaration under the
  name), and builds and appends a CallStmt that refers to it. Given a name that resolves
  to a variable (0), an intrinsic function (1), or a normal or statement function (2), it
  reports and returns an error; no statement is created or appended. Any other function
  declaration is called as it is. \<open>ParseCallStmt\<close> reaches the action only with a name that
  resolves to a function declaration: for any other name, an unresolved one included, it
  reports that a function is expected after CALL and returns an error, nothing declared
  and nothing appended.
\<close>

theorem call_stmt_callee:
  fixes S :: "('w::len) Sema"
  shows
  "(ResolveIdentifier ID S = None \<longrightarrow>
      ActOnCallStmt TC L RParenLoc IdLoc ID Arguments SLabel S =
        DeclareOwnLabel SLabel (length (Stmts S))
          (S\<lparr>Decls := Decls S @ [FunctionDecl External ID IdLoc],
             CurContext := (CurContext S)(ID \<mapsto> length (Decls S)),
             Diags := Diags S @ TC,
             Stmts := Stmts S @ [mkStmt L SLabel (CallStmt (length (Decls S)) Arguments)],
             CurBody := (CurBody S)\<lparr>StmtList := StmtList (CurBody S) @ [length (Stmts S)]\<rparr>\<rparr>)
        \<bind> (\<lambda>S4. Some (StmtOk (length (Stmts S)), S4))) \<and>
   (ResolveIdentifier ID S = Some Prev \<and> Prev < length (Decls S) \<longrightarrow>
      (case Decls S ! Prev of
         FunctionDecl k _ _ \<Rightarrow>
           if k = NormalFunction \<or> k = StatementFunction
           then ActOnCallStmt TC L RParenLoc IdLoc ID Arguments SLabel S =
                  Some (StmtError,
                        S\<lparr>Diags := Diags S @ [(err_call_requires_subroutine, L,
                                                [ArgInt 2, ArgIdent ID])]\<rparr>)
           else ActOnCallStmt TC L RParenLoc IdLoc ID Arguments SLabel S =
                  DeclareOwnLabel SLabel (length (Stmts S))
                    (S\<lparr>Diags := Diags S @ TC,
                       Stmts := Stmts S @ [mkStmt L SLabel (CallStmt Prev Arguments)],
                       CurBody := (CurBody S)
                         \<lparr>StmtList := StmtList (CurBody S) @ [length (Stmts S)]\<rparr>\<rparr>)
                  \<bind> (\<lambda>S4. Some (StmtOk (length (Stmts S)), S4))
       | IntrinsicFunctionDecl _ \<Rightarrow>
           ActOnCallStmt TC L RParenLoc IdLoc ID Arguments SLabel S =
             Some (StmtError,
                   S\<lparr>Diags := Diags S @ [(err_call_requires_subroutine, L,
                                           [ArgInt 1, ArgIdent ID])]\<rparr>)
       | _ \<Rightarrow>
           ActOnCallStmt TC L RParenLoc IdLoc ID Arguments SLabel S =
             Some (StmtError,
                   S\<lparr>Diags := Diags S @ [(err_call_requires_subroutine, L,
                                           [ArgInt 0, ArgIdent ID])]\<rparr>))) \<and>
   (ResolveIdentifier ID S = None \<longrightarrow>
      ParseCallStmt PD TC L ExpectedLoc (Some ID) IdLoc Arguments RParenLoc SLabel S =
        Some (StmtError,
              S\<lparr>Diags := Diags S @ [(err_expected_func_after, ExpectedLoc, [ArgStr ''CALL''])]\<rparr>)) \<and>
   (ResolveIdentifier ID S = Some Prev \<and> Prev < length (Decls S) \<longrightarrow>
      ParseCallStmt PD TC L ExpectedLoc (Some ID) IdLoc Arguments RParenLoc SLabel S =
        (if isa_FunctionDecl (Decls S ! Prev)
         then ActOnCallStmt TC L RParenLoc IdLoc ID Arguments SLabel (S\<lparr>Diags := Diags S @ PD\<rparr>)
         else Some (StmtError,
                    S\<lparr>Diags := Diags S
                         @ [(err_expected_func_after, ExpectedLoc, [ArgStr ''CALL''])]\<rparr>)))"
proof -
  show ?thesis
    by (cases "Decls S ! Prev")
       (simp_all add: ActOnCallStmt_def ParseCallStmt_def ResolveIdentifier_def getDecl_def
          CreateDecl_def addDecl_def Report_def ReportAll_def Create_def Append_def Let_def)
qed


theorem call_stmt_callee_witness:
  "ResolveIdentifier ''foo'' DeclaredLabelExample = None \<and>
   ActOnCallStmt [] 5 5 5 ''foo'' [] None DeclaredLabelExample =
     Some (StmtOk 1,
           DeclaredLabelExample
             \<lparr>Decls := Decls DeclaredLabelExample @ [FunctionDecl External ''foo'' 5],
              CurContext := (CurContext DeclaredLabelExample)(''foo'' \<mapsto> 4),
              Stmts := Stmts DeclaredLabelExample @ [mkStmt 5 None (CallStmt 4 [])],
              CurBody := (CurBody DeclaredLabelExample)\<lparr>StmtList := [0, 1]\<rparr>\<rparr>) \<and>
   ResolveIdentifier ''x'' DeclaredLabelExample = Some 0 \<and>
   ActOnCallStmt [] 5 5 5 ''x'' [] None DeclaredLabelExample =
     Some (StmtError,
           DeclaredLabelExample
             \<lparr>Diags := [(err_call_requires_subroutine, 5, [ArgInt 0, ArgIdent ''x''])]\<rparr>) \<and>
   ResolveIdentifier ''sin'' DeclaredLabelExample = Some 1 \<and>
   ActOnCallStmt [] 5 5 5 ''sin'' [] None DeclaredLabelExample =
     Some (StmtError,
           DeclaredLabelExample
             \<lparr>Diags := [(err_call_requires_subroutine, 5, [ArgInt 1, ArgIdent ''sin''])]\<rparr>) \<and>
   ResolveIdentifier ''f'' DeclaredLabelExample = Some 2 \<and>
   ActOnCallStmt [] 5 5 5 ''f'' [] None DeclaredLabelExample =
     Some (StmtError,
           DeclaredLabelExample
             \<lparr>Diags := [(err_call_requires_subroutine, 5, [ArgInt 2, ArgIdent ''f''])]\<rparr>) \<and>
   ParseCallStmt [] [] 5 5 (Some ''x'') 5 [] 5 None DeclaredLabelExample =
     Some (StmtError,
           DeclaredLabelExample
             \<lparr>Diags := [(err_expected_func_after, 5, [ArgStr ''CALL''])]\<rparr>) \<and>
   ParseCallStmt [] [] 5 5 (Some ''f'') 5 [] 5 None DeclaredLabelExample =
     Some (StmtError,
           DeclaredLabelExample
             \<lparr>Diags := [(err_call_requires_subroutine, 5, [ArgInt 2, ArgIdent ''f''])]\<rparr>)"
proof -
  have facts:
    "Decls DeclaredLabelExample =
       [VarDecl ''x'', IntrinsicFunctionDecl ''sin'', FunctionDecl NormalFunction ''f'' 0,
        FunctionDecl Subroutine ''sub'' 0]"
    "Stmts DeclaredLabelExample = [mkStmt 1 (Some (IntegerConstantExpr 1 10)) ContinueStmt]"
    "Diags DeclaredLabelExample = []"
    "StmtList (CurBody DeclaredLabelExample) = [0]"
    by (simp_all add: DeclaredLabelExample_def EmptySema_def)
  have names:
    "ResolveIdentifier ''foo'' DeclaredLabelExample = None"
    "ResolveIdentifier ''x'' DeclaredLabelExample = Some 0"
    "ResolveIdentifier ''sin'' DeclaredLabelExample = Some 1"
    "ResolveIdentifier ''f'' DeclaredLabelExample = Some 2"
    by (simp_all add: ResolveIdentifier_def DeclaredLabelExample_def EmptySema_def)
  have four: "Suc (Suc (Suc (Suc 0))) = 4"
    by simp
  have foo: "ActOnCallStmt [] 5 5 5 ''foo'' [] None DeclaredLabelExample =
     Some (StmtOk 1,
           DeclaredLabelExample
             \<lparr>Decls := Decls DeclaredLabelExample @ [FunctionDecl External ''foo'' 5],
              CurContext := (CurContext DeclaredLabelExample)(''foo'' \<mapsto> 4),
              Stmts := Stmts DeclaredLabelExample @ [mkStmt 5 None (CallStmt 4 [])],
              CurBody := (CurBody DeclaredLabelExample)\<lparr>StmtList := [0, 1]\<rparr>\<rparr>)"
    using names(1) call_stmt_callee [of "''foo''" DeclaredLabelExample "[]" 5 5 5 "[]" None 0 "[]" 5]
    by (simp add: facts DeclareOwnLabel_def) (simp add: DeclaredLabelExample_def EmptySema_def four)
  have x: "ActOnCallStmt [] 5 5 5 ''x'' [] None DeclaredLabelExample =
     Some (StmtError,
           DeclaredLabelExample
             \<lparr>Diags := [(err_call_requires_subroutine, 5, [ArgInt 0, ArgIdent ''x''])]\<rparr>)"
    using names(2) call_stmt_callee [of "''x''" DeclaredLabelExample "[]" 5 5 5 "[]" None 0 "[]" 5]
    by (simp add: facts)
  have sin: "ActOnCallStmt [] 5 5 5 ''sin'' [] None DeclaredLabelExample =
     Some (StmtError,
           DeclaredLabelExample
             \<lparr>Diags := [(err_call_requires_subroutine, 5, [ArgInt 1, ArgIdent ''sin''])]\<rparr>)"
    using names(3) call_stmt_callee [of "''sin''" DeclaredLabelExample "[]" 5 5 5 "[]" None 1 "[]" 5]
    by (simp add: facts)
  have f: "ActOnCallStmt [] 5 5 5 ''f'' [] None DeclaredLabelExample =
     Some (StmtError,
           DeclaredLabelExample
             \<lparr>Diags := [(err_call_requires_subroutine, 5, [ArgInt 2, ArgIdent ''f''])]\<rparr>)"
    using names(4) call_stmt_callee [of "''f''" DeclaredLabelExample "[]" 5 5 5 "[]" None 2 "[]" 5]
    by (simp add: facts)
  have px: "ParseCallStmt [] [] 5 5 (Some ''x'') 5 [] 5 None DeclaredLabelExample =
     Some (StmtError,
           DeclaredLabelExample
             \<lparr>Diags := [(err_expected_func_after, 5, [ArgStr ''CALL''])]\<rparr>)"
    using names(2) call_stmt_callee [of "''x''" DeclaredLabelExample "[]" 5 5 5 "[]" None 0 "[]" 5]
    by (simp add: facts)
  have noop: "DeclaredLabelExample\<lparr>Diags := []\<rparr> = DeclaredLabelExample"
    by (simp add: DeclaredLabelExample_def EmptySema_def)
  have pf: "ParseCallStmt [] [] 5 5 (Some ''f'') 5 [] 5 None DeclaredLabelExample =
     Some (StmtError,
           DeclaredLabelExample
             \<lparr>Diags := [(err_call_requires_subroutine, 5, [ArgInt 2, ArgIdent ''f''])]\<rparr>)"
    using names(4) f call_stmt_callee [of "''f''" DeclaredLabelExample "[]" 5 5 5 "[]" None 2 "[]" 5]
    by (simp add: facts noop)
  show ?thesis
    using names foo x sin f px pf by simp
qed

text \<open>
  A CALL statement whose callee name resolves to no declaration: the parse routine reports
  and returns an error; no procedure is declared and no statement is appended.
\<close>

theorem call_of_unresolved_name_rejected_by_parser:
  "ResolveIdentifier ''foo'' DeclaredLabelExample = None \<and>
   ParseCallStmt [] [] 5 5 (Some ''foo'') 5 [] 5 None DeclaredLabelExample =
     Some (StmtError,
           DeclaredLabelExample
             \<lparr>Diags := [(err_expected_func_after, 5, [ArgStr ''CALL''])]\<rparr>)"
  by (simp add: ParseCallStmt_def ResolveIdentifier_def Report_def DeclaredLabelExample_def
      EmptySema_def)

section \<open>The GOTO family\<close>

lemma Resolve_const:
  "isa_IntegerConstantExpr E \<Longrightarrow> Resolve E Sc = Some (ResolvedRef Sc E)"
  by (cases E) (simp_all add: ResolvedRef_def Resolve_def GetStmtLabelValue_def)

lemma ResolveAllowedValues_eq:
  "\<forall>E \<in> set Es. isa_IntegerConstantExpr E \<Longrightarrow>
     ResolveAllowedValues Es Sc = Some (map (ResolvedRef Sc) Es)"
  by (induction Es) (simp_all add: Resolve_const)

lemma DeclareForwardReferences_upt:
  "fold (\<lambda>I Sc'. if Labels ! I = None
                  then DeclareForwardReference (ForwardDecl (Values ! I) Result I) Sc'
                  else Sc') [0..<n] Sc =
   Sc\<lparr>ForwardStmtLabelDeclsInScope :=
        ForwardStmtLabelDeclsInScope Sc
        @ map (\<lambda>I. ForwardDecl (Values ! I) Result I) (filter (\<lambda>I. Labels ! I = None) [0..<n])\<rparr>"
  by (induction n) (simp_all add: DeclareForwardReference_def)

lemma DeclareForwardReferences_eq:
  "DeclareForwardReferences Values Labels Result Sc =
   Sc\<lparr>ForwardStmtLabelDeclsInScope :=
        ForwardStmtLabelDeclsInScope Sc
        @ map (\<lambda>I. ForwardDecl (Values ! I) Result I)
            (filter (\<lambda>I. Labels ! I = None) [0..<length Values])\<rparr>"
  by (simp add: DeclareForwardReferences_def DeclareForwardReferences_upt)

lemma MarkGotoTargets_length [simp]: "length (MarkGotoTargets Rs Ss) = length Ss"
  by (induction Rs Ss rule: MarkGotoTargets.induct) simp_all

lemma MarkGotoTargets_same:
  "Kind (MarkGotoTargets Rs Ss ! r) = Kind (Ss ! r) \<and>
   StmtLabel (MarkGotoTargets Rs Ss ! r) = StmtLabel (Ss ! r) \<and>
   StmtLoc (MarkGotoTargets Rs Ss ! r) = StmtLoc (Ss ! r) \<and>
   StmtLabelUsedAsAssignTarget (MarkGotoTargets Rs Ss ! r) = StmtLabelUsedAsAssignTarget (Ss ! r) \<and>
   (StmtLabelUsedAsGotoTarget (Ss ! r) \<longrightarrow> StmtLabelUsedAsGotoTarget (MarkGotoTargets Rs Ss ! r))"
proof (induction Rs Ss rule: MarkGotoTargets.induct)
  case (3 D Rs Ss)
  show ?case
  proof (cases "r = D \<and> D < length Ss")
    case True
    then show ?thesis using 3 by simp
  next
    case False
    then have "Ss[D := (Ss ! D)\<lparr>StmtLabelUsedAsGotoTarget := True\<rparr>] ! r = Ss ! r"
      by (cases "r = D") (simp_all add: list_update_beyond)
    then show ?thesis using 3 by simp
  qed
qed simp_all

lemma MarkGotoTargets_marked:
  "Some D \<in> set Rs \<Longrightarrow> D < length Ss \<Longrightarrow>
     StmtLabelUsedAsGotoTarget (MarkGotoTargets Rs Ss ! D)"
proof (induction Rs Ss rule: MarkGotoTargets.induct)
  case (3 D' Rs Ss)
  show ?case
  proof (cases "D' = D")
    case True
    have "StmtLabelUsedAsGotoTarget (Ss[D := (Ss ! D)\<lparr>StmtLabelUsedAsGotoTarget := True\<rparr>] ! D)"
      using 3(3) by simp
    then show ?thesis
      using True MarkGotoTargets_same [of Rs "Ss[D := (Ss ! D)\<lparr>StmtLabelUsedAsGotoTarget := True\<rparr>]" D]
      by simp
  next
    case False
    then show ?thesis using 3 by simp
  qed
qed simp_all

lemma ResolveTargets_eq:
  assumes "\<forall>E \<in> set Es. isa_IntegerConstantExpr E"
    and "\<forall>E \<in> set Es. \<forall>D. ResolvedRef (CurStmtLabelScope S) E = Some D \<longrightarrow> D < length (Stmts S)"
  shows "ResolveTargets Es S =
           Some (map (ResolvedRef (CurStmtLabelScope S)) Es,
                 S\<lparr>Stmts := MarkGotoTargets (map (ResolvedRef (CurStmtLabelScope S)) Es) (Stmts S)\<rparr>)"
  using assms
proof (induction Es arbitrary: S)
  case Nil
  then show ?case by simp
next
  case (Cons E Es)
  have res: "Resolve E (CurStmtLabelScope S) = Some (ResolvedRef (CurStmtLabelScope S) E)"
    using Cons.prems(1) by (simp add: Resolve_const)
  show ?case
  proof (cases "ResolvedRef (CurStmtLabelScope S) E")
    case None
    then show ?thesis
      using res Cons.IH [of S] Cons.prems by simp
  next
    case (Some D)
    then have D: "D < length (Stmts S)" using Cons.prems(2) by simp
    define S1 where "S1 = S\<lparr>Stmts := (Stmts S)[D := (Stmts S ! D)\<lparr>StmtLabelUsedAsGotoTarget := True\<rparr>]\<rparr>"
    have upd: "updStmt D setStmtLabelUsedAsGotoTarget S = Some S1"
      using D by (simp add: updStmt_def getStmt_def setStmtLabelUsedAsGotoTarget_def S1_def)
    have "ResolveTargets Es S1 =
           Some (map (ResolvedRef (CurStmtLabelScope S1)) Es,
                 S1\<lparr>Stmts := MarkGotoTargets (map (ResolvedRef (CurStmtLabelScope S1)) Es) (Stmts S1)\<rparr>)"
      using Cons.prems by (intro Cons.IH) (simp_all add: S1_def)
    then show ?thesis
      using res Some upd by (simp add: S1_def)
  qed
qed

lemma ActOnGotoStmt_eq:
  fixes S :: "('w::len) Sema"
  assumes dest: "isa_IntegerConstantExpr Dest"
    and arena: "\<forall>D. ResolvedRef (CurStmtLabelScope S) Dest = Some D \<longrightarrow> D < length (Stmts S)"
  shows "ActOnGotoStmt L (ExprOk Dest) SLabel S =
     DeclareOwnLabel SLabel (length (Stmts S))
       (case ResolvedRef (CurStmtLabelScope S) Dest of
          Some D \<Rightarrow>
            S\<lparr>Stmts := (Stmts S)[D := (Stmts S ! D)\<lparr>StmtLabelUsedAsGotoTarget := True\<rparr>]
                         @ [mkStmt L SLabel (GotoStmt (Some D))],
              CurBody := (CurBody S)\<lparr>StmtList := StmtList (CurBody S) @ [length (Stmts S)]\<rparr>\<rparr>
        | None \<Rightarrow>
            S\<lparr>Stmts := Stmts S @ [mkStmt L SLabel (GotoStmt None)],
              CurStmtLabelScope := (CurStmtLabelScope S)
                \<lparr>ForwardStmtLabelDeclsInScope :=
                   ForwardStmtLabelDeclsInScope (CurStmtLabelScope S)
                   @ [ForwardDecl Dest (length (Stmts S)) 0]\<rparr>,
              CurBody := (CurBody S)\<lparr>StmtList := StmtList (CurBody S) @ [length (Stmts S)]\<rparr>\<rparr>)
     \<bind> (\<lambda>S2. Some (StmtOk (length (Stmts S)), S2))"
proof (cases "ResolvedRef (CurStmtLabelScope S) Dest")
  case None
  then show ?thesis
    using Resolve_const [OF dest, of "CurStmtLabelScope S"]
    by (simp add: ActOnGotoStmt_def Create_def withScope_def DeclareForwardReference_def Append_def)
next
  case (Some D)
  then have D: "D < length (Stmts S)" using arena by simp
  show ?thesis
    using Resolve_const [OF dest, of "CurStmtLabelScope S"] Some D
    by (simp add: ActOnGotoStmt_def Create_def updStmt_def getStmt_def Append_def
        setStmtLabelUsedAsGotoTarget_def nth_append list_update_append)
qed

lemma ActOnAssignedGotoStmt_eq:
  fixes S :: "('w::len) Sema"
  assumes labels: "\<forall>E \<in> set Values. isa_IntegerConstantExpr E"
  shows "ActOnAssignedGotoStmt TC L VarRef Values SLabel S =
     DeclareOwnLabel SLabel (length (Stmts S))
       (S\<lparr>Diags := Diags S @ TC,
          Stmts := Stmts S
            @ [mkStmt L SLabel (AssignedGotoStmt VarRef (map (ResolvedRef (CurStmtLabelScope S)) Values))],
          CurStmtLabelScope := (CurStmtLabelScope S)
            \<lparr>ForwardStmtLabelDeclsInScope :=
               ForwardStmtLabelDeclsInScope (CurStmtLabelScope S)
               @ map (\<lambda>I. ForwardDecl (Values ! I) (length (Stmts S)) I)
                   (filter (\<lambda>I. map (ResolvedRef (CurStmtLabelScope S)) Values ! I = None)
                      [0..<length Values])\<rparr>,
          CurBody := (CurBody S)\<lparr>StmtList := StmtList (CurBody S) @ [length (Stmts S)]\<rparr>\<rparr>)
     \<bind> (\<lambda>S2. Some (StmtOk (length (Stmts S)), S2))"
  using ResolveAllowedValues_eq [OF labels, of "CurStmtLabelScope S"]
  by (simp add: ActOnAssignedGotoStmt_def ReportAll_def Create_def withScope_def Append_def
      DeclareForwardReferences_eq Let_def)

lemma ActOnComputedGotoStmt_eq:
  fixes S :: "('w::len) Sema"
  assumes labels: "\<forall>E \<in> set Values. isa_IntegerConstantExpr E"
    and arena: "\<forall>E \<in> set Values. \<forall>D. ResolvedRef (CurStmtLabelScope S) E = Some D \<longrightarrow>
                   D < length (Stmts S)"
  shows "ActOnComputedGotoStmt TC L Values Operand SLabel S =
     DeclareOwnLabel SLabel (length (Stmts S))
       (S\<lparr>Diags := Diags S
                     @ (if \<not> Fortran77 S then [(warn_deprecated_computed_goto_stmt, L, [])] else [])
                     @ (if isUsable Operand then TC else []),
          Stmts := MarkGotoTargets (map (ResolvedRef (CurStmtLabelScope S)) Values) (Stmts S)
            @ [mkStmt L SLabel (ComputedGotoStmt (get Operand)
                                  (map (ResolvedRef (CurStmtLabelScope S)) Values))],
          CurStmtLabelScope := (CurStmtLabelScope S)
            \<lparr>ForwardStmtLabelDeclsInScope :=
               ForwardStmtLabelDeclsInScope (CurStmtLabelScope S)
               @ map (\<lambda>I. ForwardDecl (Values ! I) (length (Stmts S)) I)
                   (filter (\<lambda>I. map (ResolvedRef (CurStmtLabelScope S)) Values ! I = None)
                      [0..<length Values])\<rparr>,
          CurBody := (CurBody S)\<lparr>StmtList := StmtList (CurBody S) @ [length (Stmts S)]\<rparr>\<rparr>)
     \<bind> (\<lambda>S2. Some (StmtOk (length (Stmts S)), S2))"
proof -
  define S1 where "S1 = S\<lparr>Diags := Diags S
                     @ (if \<not> Fortran77 S then [(warn_deprecated_computed_goto_stmt, L, [])] else [])
                     @ (if isUsable Operand then TC else [])\<rparr>"
  have S1: "(let S0 = (if \<not> Fortran77 S then Report (warn_deprecated_computed_goto_stmt, L, []) S else S)
             in if isUsable Operand then ReportAll TC S0 else S0) = S1"
    by (simp add: S1_def Report_def ReportAll_def)
  have res: "ResolveTargets Values S1 =
           Some (map (ResolvedRef (CurStmtLabelScope S)) Values,
                 S1\<lparr>Stmts := MarkGotoTargets (map (ResolvedRef (CurStmtLabelScope S)) Values) (Stmts S)\<rparr>)"
    using ResolveTargets_eq [of Values S1] labels arena by (simp add: S1_def)
  have "ActOnComputedGotoStmt TC L Values Operand SLabel S =
          (ResolveTargets Values S1 \<bind> (\<lambda>(TargetLabels, S2).
             let (Result, S3) = Create (mkStmt L SLabel (ComputedGotoStmt (get Operand) TargetLabels)) S2;
                 S4 = withScope (DeclareForwardReferences Values TargetLabels Result) S3
             in DeclareOwnLabel SLabel Result (Append Result S4) \<bind> (\<lambda>S5. Some (StmtOk Result, S5))))"
    using S1 by (simp add: ActOnComputedGotoStmt_def Let_def)
  also have "\<dots> =
          (let S2 = S1\<lparr>Stmts := MarkGotoTargets (map (ResolvedRef (CurStmtLabelScope S)) Values) (Stmts S)\<rparr>;
               TargetLabels = map (ResolvedRef (CurStmtLabelScope S)) Values;
               (Result, S3) = Create (mkStmt L SLabel (ComputedGotoStmt (get Operand) TargetLabels)) S2;
               S4 = withScope (DeclareForwardReferences Values TargetLabels Result) S3
           in DeclareOwnLabel SLabel Result (Append Result S4) \<bind> (\<lambda>S5. Some (StmtOk Result, S5)))"
    by (simp only: res Option.bind.simps prod.case Let_def)
  also have "\<dots> = DeclareOwnLabel SLabel (length (Stmts S))
       (S1\<lparr>Stmts := MarkGotoTargets (map (ResolvedRef (CurStmtLabelScope S)) Values) (Stmts S)
            @ [mkStmt L SLabel (ComputedGotoStmt (get Operand)
                                  (map (ResolvedRef (CurStmtLabelScope S)) Values))],
          CurStmtLabelScope := (CurStmtLabelScope S)
            \<lparr>ForwardStmtLabelDeclsInScope :=
               ForwardStmtLabelDeclsInScope (CurStmtLabelScope S)
               @ map (\<lambda>I. ForwardDecl (Values ! I) (length (Stmts S)) I)
                   (filter (\<lambda>I. map (ResolvedRef (CurStmtLabelScope S)) Values ! I = None)
                      [0..<length Values])\<rparr>,
          CurBody := (CurBody S)\<lparr>StmtList := StmtList (CurBody S) @ [length (Stmts S)]\<rparr>\<rparr>)
     \<bind> (\<lambda>S2. Some (StmtOk (length (Stmts S)), S2))"
    by (simp add: Create_def withScope_def Append_def DeclareForwardReferences_eq Let_def)
       (simp add: S1_def)
  finally show ?thesis
    by (simp only: S1_def Sema.update_convs Sema.simps)
qed

text \<open>
  C3 (as amended). Each of the three GOTO actions builds its statement, appends it to the
  current body and then declares the statement's own label, if it has one. A referenced
  label that is already declared is resolved at once to the declaring statement, and the
  GOTO and the computed GOTO mark that statement as used as a GOTO target; the assigned
  GOTO resolves it and marks nothing. A referenced label that is not declared yet leaves
  a null reference and registers a forward declaration with the owning statement and, for
  the assigned and the computed GOTO, the slot index.
\<close>

theorem goto_family_actions:
  fixes S :: "('w::len) Sema"
  assumes dest: "isa_IntegerConstantExpr Dest"
    and dest_arena: "\<forall>D. ResolvedRef (CurStmtLabelScope S) Dest = Some D \<longrightarrow> D < length (Stmts S)"
    and labels: "\<forall>E \<in> set Values. isa_IntegerConstantExpr E"
    and arena: "\<forall>E \<in> set Values. \<forall>D. ResolvedRef (CurStmtLabelScope S) E = Some D \<longrightarrow>
                   D < length (Stmts S)"
  shows
  "ActOnGotoStmt L (ExprOk Dest) SLabel S =
     DeclareOwnLabel SLabel (length (Stmts S))
       (case ResolvedRef (CurStmtLabelScope S) Dest of
          Some D \<Rightarrow>
            S\<lparr>Stmts := (Stmts S)[D := (Stmts S ! D)\<lparr>StmtLabelUsedAsGotoTarget := True\<rparr>]
                         @ [mkStmt L SLabel (GotoStmt (Some D))],
              CurBody := (CurBody S)\<lparr>StmtList := StmtList (CurBody S) @ [length (Stmts S)]\<rparr>\<rparr>
        | None \<Rightarrow>
            S\<lparr>Stmts := Stmts S @ [mkStmt L SLabel (GotoStmt None)],
              CurStmtLabelScope := (CurStmtLabelScope S)
                \<lparr>ForwardStmtLabelDeclsInScope :=
                   ForwardStmtLabelDeclsInScope (CurStmtLabelScope S)
                   @ [ForwardDecl Dest (length (Stmts S)) 0]\<rparr>,
              CurBody := (CurBody S)\<lparr>StmtList := StmtList (CurBody S) @ [length (Stmts S)]\<rparr>\<rparr>)
     \<bind> (\<lambda>S2. Some (StmtOk (length (Stmts S)), S2)) \<and>
   ActOnAssignedGotoStmt TC L VarRef Values SLabel S =
     DeclareOwnLabel SLabel (length (Stmts S))
       (S\<lparr>Diags := Diags S @ TC,
          Stmts := Stmts S
            @ [mkStmt L SLabel (AssignedGotoStmt VarRef (map (ResolvedRef (CurStmtLabelScope S)) Values))],
          CurStmtLabelScope := (CurStmtLabelScope S)
            \<lparr>ForwardStmtLabelDeclsInScope :=
               ForwardStmtLabelDeclsInScope (CurStmtLabelScope S)
               @ map (\<lambda>I. ForwardDecl (Values ! I) (length (Stmts S)) I)
                   (filter (\<lambda>I. map (ResolvedRef (CurStmtLabelScope S)) Values ! I = None)
                      [0..<length Values])\<rparr>,
          CurBody := (CurBody S)\<lparr>StmtList := StmtList (CurBody S) @ [length (Stmts S)]\<rparr>\<rparr>)
     \<bind> (\<lambda>S2. Some (StmtOk (length (Stmts S)), S2)) \<and>
   ActOnComputedGotoStmt TC L Values Operand SLabel S =
     DeclareOwnLabel SLabel (length (Stmts S))
       (S\<lparr>Diags := Diags S
                     @ (if \<not> Fortran77 S then [(warn_deprecated_computed_goto_stmt, L, [])] else [])
                     @ (if isUsable Operand then TC else []),
          Stmts := MarkGotoTargets (map (ResolvedRef (CurStmtLabelScope S)) Values) (Stmts S)
            @ [mkStmt L SLabel (ComputedGotoStmt (get Operand)
                                  (map (ResolvedRef (CurStmtLabelScope S)) Values))],
          CurStmtLabelScope := (CurStmtLabelScope S)
            \<lparr>ForwardStmtLabelDeclsInScope :=
               ForwardStmtLabelDeclsInScope (CurStmtLabelScope S)
               @ map (\<lambda>I. ForwardDecl (Values ! I) (length (Stmts S)) I)
                   (filter (\<lambda>I. map (ResolvedRef (CurStmtLabelScope S)) Values ! I = None)
                      [0..<length Values])\<rparr>,
          CurBody := (CurBody S)\<lparr>StmtList := StmtList (CurBody S) @ [length (Stmts S)]\<rparr>\<rparr>)
     \<bind> (\<lambda>S2. Some (StmtOk (length (Stmts S)), S2)) \<and>
   (\<forall>D. Some D \<in> set (map (ResolvedRef (CurStmtLabelScope S)) Values) \<longrightarrow>
      StmtLabelUsedAsGotoTarget
        (MarkGotoTargets (map (ResolvedRef (CurStmtLabelScope S)) Values) (Stmts S) ! D)) \<and>
   (\<forall>r. Kind (MarkGotoTargets (map (ResolvedRef (CurStmtLabelScope S)) Values) (Stmts S) ! r) =
          Kind (Stmts S ! r)) \<and>
   length (MarkGotoTargets (map (ResolvedRef (CurStmtLabelScope S)) Values) (Stmts S)) =
     length (Stmts S)"
proof -
  have marked: "StmtLabelUsedAsGotoTarget
        (MarkGotoTargets (map (ResolvedRef (CurStmtLabelScope S)) Values) (Stmts S) ! D)"
    if "Some D \<in> set (map (ResolvedRef (CurStmtLabelScope S)) Values)" for D
  proof -
    from that obtain E where "E \<in> set Values" "ResolvedRef (CurStmtLabelScope S) E = Some D"
      by auto
    then have "D < length (Stmts S)" using arena by blast
    then show ?thesis using that by (rule MarkGotoTargets_marked [rotated])
  qed
  show ?thesis
    using ActOnGotoStmt_eq [OF dest dest_arena, of L SLabel]
      ActOnAssignedGotoStmt_eq [OF labels, of TC L VarRef SLabel S]
      ActOnComputedGotoStmt_eq [OF labels arena, of TC L Operand SLabel]
      marked MarkGotoTargets_same
    by simp
qed

theorem goto_family_actions_witness:
  "isa_IntegerConstantExpr (IntegerConstantExpr 2 10) \<and>
   ResolvedRef (CurStmtLabelScope DeclaredLabelExample) (IntegerConstantExpr 2 10) = Some 0 \<and>
   ResolvedRef (CurStmtLabelScope DeclaredLabelExample) (IntegerConstantExpr 2 20) = None \<and>
   0 < length (Stmts DeclaredLabelExample) \<and>
   map_option (\<lambda>(R, S'). (R, map Kind (Stmts S'), map StmtLabelUsedAsGotoTarget (Stmts S'),
                            ForwardStmtLabelDeclsInScope (CurStmtLabelScope S'),
                            StmtList (CurBody S')))
     (ActOnGotoStmt 2 (ExprOk (IntegerConstantExpr 2 10)) None DeclaredLabelExample) =
     Some (StmtOk 1, [ContinueStmt, GotoStmt (Some 0)], [True, False], [], [0, 1]) \<and>
   map_option (\<lambda>(R, S'). (R, map Kind (Stmts S'), map StmtLabelUsedAsGotoTarget (Stmts S'),
                            ForwardStmtLabelDeclsInScope (CurStmtLabelScope S'),
                            StmtList (CurBody S')))
     (ActOnAssignedGotoStmt [] 2 5 [IntegerConstantExpr 2 10, IntegerConstantExpr 2 20] None
        DeclaredLabelExample) =
     Some (StmtOk 1, [ContinueStmt, AssignedGotoStmt 5 [Some 0, None]], [False, False],
           [ForwardDecl (IntegerConstantExpr 2 20) 1 1], [0, 1]) \<and>
   map_option (\<lambda>(R, S'). (R, map Kind (Stmts S'), map StmtLabelUsedAsGotoTarget (Stmts S'),
                            ForwardStmtLabelDeclsInScope (CurStmtLabelScope S'),
                            StmtList (CurBody S')))
     (ActOnComputedGotoStmt [] 2 [IntegerConstantExpr 2 10, IntegerConstantExpr 2 20] ExprEmpty None
        DeclaredLabelExample) =
     Some (StmtOk 1, [ContinueStmt, ComputedGotoStmt None [Some 0, None]], [True, False],
           [ForwardDecl (IntegerConstantExpr 2 20) 1 1], [0, 1])"
proof -
  have refs:
    "ResolvedRef (CurStmtLabelScope DeclaredLabelExample) (IntegerConstantExpr 2 10) = Some 0"
    "ResolvedRef (CurStmtLabelScope DeclaredLabelExample) (IntegerConstantExpr 2 20) = None"
    by (simp_all add: ResolvedRef_def DeclaredLabelExample_def EmptySema_def Scope_defs)
  have facts:
    "Stmts DeclaredLabelExample = [mkStmt 1 (Some (IntegerConstantExpr 1 10)) ContinueStmt]"
    "Diags DeclaredLabelExample = []"
    "StmtList (CurBody DeclaredLabelExample) = [0]"
    "ForwardStmtLabelDeclsInScope (CurStmtLabelScope DeclaredLabelExample) = []"
    "Fortran77 DeclaredLabelExample"
    by (simp_all add: DeclaredLabelExample_def EmptySema_def)
  have dest: "isa_IntegerConstantExpr (IntegerConstantExpr 2 10)" by simp
  have dest_arena: "\<forall>D. ResolvedRef (CurStmtLabelScope DeclaredLabelExample)
                        (IntegerConstantExpr 2 10) = Some D \<longrightarrow> D < length (Stmts DeclaredLabelExample)"
    by (simp add: refs facts)
  have labels: "\<forall>E \<in> set [IntegerConstantExpr 2 10, IntegerConstantExpr 2 20].
                  isa_IntegerConstantExpr E"
    by simp
  have arena: "\<forall>E \<in> set [IntegerConstantExpr 2 10, IntegerConstantExpr 2 20].
                 \<forall>D. ResolvedRef (CurStmtLabelScope DeclaredLabelExample) E = Some D \<longrightarrow>
                     D < length (Stmts DeclaredLabelExample)"
    by (simp add: refs facts)
  note t = goto_family_actions [OF dest dest_arena labels arena, of 2 None "[]" 5 ExprEmpty]
  show ?thesis
    using t
    by (simp add: refs facts DeclareOwnLabel_def mkStmt_def)
qed

text \<open>
  An assigned GOTO whose allowed label 10 is already declared by statement 0: the
  reference is resolved to statement 0, which is not marked as used as a GOTO target.
\<close>

theorem assigned_goto_does_not_mark:
  "(do {
      (R, S1) \<leftarrow> ActOnAssignedGotoStmt [] 2 5 [IntegerConstantExpr 2 10] None
                    DeclaredLabelExample;
      Some (R, getAllowedValues (Kind (Stmts S1 ! 1)), StmtLabelUsedAsGotoTarget (Stmts S1 ! 0))
    }) =
   Some (StmtOk 1, [Some 0], False)"
  by (simp add: DeclaredLabelExample_def Scope_defs State_defs Block_defs Action_defs Let_def)

section \<open>The logical IF statement\<close>

lemma ActOnIfStmt_eq:
  "ActOnIfStmt TC L (ExprOk C) (NoName L) SLabel S =
     DeclareOwnLabel SLabel (length (Stmts S))
       (S\<lparr>Diags := Diags S @ TC,
          Stmts := Stmts S @ [mkStmt L SLabel (IfStmt (Some C) None None (NoName L))],
          CurBody := (CurBody S)\<lparr>StmtList := StmtList (CurBody S) @ [length (Stmts S)]\<rparr>\<rparr>) \<bind>
     (\<lambda>S3. Some (StmtOk (length (Stmts S)),
                 Enter \<lparr>Statement = length (Stmts S), ExpectedEndDoLabel = None\<rparr> S3))"
  by (simp add: ActOnIfStmt_def ReportAll_def Create_def Append_def isUsableName_def NoName_def
      Let_def)

lemma ActOnEndIfStmt_closes:
  assumes stack: "ControlFlowStack (CurBody S) = \<lparr>Statement = R, ExpectedEndDoLabel = X\<rparr> # Stack"
    and arena: "R < length (Stmts S)"
    and ifstmt: "Kind (Stmts S ! R) = IfStmt C T E (NoName L')"
  shows "ActOnEndIfStmt L (NoName L) None S =
           Some (StmtOk (length (Stmts S)),
                 S\<lparr>Stmts := Stmts S @ [mkStmt L None (ConstructPartStmt EndIfStmtClass)],
                    CurBody := (CurBody S)\<lparr>StmtList := StmtList (CurBody S) @ [length (Stmts S)],
                                           ControlFlowStack := Stack\<rparr>\<rparr>)"
  using assms
  by (simp add: ActOnEndIfStmt_def LeaveBlocksUntilIf_def getStmt_def Create_def Append_def
      LeaveLastBlock_def LastEntered_def Leave_def CheckConstructNameMatch_def isUsableName_def
      NoName_def DeclareOwnLabel_def Let_def nth_append)

text \<open>
  C7 (as amended). Every logical IF builds an IfStmt that carries the statement label,
  appends it to the current body, declares its label and enters it on the open-construct
  stack, as a block IF does. The action statement is then parsed with no statement label
  while the IF entry is open, and an END IF without a label is always acted on afterwards;
  the result is the IfStmt, or an error when the action statement failed. If the action
  statement leaves the IF entry on top of the stack and the IfStmt in place, the
  synthesized END IF appends an END IF part without a label and pops the IF entry, so that
  the stack is what it was when the IF was entered, after its label was declared.
\<close>

theorem logical_if_statement:
  fixes S :: "('w::len) Sema"
  shows "ActOnIfStmt TC L (ExprOk C) (NoName L) SLabel S =
           DeclareOwnLabel SLabel (length (Stmts S))
             (S\<lparr>Diags := Diags S @ TC,
                Stmts := Stmts S @ [mkStmt L SLabel (IfStmt (Some C) None None (NoName L))],
                CurBody := (CurBody S)\<lparr>StmtList := StmtList (CurBody S) @ [length (Stmts S)]\<rparr>\<rparr>) \<bind>
           (\<lambda>S3. Some (StmtOk (length (Stmts S)),
                       S3\<lparr>CurBody := (CurBody S3)
                          \<lparr>ControlFlowStack :=
                             \<lparr>Statement = length (Stmts S), ExpectedEndDoLabel = None\<rparr> #
                             ControlFlowStack (CurBody S3)\<rparr>\<rparr>)) \<and>
         ParseIfStmt ParseActionStmt TC L (ExprOk C) ActionStmt SLabel S =
           DeclareOwnLabel SLabel (length (Stmts S))
             (S\<lparr>Diags := Diags S @ TC,
                Stmts := Stmts S @ [mkStmt L SLabel (IfStmt (Some C) None None (NoName L))],
                CurBody := (CurBody S)\<lparr>StmtList := StmtList (CurBody S) @ [length (Stmts S)]\<rparr>\<rparr>) \<bind>
           (\<lambda>S3. ParseActionStmt None
                   (Enter \<lparr>Statement = length (Stmts S), ExpectedEndDoLabel = None\<rparr> S3) \<bind>
                 (\<lambda>(Action, S4). ActOnEndIfStmt L (NoName L) None S4 \<bind>
                    (\<lambda>(EndIf, S5).
                       Some (if Action = StmtError then StmtError else StmtOk (length (Stmts S)),
                             None, S5)))) \<and>
         (\<forall>S3 Action S4 C' T' E'.
            DeclareOwnLabel SLabel (length (Stmts S))
              (S\<lparr>Diags := Diags S @ TC,
                 Stmts := Stmts S @ [mkStmt L SLabel (IfStmt (Some C) None None (NoName L))],
                 CurBody := (CurBody S)\<lparr>StmtList := StmtList (CurBody S) @ [length (Stmts S)]\<rparr>\<rparr>)
              = Some S3 \<longrightarrow>
            ParseActionStmt None
              (Enter \<lparr>Statement = length (Stmts S), ExpectedEndDoLabel = None\<rparr> S3) =
              Some (Action, S4) \<longrightarrow>
            ControlFlowStack (CurBody S4) =
              \<lparr>Statement = length (Stmts S), ExpectedEndDoLabel = None\<rparr> #
              ControlFlowStack (CurBody S3) \<longrightarrow>
            length (Stmts S) < length (Stmts S4) \<longrightarrow>
            Kind (Stmts S4 ! length (Stmts S)) = IfStmt C' T' E' (NoName L) \<longrightarrow>
            ParseIfStmt ParseActionStmt TC L (ExprOk C) ActionStmt SLabel S =
              Some (if Action = StmtError then StmtError else StmtOk (length (Stmts S)), None,
                    S4\<lparr>Stmts := Stmts S4 @ [mkStmt L None (ConstructPartStmt EndIfStmtClass)],
                       CurBody := (CurBody S4)
                         \<lparr>StmtList := StmtList (CurBody S4) @ [length (Stmts S4)],
                          ControlFlowStack := ControlFlowStack (CurBody S3)\<rparr>\<rparr>))"
proof (intro conjI allI impI)
  show "ActOnIfStmt TC L (ExprOk C) (NoName L) SLabel S =
           DeclareOwnLabel SLabel (length (Stmts S))
             (S\<lparr>Diags := Diags S @ TC,
                Stmts := Stmts S @ [mkStmt L SLabel (IfStmt (Some C) None None (NoName L))],
                CurBody := (CurBody S)\<lparr>StmtList := StmtList (CurBody S) @ [length (Stmts S)]\<rparr>\<rparr>) \<bind>
           (\<lambda>S3. Some (StmtOk (length (Stmts S)),
                       S3\<lparr>CurBody := (CurBody S3)
                          \<lparr>ControlFlowStack :=
                             \<lparr>Statement = length (Stmts S), ExpectedEndDoLabel = None\<rparr> #
                             ControlFlowStack (CurBody S3)\<rparr>\<rparr>))"
    by (simp add: ActOnIfStmt_eq Enter_def)
next
  show "ParseIfStmt ParseActionStmt TC L (ExprOk C) ActionStmt SLabel S =
           DeclareOwnLabel SLabel (length (Stmts S))
             (S\<lparr>Diags := Diags S @ TC,
                Stmts := Stmts S @ [mkStmt L SLabel (IfStmt (Some C) None None (NoName L))],
                CurBody := (CurBody S)\<lparr>StmtList := StmtList (CurBody S) @ [length (Stmts S)]\<rparr>\<rparr>) \<bind>
           (\<lambda>S3. ParseActionStmt None
                   (Enter \<lparr>Statement = length (Stmts S), ExpectedEndDoLabel = None\<rparr> S3) \<bind>
                 (\<lambda>(Action, S4). ActOnEndIfStmt L (NoName L) None S4 \<bind>
                    (\<lambda>(EndIf, S5).
                       Some (if Action = StmtError then StmtError else StmtOk (length (Stmts S)),
                             None, S5))))"
    by (simp add: ParseIfStmt_def ActOnIfStmt_eq)
next
  fix S3 :: "'w Sema" and Action S4 C' T' E'
  assume own: "DeclareOwnLabel SLabel (length (Stmts S))
                  (S\<lparr>Diags := Diags S @ TC,
                     Stmts := Stmts S @ [mkStmt L SLabel (IfStmt (Some C) None None (NoName L))],
                     CurBody := (CurBody S)\<lparr>StmtList := StmtList (CurBody S) @ [length (Stmts S)]\<rparr>\<rparr>)
                = Some S3"
    and act: "ParseActionStmt None
                (Enter \<lparr>Statement = length (Stmts S), ExpectedEndDoLabel = None\<rparr> S3) =
              Some (Action, S4)"
    and stack: "ControlFlowStack (CurBody S4) =
                  \<lparr>Statement = length (Stmts S), ExpectedEndDoLabel = None\<rparr> #
                  ControlFlowStack (CurBody S3)"
    and arena: "length (Stmts S) < length (Stmts S4)"
    and ifstmt: "Kind (Stmts S4 ! length (Stmts S)) = IfStmt C' T' E' (NoName L)"
  have a: "ActOnIfStmt TC L (ExprOk C) (NoName L) SLabel S =
             Some (StmtOk (length (Stmts S)),
                   Enter \<lparr>Statement = length (Stmts S), ExpectedEndDoLabel = None\<rparr> S3)"
    by (simp add: ActOnIfStmt_eq own)
  have b: "ActOnEndIfStmt L (NoName L) None S4 =
             Some (StmtOk (length (Stmts S4)),
                   S4\<lparr>Stmts := Stmts S4 @ [mkStmt L None (ConstructPartStmt EndIfStmtClass)],
                      CurBody := (CurBody S4)
                        \<lparr>StmtList := StmtList (CurBody S4) @ [length (Stmts S4)],
                         ControlFlowStack := ControlFlowStack (CurBody S3)\<rparr>\<rparr>)"
    by (rule ActOnEndIfStmt_closes [OF stack arena ifstmt])
  show "ParseIfStmt ParseActionStmt TC L (ExprOk C) ActionStmt SLabel S =
             Some (if Action = StmtError then StmtError else StmtOk (length (Stmts S)), None,
                   S4\<lparr>Stmts := Stmts S4 @ [mkStmt L None (ConstructPartStmt EndIfStmtClass)],
                      CurBody := (CurBody S4)
                        \<lparr>StmtList := StmtList (CurBody S4) @ [length (Stmts S4)],
                         ControlFlowStack := ControlFlowStack (CurBody S3)\<rparr>\<rparr>)"
    by (simp add: ParseIfStmt_def a act b)
qed

theorem logical_if_statement_witness:
  "(do {
      (R, Lbl, S1) \<leftarrow> ParseIfStmt (ParseContinueStmt 2) [] 1 (ExprOk (OtherExpr 1)) ActionStmt
                        (Some (IntegerConstantExpr 1 10)) (EmptySema :: 32 Sema);
      Some (R, Lbl, map StmtLabel (Stmts S1), map Kind (Stmts S1), StmtList (CurBody S1),
            ControlFlowStack (CurBody S1), Diags S1)
    }) =
   Some (StmtOk 0, None, [Some (IntegerConstantExpr 1 10), None, None],
         [IfStmt (Some (OtherExpr 1)) None None (NoName 1), ContinueStmt,
          ConstructPartStmt EndIfStmtClass],
         [0, 1, 2], [], [])"
proof -
  define S3 :: "32 Sema" where
    "S3 = EmptySema
       \<lparr>Stmts := [mkStmt 1 (Some (IntegerConstantExpr 1 10))
                    (IfStmt (Some (OtherExpr 1)) None None (NoName 1))],
        CurBody := \<lparr>StmtList = [0], ControlFlowStack = []\<rparr>,
        CurStmtLabelScope := \<lparr>StmtLabelDeclsInScope = [10 \<mapsto> 0],
                               ForwardStmtLabelDeclsInScope = []\<rparr>\<rparr>"
  define S4 :: "32 Sema" where
    "S4 = S3
       \<lparr>Stmts := [mkStmt 1 (Some (IntegerConstantExpr 1 10))
                    (IfStmt (Some (OtherExpr 1)) None None (NoName 1)),
                  mkStmt 2 None ContinueStmt],
        CurBody := \<lparr>StmtList = [0, 1],
                     ControlFlowStack = [\<lparr>Statement = 0, ExpectedEndDoLabel = None\<rparr>]\<rparr>\<rparr>"
  have own: "DeclareOwnLabel (Some (IntegerConstantExpr 1 10)) (length (Stmts (EmptySema :: 32 Sema)))
               ((EmptySema :: 32 Sema)\<lparr>Diags := Diags (EmptySema :: 32 Sema) @ [],
                  Stmts := Stmts (EmptySema :: 32 Sema) @
                    [mkStmt 1 (Some (IntegerConstantExpr 1 10))
                       (IfStmt (Some (OtherExpr 1)) None None (NoName 1))],
                  CurBody := (CurBody (EmptySema :: 32 Sema))
                    \<lparr>StmtList := StmtList (CurBody (EmptySema :: 32 Sema)) @
                                  [length (Stmts (EmptySema :: 32 Sema))]\<rparr>\<rparr>)
             = Some S3"
    by (simp add: S3_def Scope_defs State_defs Resolver_defs Block_defs Let_def)
  have act: "ParseContinueStmt 2 None
               (Enter \<lparr>Statement = length (Stmts (EmptySema :: 32 Sema)),
                       ExpectedEndDoLabel = None\<rparr> S3) =
             Some (StmtOk 1, S4)"
    by (simp add: S3_def S4_def Scope_defs State_defs Resolver_defs Block_defs Action_defs Let_def)
  have stack: "ControlFlowStack (CurBody S4) =
                 \<lparr>Statement = length (Stmts (EmptySema :: 32 Sema)), ExpectedEndDoLabel = None\<rparr> #
                 ControlFlowStack (CurBody S3)"
    by (simp add: S3_def S4_def EmptySema_def)
  have arena: "length (Stmts (EmptySema :: 32 Sema)) < length (Stmts S4)"
    by (simp add: S4_def EmptySema_def)
  have ifstmt: "Kind (Stmts S4 ! length (Stmts (EmptySema :: 32 Sema))) =
                  IfStmt (Some (OtherExpr 1)) None None (NoName 1)"
    by (simp add: S4_def EmptySema_def mkStmt_def)
  note t = logical_if_statement [where ParseActionStmt = "ParseContinueStmt 2"
      and S = "EmptySema :: 32 Sema" and TC = "[]" and L = 1 and C = "OtherExpr 1"
      and SLabel = "Some (IntegerConstantExpr 1 10)", THEN conjunct2, THEN conjunct2,
      rule_format, OF own act stack arena ifstmt]
  show ?thesis
    using t
    by (simp add: S3_def S4_def EmptySema_def mkStmt_def)
qed

text \<open>
  The logical IF \<^verbatim>\<open>IF (c) END IF\<close> at the start of a program unit: the IF is on the
  open-construct stack when its action statement is parsed, the END IF at location 2
  closes it without a diagnostic, and the synthesized END IF at location 1 finds no IF.
\<close>

theorem logical_if_enters_open_construct:
  "(do {
      (R, S1) \<leftarrow> ActOnIfStmt [] 1 (ExprOk (OtherExpr 1)) (NoName 1) None (EmptySema :: 32 Sema);
      Some (R, ControlFlowStack (CurBody S1))
    }) = Some (StmtOk 0, [\<lparr>Statement = 0, ExpectedEndDoLabel = None\<rparr>]) \<and>
   (do {
      (R, Lbl, S1) \<leftarrow> ParseIfStmt (ParseEndIfStmt 2) [] 1 (ExprOk (OtherExpr 1)) ActionStmt None
                        (EmptySema :: 32 Sema);
      Some (R, Diags S1)
    }) = Some (StmtOk 0, [(err_stmt_not_in_if, 1, [ArgStr ''end if''])])"
  by (simp add: ParseEndIfStmt_def Scope_defs State_defs Resolver_defs Block_defs Action_defs
      Let_def)

section \<open>Declaring a statement label\<close>

lemma PatchOf_refl [simp]: "PatchOf D k k"
  by (cases k) simp_all

lemma PatchOf_trans: "PatchOf D k1 k2 \<Longrightarrow> PatchOf D k2 k3 \<Longrightarrow> PatchOf D k1 k3"
  by (cases k1; cases k2; cases k3) (auto split: StmtKind.splits, (metis)+)

lemma Patches_refl [simp]: "Patches D Ss Ss"
  by (simp add: Patches_def)

lemma Patches_trans: "Patches D Ss1 Ss2 \<Longrightarrow> Patches D Ss2 Ss3 \<Longrightarrow> Patches D Ss1 Ss3"
  unfolding Patches_def by (auto intro: PatchOf_trans)

lemma Patches_length: "Patches D Ss Ss' \<Longrightarrow> length Ss' = length Ss"
  by (simp add: Patches_def)

lemma Patches_flag1:
  "Patches D Ss (Ss[r := (Ss ! r)\<lparr>StmtLabelUsedAsGotoTarget := True\<rparr>])"
  by (cases "r < length Ss") (auto simp: Patches_def nth_list_update)

lemma Patches_flag2:
  "Patches D Ss (Ss[r := (Ss ! r)\<lparr>StmtLabelUsedAsAssignTarget := True\<rparr>])"
  by (cases "r < length Ss") (auto simp: Patches_def nth_list_update)

lemma Patches_kind:
  "PatchOf D (Kind (Ss ! r)) k \<Longrightarrow> Patches D Ss (Ss[r := (Ss ! r)\<lparr>Kind := k\<rparr>])"
  by (cases "r < length Ss") (auto simp: Patches_def nth_list_update)

lemma Patched_mono:
  assumes "Patches D Ss Ss'" "FwdStatement Info < length Ss" "Patched Ss Info D"
  shows "Patched Ss' Info D"
proof -
  have "PatchOf D (Kind (Ss ! FwdStatement Info)) (Kind (Ss' ! FwdStatement Info))"
    using assms(1,2) by (simp add: Patches_def)
  then show ?thesis
    using assms(3)
    by (cases "Kind (Ss ! FwdStatement Info)")
       (auto simp: Patched_def split: StmtKind.splits)
qed

lemma PatchableRequest_mono:
  assumes "Patches D Ss Ss'" "PatchableRequest Ss Info"
  shows "PatchableRequest Ss' Info"
proof -
  have "PatchOf D (Kind (Ss ! FwdStatement Info)) (Kind (Ss' ! FwdStatement Info))"
    using assms by (simp add: Patches_def PatchableRequest_def)
  then show ?thesis
    using assms
    by (cases "Kind (Ss ! FwdStatement Info)")
       (auto simp: PatchableRequest_def Patches_def split: StmtKind.splits)
qed

lemma updStmt_eq:
  "r < length (Stmts S) \<Longrightarrow> f (Stmts S ! r) = Some st' \<Longrightarrow>
     updStmt r f S = Some (S\<lparr>Stmts := (Stmts S)[r := st']\<rparr>)"
  by (simp add: updStmt_def getStmt_def)

lemma ResolveForwardUsage_patches:
  fixes St :: "('w::len) Sema"
  assumes D: "D < length (Stmts St)" and P: "PatchableRequest (Stmts St) Info"
  shows "\<exists>Ss'. ResolveForwardUsage Info D St = Some (St\<lparr>Stmts := Ss'\<rparr>) \<and>
               Patches D (Stmts St) Ss' \<and> Patched Ss' Info D"
proof -
  define Ss where "Ss = Stmts St"
  define ow where "ow = FwdStatement Info"
  define I where "I = ResolveCallbackData Info"
  have ow: "ow < length Ss"
    using P by (simp add: PatchableRequest_def ow_def Ss_def)
  have get: "getStmt St ow = Some (Ss ! ow)"
    using ow by (simp add: getStmt_def Ss_def)
  have step: "\<exists>Ss'. R = Some (St\<lparr>Stmts := Ss'\<rparr>) \<and> Patches D Ss Ss' \<and> Patched Ss' Info D"
    if k: "PatchOf D (Kind (Ss ! ow)) k"
      and pk: "Patched (Ss[ow := (Ss ! ow)\<lparr>Kind := k\<rparr>]) Info D"
      and R: "R = Some (St\<lparr>Stmts := Ss[ow := (Ss ! ow)\<lparr>Kind := k\<rparr>]\<rparr>) \<or>
              R = Some (St\<lparr>Stmts := (Ss[ow := (Ss ! ow)\<lparr>Kind := k\<rparr>])
                           [D := (Ss[ow := (Ss ! ow)\<lparr>Kind := k\<rparr>] ! D)
                                   \<lparr>StmtLabelUsedAsGotoTarget := True\<rparr>]\<rparr>) \<or>
              R = Some (St\<lparr>Stmts := (Ss[ow := (Ss ! ow)\<lparr>Kind := k\<rparr>])
                           [D := (Ss[ow := (Ss ! ow)\<lparr>Kind := k\<rparr>] ! D)
                                   \<lparr>StmtLabelUsedAsAssignTarget := True\<rparr>]\<rparr>)"
    for k R
  proof -
    define Ss1 where "Ss1 = Ss[ow := (Ss ! ow)\<lparr>Kind := k\<rparr>]"
    have p1: "Patches D Ss Ss1"
      unfolding Ss1_def using k by (rule Patches_kind)
    have ow1: "FwdStatement Info < length Ss1"
      using ow by (simp add: Ss1_def ow_def)
    have a: "Patches D Ss (Ss1[D := (Ss1 ! D)\<lparr>StmtLabelUsedAsGotoTarget := True\<rparr>])"
      using p1 Patches_flag1 by (rule Patches_trans)
    have b: "Patches D Ss (Ss1[D := (Ss1 ! D)\<lparr>StmtLabelUsedAsAssignTarget := True\<rparr>])"
      using p1 Patches_flag2 by (rule Patches_trans)
    have pa: "Patched (Ss1[D := (Ss1 ! D)\<lparr>StmtLabelUsedAsGotoTarget := True\<rparr>]) Info D"
      using Patches_flag1 ow1 pk [folded Ss1_def] by (rule Patched_mono)
    have pb: "Patched (Ss1[D := (Ss1 ! D)\<lparr>StmtLabelUsedAsAssignTarget := True\<rparr>]) Info D"
      using Patches_flag2 ow1 pk [folded Ss1_def] by (rule Patched_mono)
    from R [folded Ss1_def] show ?thesis
      using p1 pk [folded Ss1_def] a b pa pb by blast
  qed
  have D1: "D < length (Ss[ow := x])" for x
    using D by (simp add: Ss_def)
  show ?thesis
  proof (cases "Kind (Ss ! ow)")
    case (AssignStmt a v)
    have "ResolveForwardUsage Info D St =
            Some (St\<lparr>Stmts := (Ss[ow := (Ss ! ow)\<lparr>Kind := AssignStmt (Some D) v\<rparr>])
                     [D := (Ss[ow := (Ss ! ow)\<lparr>Kind := AssignStmt (Some D) v\<rparr>] ! D)
                             \<lparr>StmtLabelUsedAsAssignTarget := True\<rparr>]\<rparr>)"
      using AssignStmt ow D
      by (simp add: ResolveForwardUsage_def get ow_def [symmetric] VisitAssignStmt_def
          updStmt_def getStmt_def setAddress_def setStmtLabelUsedAsAssignTarget_def
          Ss_def [symmetric])
    then show ?thesis
      using AssignStmt ow
      by (intro step [unfolded Ss_def, of "AssignStmt (Some D) v"])
         (simp_all add: Patched_def ow_def [symmetric] Ss_def [symmetric])
  next
    case (AssignedGotoStmt v xs)
    have I: "I < length xs"
      using P AssignedGotoStmt by (simp add: PatchableRequest_def ow_def Ss_def I_def)
    have "ResolveForwardUsage Info D St =
            Some (St\<lparr>Stmts := Ss[ow := (Ss ! ow)\<lparr>Kind := AssignedGotoStmt v (xs[I := Some D])\<rparr>]\<rparr>)"
      using AssignedGotoStmt ow D I
      by (simp add: ResolveForwardUsage_def get ow_def [symmetric] VisitAssignedGotoStmt_def
          updStmt_def getStmt_def setAllowedValue_def I_def [symmetric]
          Ss_def [symmetric])
    then show ?thesis
      using AssignedGotoStmt ow I
      by (intro step [unfolded Ss_def, of "AssignedGotoStmt v (xs[I := Some D])"])
         (simp_all add: Patched_def ow_def [symmetric] Ss_def [symmetric] I_def [symmetric]
            nth_list_update)
  next
    case (GotoStmt d)
    have "ResolveForwardUsage Info D St =
            Some (St\<lparr>Stmts := (Ss[ow := (Ss ! ow)\<lparr>Kind := GotoStmt (Some D)\<rparr>])
                     [D := (Ss[ow := (Ss ! ow)\<lparr>Kind := GotoStmt (Some D)\<rparr>] ! D)
                             \<lparr>StmtLabelUsedAsGotoTarget := True\<rparr>]\<rparr>)"
      using GotoStmt ow D
      by (simp add: ResolveForwardUsage_def get ow_def [symmetric] VisitGotoStmt_def
          updStmt_def getStmt_def setDestination_def setStmtLabelUsedAsGotoTarget_def
          Ss_def [symmetric])
    then show ?thesis
      using GotoStmt ow
      by (intro step [unfolded Ss_def, of "GotoStmt (Some D)"])
         (simp_all add: Patched_def ow_def [symmetric] Ss_def [symmetric])
  next
    case (ComputedGotoStmt e xs)
    have I: "I < length xs"
      using P ComputedGotoStmt by (simp add: PatchableRequest_def ow_def Ss_def I_def)
    have "ResolveForwardUsage Info D St =
            Some (St\<lparr>Stmts := (Ss[ow := (Ss ! ow)\<lparr>Kind := ComputedGotoStmt e (xs[I := Some D])\<rparr>])
                     [D := (Ss[ow := (Ss ! ow)\<lparr>Kind := ComputedGotoStmt e (xs[I := Some D])\<rparr>] ! D)
                             \<lparr>StmtLabelUsedAsGotoTarget := True\<rparr>]\<rparr>)"
      using ComputedGotoStmt ow D I
      by (simp add: ResolveForwardUsage_def get ow_def [symmetric] VisitComputedGotoStmt_def
          updStmt_def getStmt_def setTarget_def setStmtLabelUsedAsGotoTarget_def
          I_def [symmetric] Ss_def [symmetric])
    then show ?thesis
      using ComputedGotoStmt ow I
      by (intro step [unfolded Ss_def, of "ComputedGotoStmt e (xs[I := Some D])"])
         (simp_all add: Patched_def ow_def [symmetric] Ss_def [symmetric] I_def [symmetric]
            nth_list_update)
  next
    case (DoStmt t v e1 e2 e3 n)
    have "ResolveForwardUsage Info D St =
            Some (St\<lparr>Stmts := Ss[ow := (Ss ! ow)\<lparr>Kind := DoStmt (Some D) v e1 e2 e3 n\<rparr>]\<rparr>)"
      using DoStmt ow D
      by (simp add: ResolveForwardUsage_def get ow_def [symmetric] VisitDoStmt_def
          updStmt_def getStmt_def setTerminatingStmt_def Ss_def [symmetric])
    then show ?thesis
      using DoStmt ow
      by (intro step [unfolded Ss_def, of "DoStmt (Some D) v e1 e2 e3 n"])
         (simp_all add: Patched_def ow_def [symmetric] Ss_def [symmetric])
  qed (use P in \<open>simp_all add: PatchableRequest_def ow_def Ss_def\<close>)
qed

lemma RequestsLabel_scope:
  "RequestsLabel St SLabel Info = RequestsLabel St' SLabel Info"
  for St St' :: "('w::len) Sema"
  using IsSame_scope [of "CurStmtLabelScope St" _ _ "CurStmtLabelScope St'"]
  by (simp add: RequestsLabel_def)

lemma ResolveForwardUsages_patches:
  fixes St :: "('w::len) Sema"
  assumes lab: "isa_IntegerConstantExpr SLabel"
  shows "D < length (Stmts St) \<Longrightarrow> \<forall>Info \<in> set P. PatchableRequest (Stmts St) Info \<Longrightarrow>
     \<exists>Ss'. ResolveForwardUsages P SLabel D St =
              Some (filter (\<lambda>Info. \<not> RequestsLabel St SLabel Info) P, St\<lparr>Stmts := Ss'\<rparr>) \<and>
            Patches D (Stmts St) Ss' \<and>
            (\<forall>Info \<in> set P. RequestsLabel St SLabel Info \<longrightarrow> Patched Ss' Info D)"
proof (induction P arbitrary: St)
  case Nil
  have "St\<lparr>Stmts := Stmts St\<rparr> = St" by simp
  then show ?case
    by (intro exI [of _ "Stmts St"]) simp
next
  case (Cons Info P)
  have pi: "PatchableRequest (Stmts St) Info"
    and pp: "\<forall>Info \<in> set P. PatchableRequest (Stmts St) Info"
    using Cons.prems(2) by simp_all
  have "isa_IntegerConstantExpr (FwdStmtLabel Info)"
    using pi by (simp add: PatchableRequest_def)
  then obtain b where b: "IsSame (CurStmtLabelScope St) (FwdStmtLabel Info) SLabel = Some b"
    using IsSame_const lab by blast
  show ?case
  proof (cases b)
    case True
    have req: "RequestsLabel St SLabel Info"
      using b True by (simp add: RequestsLabel_def)
    obtain Ss1 where r1: "ResolveForwardUsage Info D St = Some (St\<lparr>Stmts := Ss1\<rparr>)"
      and p1: "Patches D (Stmts St) Ss1" and d1: "Patched Ss1 Info D"
      using ResolveForwardUsage_patches [OF Cons.prems(1) pi] by blast
    define St1 where "St1 = St\<lparr>Stmts := Ss1\<rparr>"
    have D1: "D < length (Stmts St1)"
      using Cons.prems(1) Patches_length [OF p1] by (simp add: St1_def)
    have pp1: "\<forall>Info \<in> set P. PatchableRequest (Stmts St1) Info"
      using pp PatchableRequest_mono [OF p1] by (simp add: St1_def)
    obtain Ss2 where r2: "ResolveForwardUsages P SLabel D St1 =
          Some (filter (\<lambda>Info. \<not> RequestsLabel St1 SLabel Info) P, St1\<lparr>Stmts := Ss2\<rparr>)"
      and p2: "Patches D (Stmts St1) Ss2"
      and d2: "\<forall>Info \<in> set P. RequestsLabel St1 SLabel Info \<longrightarrow> Patched Ss2 Info D"
      using Cons.IH [OF D1 pp1] by blast
    have same: "RequestsLabel St1 SLabel = RequestsLabel St SLabel"
      using RequestsLabel_scope [of St1 SLabel _ St] by blast
    have ow: "FwdStatement Info < length Ss1"
      using pi Patches_length [OF p1] by (simp add: PatchableRequest_def)
    have "ResolveForwardUsages (Info # P) SLabel D St =
            Some (filter (\<lambda>Info. \<not> RequestsLabel St SLabel Info) (Info # P), St\<lparr>Stmts := Ss2\<rparr>)"
      using b True r1 r2 req by (simp add: St1_def [symmetric] same) (simp add: St1_def)
    moreover have "Patches D (Stmts St) Ss2"
      using p1 p2 by (simp add: St1_def Patches_trans)
    moreover have "Patched Ss2 Info D"
      using p2 ow d1 by (simp add: St1_def Patched_mono)
    ultimately show ?thesis
      using d2 same by (intro exI [of _ Ss2]) simp
  next
    case False
    have req: "\<not> RequestsLabel St SLabel Info"
      using b False by (simp add: RequestsLabel_def)
    obtain Ss2 where r2: "ResolveForwardUsages P SLabel D St =
          Some (filter (\<lambda>Info. \<not> RequestsLabel St SLabel Info) P, St\<lparr>Stmts := Ss2\<rparr>)"
      and p2: "Patches D (Stmts St) Ss2"
      and d2: "\<forall>Info \<in> set P. RequestsLabel St SLabel Info \<longrightarrow> Patched Ss2 Info D"
      using Cons.IH [OF Cons.prems(1) pp] by blast
    have "ResolveForwardUsages (Info # P) SLabel D St =
            Some (filter (\<lambda>Info. \<not> RequestsLabel St SLabel Info) (Info # P), St\<lparr>Stmts := Ss2\<rparr>)"
      using b False r2 req by simp
    then show ?thesis
      using p2 d2 req by (intro exI [of _ Ss2]) simp
  qed
qed

lemma PatchForwardReferences_patches:
  fixes St :: "('w::len) Sema"
  assumes lab: "isa_IntegerConstantExpr SLabel"
    and D: "D < length (Stmts St)"
    and P: "\<forall>Info \<in> set (ForwardStmtLabelDeclsInScope (CurStmtLabelScope St)).
              PatchableRequest (Stmts St) Info"
  shows "\<exists>Ss'. PatchForwardReferences SLabel D St =
                 Some (St\<lparr>Stmts := Ss',
                          CurStmtLabelScope := (CurStmtLabelScope St)
                            \<lparr>ForwardStmtLabelDeclsInScope :=
                               filter (\<lambda>Info. \<not> RequestsLabel St SLabel Info)
                                 (ForwardStmtLabelDeclsInScope (CurStmtLabelScope St))\<rparr>\<rparr>) \<and>
               Patches D (Stmts St) Ss' \<and>
               (\<forall>Info \<in> set (ForwardStmtLabelDeclsInScope (CurStmtLabelScope St)).
                  RequestsLabel St SLabel Info \<longrightarrow> Patched Ss' Info D)"
proof -
  obtain Ss' where r: "ResolveForwardUsages (ForwardStmtLabelDeclsInScope (CurStmtLabelScope St))
                         SLabel D St =
          Some (filter (\<lambda>Info. \<not> RequestsLabel St SLabel Info)
                  (ForwardStmtLabelDeclsInScope (CurStmtLabelScope St)), St\<lparr>Stmts := Ss'\<rparr>)"
    and p: "Patches D (Stmts St) Ss'"
    and d: "\<forall>Info \<in> set (ForwardStmtLabelDeclsInScope (CurStmtLabelScope St)).
              RequestsLabel St SLabel Info \<longrightarrow> Patched Ss' Info D"
    using ResolveForwardUsages_patches [OF lab D P] by blast
  show ?thesis
    using p d by (intro exI [of _ Ss']) (simp add: PatchForwardReferences_def r)
qed

lemma CheckStatementLabelEndDo_none:
  assumes wf: "\<forall>E \<in> set (ControlFlowStack (CurBody St)). OpenConstruct (Stmts St) E"
    and none: "\<forall>E \<in> set (ControlFlowStack (CurBody St)). \<not> AwaitsLabel St SLabel E"
    and lab: "isa_IntegerConstantExpr SLabel"
  shows "CheckStatementLabelEndDo SLabel S St = Some St"
proof -
  have "IsInLabeledDo_loop (ControlFlowStack (CurBody St) @ []) SLabel St =
          IsInLabeledDo_loop [] SLabel St"
    using wf none by (intro IsInLabeledDo_loop_eq lab) simp
  then have "IsInLabeledDo SLabel St = Some False"
    by (simp add: IsInLabeledDo_def)
  then show ?thesis
    by (simp add: CheckStatementLabelEndDo_def)
qed

lemma PatchOf_withTerminatingStmt: "PatchOf D (Kind st) (Kind (withTerminatingStmt D st))"
  by (cases "Kind st") (simp_all add: withTerminatingStmt_def)

lemma withTerminatingStmt_Kind:
  "withTerminatingStmt D st = st\<lparr>Kind := Kind (withTerminatingStmt D st)\<rparr>"
  by (simp add: withTerminatingStmt_def)

lemma DuplicateLabelDiagnostics_Unterminated [simp]:
  "DuplicateLabelDiagnostics (concat (map (UnterminatedDiagnostics Ss L) Popped)) = []"
  by (induction Popped)
     (simp_all add: DuplicateLabelDiagnostics_def UnterminatedDiagnostics_def split: option.split)

lemma DuplicateLabelDiagnostics_append [simp]:
  "DuplicateLabelDiagnostics (xs @ ys) = DuplicateLabelDiagnostics xs @ DuplicateLabelDiagnostics ys"
  by (simp add: DuplicateLabelDiagnostics_def)

lemma CheckStatementLabelEndDo_frame:
  fixes St :: "('w::len) Sema"
  assumes wf: "\<forall>E \<in> set (ControlFlowStack (CurBody St)). OpenConstruct (Stmts St) E"
    and lab: "isa_IntegerConstantExpr SLabel"
    and S: "InArena (Stmts St) D"
  shows "\<exists>St1. CheckStatementLabelEndDo SLabel D St = Some St1 \<and>
           Patches D (Stmts St) (Stmts St1) \<and>
           StmtLabelDeclsInScope (CurStmtLabelScope St1) = StmtLabelDeclsInScope (CurStmtLabelScope St) \<and>
           set (ForwardStmtLabelDeclsInScope (CurStmtLabelScope St1)) \<subseteq>
             set (ForwardStmtLabelDeclsInScope (CurStmtLabelScope St)) \<and>
           (\<forall>Info \<in> set (ForwardStmtLabelDeclsInScope (CurStmtLabelScope St)).
              Info \<notin> set (ForwardStmtLabelDeclsInScope (CurStmtLabelScope St1)) \<longrightarrow>
              Patched (Stmts St1) Info D) \<and>
           DuplicateLabelDiagnostics (Diags St1) = DuplicateLabelDiagnostics (Diags St)"
proof (cases "\<forall>E \<in> set (ControlFlowStack (CurBody St)). \<not> AwaitsLabel St SLabel E")
  case True
  have "CheckStatementLabelEndDo SLabel D St = Some St"
    using wf True lab by (rule CheckStatementLabelEndDo_none)
  then show ?thesis by simp
next
  case False
  define Stack where "Stack = ControlFlowStack (CurBody St)"
  define Popped where "Popped = takeWhile (Not \<circ> AwaitsLabel St SLabel) Stack"
  define Rest where "Rest = dropWhile (Not \<circ> AwaitsLabel St SLabel) Stack"
  have "Rest \<noteq> []"
    using False by (auto simp: Rest_def Stack_def)
  then obtain E Below where Rest: "Rest = E # Below"
    by (cases Rest) simp_all
  have "Stack = Popped @ Rest"
    by (simp add: Popped_def Rest_def)
  then have split: "Stack = Popped @ E # Below"
    using Rest by simp
  have awaits: "AwaitsLabel St SLabel E"
    using Rest by (simp add: Rest_def dropWhile_eq_Cons_conv)
  have popped: "\<forall>P \<in> set Popped. OpenConstruct (Stmts St) P \<and> \<not> AwaitsLabel St SLabel P"
  proof
    fix P assume P: "P \<in> set Popped"
    then have "P \<in> set Stack" using split by simp
    moreover have "\<not> AwaitsLabel St SLabel P"
      using P set_takeWhileD [of P "Not \<circ> AwaitsLabel St SLabel" Stack] by (simp add: Popped_def)
    ultimately show "OpenConstruct (Stmts St) P \<and> \<not> AwaitsLabel St SLabel P"
      using wf by (simp add: Stack_def)
  qed
  have "E \<in> set Stack" using split by simp
  then have oc: "OpenConstruct (Stmts St) E"
    using wf by (simp add: Stack_def)
  have closes: "CheckStatementLabelEndDo SLabel D St = Some (LabeledDoClosed Popped E D St)"
    using split [unfolded Stack_def] popped oc awaits lab S
    by (rule CheckStatementLabelEndDo_closes)
  define St1 where "St1 = LabeledDoClosed Popped E D St"
  have E: "Statement E < length (Stmts St)" "isa_DoStmt (Kind (Stmts St ! Statement E))"
    using oc awaits by (simp_all add: OpenConstruct_def AwaitsLabel_def)
  have stmts: "Stmts St1 =
     (Stmts St)[Statement E := (Stmts St ! Statement E)
        \<lparr>Kind := Kind (withTerminatingStmt D (Stmts St ! Statement E))\<rparr>]"
    using withTerminatingStmt_Kind [of D "Stmts St ! Statement E"]
    by (simp add: St1_def LabeledDoClosed_fields)
  have patches: "Patches D (Stmts St) (Stmts St1)"
    unfolding stmts by (rule Patches_kind) (rule PatchOf_withTerminatingStmt)
  have terminator: "getTerminatingStmt (Kind (Stmts St1 ! Statement E)) = Some D"
    using E by (simp add: stmts getTerminatingStmt_withTerminatingStmt)
  have kind: "isa_DoStmt (Kind (Stmts St1 ! Statement E))"
    using E by (cases "Kind (Stmts St ! Statement E)") (simp_all add: stmts withTerminatingStmt_def)
  have removed: "Patched (Stmts St1) Info D"
    if "Info \<in> set (ForwardStmtLabelDeclsInScope (CurStmtLabelScope St))"
       "Info \<notin> set (ForwardStmtLabelDeclsInScope (CurStmtLabelScope St1))" for Info
  proof -
    have "FwdStatement Info = Statement E"
      using that by (simp add: St1_def LabeledDoClosed_fields)
    then show ?thesis
      using terminator kind by (cases "Kind (Stmts St1 ! Statement E)") (simp_all add: Patched_def)
  qed
  have diags: "DuplicateLabelDiagnostics (Diags St1) = DuplicateLabelDiagnostics (Diags St)"
    by (simp add: St1_def LabeledDoClosed_fields) (simp add: DuplicateLabelDiagnostics_def)
  show ?thesis
    using closes patches removed diags
    by (intro exI [of _ St1]) (auto simp: St1_def LabeledDoClosed_fields)
qed

lemma Resolve_label: "Resolve SLabel Sc = Some x \<Longrightarrow> isa_IntegerConstantExpr SLabel"
  by (cases SLabel) (simp_all add: Resolve_def GetStmtLabelValue_def)

lemma Resolve_same:
  "IsSame Sc A B = Some True \<Longrightarrow> Resolve A Sc' = Resolve B Sc'"
  for Sc Sc' :: "('w::len) StmtLabelScope"
  by (auto simp: IsSame_def Resolve_def split: Option.bind_splits)

lemma DeclareStatementLabel_new:
  fixes St :: "('w::len) Sema"
  assumes new: "Resolve SLabel (CurStmtLabelScope St) = Some None"
    and D: "InArena (Stmts St) D"
    and wf: "\<forall>E \<in> set (ControlFlowStack (CurBody St)). OpenConstruct (Stmts St) E"
    and P: "\<forall>Info \<in> set (ForwardStmtLabelDeclsInScope (CurStmtLabelScope St)).
              PatchableRequest (Stmts St) Info"
  shows "\<exists>St'. DeclareStatementLabel SLabel D St = Some St' \<and>
           Resolve SLabel (CurStmtLabelScope St') = Some (Some D) \<and>
           Patches D (Stmts St) (Stmts St') \<and>
           (\<forall>Info \<in> set (ForwardStmtLabelDeclsInScope (CurStmtLabelScope St)).
              RequestsLabel St SLabel Info \<longrightarrow> Patched (Stmts St') Info D) \<and>
           (\<forall>Info \<in> set (ForwardStmtLabelDeclsInScope (CurStmtLabelScope St')).
              Info \<in> set (ForwardStmtLabelDeclsInScope (CurStmtLabelScope St)) \<and>
              \<not> RequestsLabel St SLabel Info) \<and>
           DuplicateLabelDiagnostics (Diags St') = DuplicateLabelDiagnostics (Diags St)"
proof -
  have lab: "isa_IntegerConstantExpr SLabel"
    using new by (rule Resolve_label)
  obtain Key :: "'w word" where key: "GetStmtLabelValue SLabel = Some Key"
    and free: "StmtLabelDeclsInScope (CurStmtLabelScope St) Key = None"
    using new by (auto simp: Resolve_def split: Option.bind_splits)
  define Sc where "Sc = (CurStmtLabelScope St)
     \<lparr>StmtLabelDeclsInScope := (StmtLabelDeclsInScope (CurStmtLabelScope St))(Key \<mapsto> D)\<rparr>"
  define St0 where "St0 = St\<lparr>CurStmtLabelScope := Sc\<rparr>"
  have decl: "Declare SLabel D (CurStmtLabelScope St) = Some Sc"
    using key free by (simp add: Declare_def map_insert_def Sc_def)
  have wf0: "\<forall>E \<in> set (ControlFlowStack (CurBody St0)). OpenConstruct (Stmts St0) E"
    using wf by (simp add: St0_def)
  have D0: "InArena (Stmts St0) D"
    using D by (simp add: St0_def)
  obtain St1 where check: "CheckStatementLabelEndDo SLabel D St0 = Some St1"
    and p1: "Patches D (Stmts St0) (Stmts St1)"
    and labels1: "StmtLabelDeclsInScope (CurStmtLabelScope St1) =
                    StmtLabelDeclsInScope (CurStmtLabelScope St0)"
    and sub1: "set (ForwardStmtLabelDeclsInScope (CurStmtLabelScope St1)) \<subseteq>
                 set (ForwardStmtLabelDeclsInScope (CurStmtLabelScope St0))"
    and removed: "\<forall>Info \<in> set (ForwardStmtLabelDeclsInScope (CurStmtLabelScope St0)).
                    Info \<notin> set (ForwardStmtLabelDeclsInScope (CurStmtLabelScope St1)) \<longrightarrow>
                    Patched (Stmts St1) Info D"
    and diags1: "DuplicateLabelDiagnostics (Diags St1) = DuplicateLabelDiagnostics (Diags St0)"
    using CheckStatementLabelEndDo_frame [OF wf0 lab D0] by blast
  have pending0: "ForwardStmtLabelDeclsInScope (CurStmtLabelScope St0) =
                    ForwardStmtLabelDeclsInScope (CurStmtLabelScope St)"
    by (simp add: St0_def Sc_def)
  have len1: "length (Stmts St1) = length (Stmts St)"
    using Patches_length [OF p1] by (simp add: St0_def)
  have D1: "D < length (Stmts St1)"
    using D len1 by (simp add: InArena_def)
  have P1: "\<forall>Info \<in> set (ForwardStmtLabelDeclsInScope (CurStmtLabelScope St1)).
              PatchableRequest (Stmts St1) Info"
    using P sub1 pending0 PatchableRequest_mono [OF p1] by (auto simp: St0_def)
  obtain Ss' where patch: "PatchForwardReferences SLabel D St1 =
                 Some (St1\<lparr>Stmts := Ss',
                          CurStmtLabelScope := (CurStmtLabelScope St1)
                            \<lparr>ForwardStmtLabelDeclsInScope :=
                               filter (\<lambda>Info. \<not> RequestsLabel St1 SLabel Info)
                                 (ForwardStmtLabelDeclsInScope (CurStmtLabelScope St1))\<rparr>\<rparr>)"
    and p2: "Patches D (Stmts St1) Ss'"
    and d2: "\<forall>Info \<in> set (ForwardStmtLabelDeclsInScope (CurStmtLabelScope St1)).
               RequestsLabel St1 SLabel Info \<longrightarrow> Patched Ss' Info D"
    using PatchForwardReferences_patches [OF lab D1 P1] by blast
  define St' where "St' = St1\<lparr>Stmts := Ss',
                          CurStmtLabelScope := (CurStmtLabelScope St1)
                            \<lparr>ForwardStmtLabelDeclsInScope :=
                               filter (\<lambda>Info. \<not> RequestsLabel St1 SLabel Info)
                                 (ForwardStmtLabelDeclsInScope (CurStmtLabelScope St1))\<rparr>\<rparr>"
  have same: "RequestsLabel St1 SLabel = RequestsLabel St SLabel"
    using RequestsLabel_scope [of St1 SLabel _ St] by blast
  have run: "DeclareStatementLabel SLabel D St = Some St'"
    using new decl check patch
    by (simp add: DeclareStatementLabel_def St0_def [symmetric] St'_def)
  have res: "Resolve SLabel (CurStmtLabelScope St') = Some (Some D)"
    using key labels1 by (simp add: Resolve_def St'_def St0_def Sc_def)
  have patches: "Patches D (Stmts St) (Stmts St')"
    using Patches_trans [OF p1 p2] by (simp add: St'_def St0_def)
  have patched: "Patched (Stmts St') Info D"
    if mem: "Info \<in> set (ForwardStmtLabelDeclsInScope (CurStmtLabelScope St))"
      and req: "RequestsLabel St SLabel Info" for Info
  proof (cases "Info \<in> set (ForwardStmtLabelDeclsInScope (CurStmtLabelScope St1))")
    case True
    then show ?thesis using d2 req same by (simp add: St'_def)
  next
    case False
    then have "Patched (Stmts St1) Info D"
      using removed mem pending0 by simp
    moreover have "FwdStatement Info < length (Stmts St1)"
      using P mem len1 by (simp add: PatchableRequest_def)
    ultimately show ?thesis
      using p2 by (simp add: St'_def Patched_mono)
  qed
  have rest: "Info \<in> set (ForwardStmtLabelDeclsInScope (CurStmtLabelScope St)) \<and>
              \<not> RequestsLabel St SLabel Info"
    if "Info \<in> set (ForwardStmtLabelDeclsInScope (CurStmtLabelScope St'))" for Info
    using that sub1 pending0 same by (auto simp: St'_def)
  have diags: "DuplicateLabelDiagnostics (Diags St') = DuplicateLabelDiagnostics (Diags St)"
    using diags1 by (simp add: St'_def St0_def)
  show ?thesis
    using run res patches patched rest diags by blast
qed

text \<open>
  C1. When a label that is not declared yet is declared at statement \<open>D\<close>, every pending
  request for that label value is patched according to the class of its owner: a GOTO's
  destination, the assigned GOTO's allowed value at the request's slot index, and a DO's
  terminating statement refer to \<open>D\<close> afterwards. The requests for that label value leave
  the pending list, and the label resolves to \<open>D\<close>. The dispatch is closed: a request
  whose owner is of no patchable class leaves the state as it is.
\<close>

theorem patch_on_declare:
  fixes St :: "('w::len) Sema"
  assumes new: "Resolve SLabel (CurStmtLabelScope St) = Some None"
    and D: "InArena (Stmts St) D"
    and stack: "\<forall>E \<in> set (ControlFlowStack (CurBody St)). OpenConstruct (Stmts St) E"
    and pending: "\<forall>Info \<in> set (ForwardStmtLabelDeclsInScope (CurStmtLabelScope St)).
                    PatchableRequest (Stmts St) Info"
  shows "(\<exists>St'. DeclareStatementLabel SLabel D St = Some St' \<and>
            Resolve SLabel (CurStmtLabelScope St') = Some (Some D) \<and>
            (\<forall>Info \<in> set (ForwardStmtLabelDeclsInScope (CurStmtLabelScope St)).
               RequestsLabel St SLabel Info \<longrightarrow> Patched (Stmts St') Info D) \<and>
            (\<forall>Info \<in> set (ForwardStmtLabelDeclsInScope (CurStmtLabelScope St')).
               Info \<in> set (ForwardStmtLabelDeclsInScope (CurStmtLabelScope St)) \<and>
               \<not> RequestsLabel St SLabel Info)) \<and>
         (\<forall>Info. FwdStatement Info < length (Stmts St) \<and>
                 getStmtClass (Kind (Stmts St ! FwdStatement Info)) \<notin>
                   {AssignStmtClass, AssignedGotoStmtClass, GotoStmtClass, ComputedGotoStmtClass,
                    DoStmtClass} \<longrightarrow>
                 ResolveForwardUsage Info D St = Some St)"
proof -
  have closed: "ResolveForwardUsage Info D St = Some St"
    if "FwdStatement Info < length (Stmts St)"
       "getStmtClass (Kind (Stmts St ! FwdStatement Info)) \<notin>
          {AssignStmtClass, AssignedGotoStmtClass, GotoStmtClass, ComputedGotoStmtClass,
           DoStmtClass}" for Info
    using that
    by (cases "Kind (Stmts St ! FwdStatement Info)")
       (simp_all add: ResolveForwardUsage_def getStmt_def)
  show ?thesis
    using DeclareStatementLabel_new [OF new D stack pending] closed by blast
qed

theorem patch_on_declare_witness:
  "Resolve (IntegerConstantExpr 4 10) (CurStmtLabelScope PendingExample) = Some None \<and>
   InArena (Stmts PendingExample) 3 \<and>
   (\<exists>St'. DeclareStatementLabel (IntegerConstantExpr 4 10) 3 PendingExample = Some St' \<and>
      Resolve (IntegerConstantExpr 4 10) (CurStmtLabelScope St') = Some (Some 3) \<and>
      getDestination (Kind (Stmts St' ! 0)) = Some 3 \<and>
      getAllowedValues (Kind (Stmts St' ! 1)) = [None, Some 3] \<and>
      getTerminatingStmt (Kind (Stmts St' ! 2)) = Some 3 \<and>
      ForwardStmtLabelDeclsInScope (CurStmtLabelScope St') =
        [ForwardDecl (IntegerConstantExpr 2 20) 1 0])"
proof -
  have new: "Resolve (IntegerConstantExpr 4 10) (CurStmtLabelScope PendingExample) = Some None"
    by (simp add: PendingExample_def EmptySema_def Scope_defs)
  have D: "InArena (Stmts PendingExample) 3"
    by (simp add: PendingExample_def EmptySema_def InArena_def mkStmt_def)
  have stack: "\<forall>E \<in> set (ControlFlowStack (CurBody PendingExample)).
                 OpenConstruct (Stmts PendingExample) E"
    by (simp add: PendingExample_def EmptySema_def OpenConstruct_def mkStmt_def)
  have pending: "\<forall>Info \<in> set (ForwardStmtLabelDeclsInScope (CurStmtLabelScope PendingExample)).
                   PatchableRequest (Stmts PendingExample) Info"
    by (simp add: PendingExample_def EmptySema_def PatchableRequest_def mkStmt_def ForwardDecl_def)
  have run: "\<exists>X. DeclareStatementLabel (IntegerConstantExpr 4 10) 3 PendingExample = Some X \<and>
      getDestination (Kind (Stmts X ! 0)) = Some 3 \<and>
      getAllowedValues (Kind (Stmts X ! 1)) = [None, Some 3] \<and>
      getTerminatingStmt (Kind (Stmts X ! 2)) = Some 3 \<and>
      ForwardStmtLabelDeclsInScope (CurStmtLabelScope X) =
        [ForwardDecl (IntegerConstantExpr 2 20) 1 0]"
    by (simp add: PendingExample_def Scope_defs State_defs Resolver_defs Block_defs Let_def)
  from patch_on_declare [OF new D stack pending]
  obtain St' where a: "DeclareStatementLabel (IntegerConstantExpr 4 10) 3 PendingExample = Some St'"
    and b: "Resolve (IntegerConstantExpr 4 10) (CurStmtLabelScope St') = Some (Some 3)"
    by blast
  show ?thesis
    using new D a b run by auto
qed

text \<open>
  C4. Declaring a label value that is not declared yet, and then the same value again,
  reports exactly one \<open>DuplicateLabel\<close> diagnostic, which carries the location of the
  second label and the location of the first declaring statement; afterwards the label
  resolves to the first declaring statement. In the label table itself, \<^verbatim>\<open>Declare\<close> keeps
  the mapping that is already there.
\<close>

theorem duplicate_label_first_wins:
  fixes St :: "('w::len) Sema"
  assumes new: "Resolve L1 (CurStmtLabelScope St) = Some None"
    and first: "InArena (Stmts St) R1"
    and stack: "\<forall>E \<in> set (ControlFlowStack (CurBody St)). OpenConstruct (Stmts St) E"
    and pending: "\<forall>Info \<in> set (ForwardStmtLabelDeclsInScope (CurStmtLabelScope St)).
                    PatchableRequest (Stmts St) Info"
    and same: "IsSame (CurStmtLabelScope St) L2 L1 = Some True"
  shows "(\<exists>St1 St2.
            DeclareStatementLabel L1 R1 St = Some St1 \<and>
            DeclareStatementLabel L2 R2 St1 = Some St2 \<and>
            Diags St2 = Diags St1 @ [(DuplicateLabel, getLocation L2,
                                      [ArgLabel L2, ArgLoc (StmtLoc (Stmts St ! R1))])] \<and>
            DuplicateLabelDiagnostics (Diags St2) =
              DuplicateLabelDiagnostics (Diags St) @
              [(DuplicateLabel, getLocation L2, [ArgLabel L2, ArgLoc (StmtLoc (Stmts St ! R1))])] \<and>
            Resolve L1 (CurStmtLabelScope St2) = Some (Some R1) \<and>
            Resolve L2 (CurStmtLabelScope St2) = Some (Some R1)) \<and>
         (Declare L1 R1 (CurStmtLabelScope St) \<bind> Declare L2 R2 \<bind> Resolve L2) = Some (Some R1)"
proof -
  obtain St1 where run1: "DeclareStatementLabel L1 R1 St = Some St1"
    and res1: "Resolve L1 (CurStmtLabelScope St1) = Some (Some R1)"
    and patches: "Patches R1 (Stmts St) (Stmts St1)"
    and diags1: "DuplicateLabelDiagnostics (Diags St1) = DuplicateLabelDiagnostics (Diags St)"
    using DeclareStatementLabel_new [OF new first stack pending] by blast
  have same1: "IsSame (CurStmtLabelScope St1) L2 L1 = Some True"
    using same IsSame_scope [of "CurStmtLabelScope St1" L2 L1 "CurStmtLabelScope St"] by simp
  have res2: "Resolve L2 (CurStmtLabelScope St1) = Some (Some R1)"
    using res1 Resolve_same [OF same1, of "CurStmtLabelScope St1"] by simp
  have R1: "R1 < length (Stmts St)"
    using first by (simp add: InArena_def)
  then have get: "getStmt St1 R1 = Some (Stmts St1 ! R1)"
    using Patches_length [OF patches] by (simp add: getStmt_def)
  have loc: "StmtLoc (Stmts St1 ! R1) = StmtLoc (Stmts St ! R1)"
    using patches R1 by (simp add: Patches_def)
  define St2 where "St2 = Report (DuplicateLabel, getLocation L2,
                                 [ArgLabel L2, ArgLoc (StmtLoc (Stmts St ! R1))]) St1"
  have run2: "DeclareStatementLabel L2 R2 St1 = Some St2"
    by (simp add: DeclareStatementLabel_def res2 get loc St2_def)
  have d2: "Diags St2 = Diags St1 @ [(DuplicateLabel, getLocation L2,
                                      [ArgLabel L2, ArgLoc (StmtLoc (Stmts St ! R1))])]"
    by (simp add: St2_def Report_def)
  have dd: "DuplicateLabelDiagnostics (Diags St2) =
              DuplicateLabelDiagnostics (Diags St) @
              [(DuplicateLabel, getLocation L2, [ArgLabel L2, ArgLoc (StmtLoc (Stmts St ! R1))])]"
    using diags1 by (simp add: d2) (simp add: DuplicateLabelDiagnostics_def)
  have sc2: "CurStmtLabelScope St2 = CurStmtLabelScope St1"
    by (simp add: St2_def Report_def)
  have table: "(Declare L1 R1 (CurStmtLabelScope St) \<bind> Declare L2 R2 \<bind> Resolve L2) =
                 Some (Some R1)"
    using new same
    by (auto simp: IsSame_def Resolve_def Declare_def map_insert_def split: Option.bind_splits)
  show ?thesis
    using run1 run2 d2 dd res1 res2 table by (simp add: sc2)
qed

theorem duplicate_label_first_wins_witness:
  "Resolve (IntegerConstantExpr 4 10) (CurStmtLabelScope PendingExample) = Some None \<and>
   InArena (Stmts PendingExample) 3 \<and>
   IsSame (CurStmtLabelScope PendingExample) (IntegerConstantExpr 5 10) (IntegerConstantExpr 4 10) =
     Some True \<and>
   (\<exists>St1 St2.
      DeclareStatementLabel (IntegerConstantExpr 4 10) 3 PendingExample = Some St1 \<and>
      DeclareStatementLabel (IntegerConstantExpr 5 10) 4 St1 = Some St2 \<and>
      DuplicateLabelDiagnostics (Diags St2) =
        [(DuplicateLabel, 5, [ArgLabel (IntegerConstantExpr 5 10), ArgLoc 4])] \<and>
      Resolve (IntegerConstantExpr 5 10) (CurStmtLabelScope St2) = Some (Some 3))"
proof -
  have new: "Resolve (IntegerConstantExpr 4 10) (CurStmtLabelScope PendingExample) = Some None"
    by (simp add: PendingExample_def EmptySema_def Scope_defs)
  have first: "InArena (Stmts PendingExample) 3"
    by (simp add: PendingExample_def EmptySema_def InArena_def mkStmt_def)
  have stack: "\<forall>E \<in> set (ControlFlowStack (CurBody PendingExample)).
                 OpenConstruct (Stmts PendingExample) E"
    by (simp add: PendingExample_def EmptySema_def OpenConstruct_def mkStmt_def)
  have pending: "\<forall>Info \<in> set (ForwardStmtLabelDeclsInScope (CurStmtLabelScope PendingExample)).
                   PatchableRequest (Stmts PendingExample) Info"
    by (simp add: PendingExample_def EmptySema_def PatchableRequest_def mkStmt_def ForwardDecl_def)
  have same: "IsSame (CurStmtLabelScope PendingExample) (IntegerConstantExpr 5 10)
                (IntegerConstantExpr 4 10) = Some True"
    by (simp add: IsSame_def GetStmtLabelValue_def)
  have facts: "Diags PendingExample = []" "StmtLoc (Stmts PendingExample ! 3) = 4"
    by (simp_all add: PendingExample_def EmptySema_def mkStmt_def)
  note t = duplicate_label_first_wins [OF new first stack pending same, of 4]
  show ?thesis
    using new first same t
    by (simp add: facts DuplicateLabelDiagnostics_def) blast
qed

end
